theory Spec2Isabelle
  imports Main "HOL-Library.AList" "HOL-Library.Sublist"
begin

section \<open>Python values\<close>

text \<open>
  The servers exchange JSON documents. A Python \<open>str\<close> is modelled as a \<open>string\<close>
  whose characters stand for code points below 256, so \<open>length\<close> is Python's \<open>len\<close>.
  A \<open>dict\<close> is an association list with distinct keys in insertion order. A float
  \<open>JFloat m e\<close> stands for the finite value \<open>m * 2 ^ e\<close>; only its truth value is used.
\<close>

datatype json =
    JNull
  | JBool bool
  | JInt int
  | JFloat int int
  | JStr string
  | JList "json list"
  | JObj "(string \<times> json) list"

type_synonym pydict = "(string \<times> json) list"

text \<open>An exception carries the text that \<open>str(e)\<close> returns.\<close>

datatype py_exception =
    TimeoutExpired string
  | JSONDecodeError string
  | TypeError string
  | AttributeError string
  | KeyError string
  | IndexError string
  | ValueError string
  | OtherException string

fun exc_str :: "py_exception \<Rightarrow> string" where
  "exc_str (TimeoutExpired m) = m"
| "exc_str (JSONDecodeError m) = m"
| "exc_str (TypeError m) = m"
| "exc_str (AttributeError m) = m"
| "exc_str (KeyError m) = m"
| "exc_str (IndexError m) = m"
| "exc_str (ValueError m) = m"
| "exc_str (OtherException m) = m"

fun is_TimeoutExpired :: "py_exception \<Rightarrow> bool" where
  "is_TimeoutExpired (TimeoutExpired m) = True"
| "is_TimeoutExpired e = False"

fun is_JSONDecodeError :: "py_exception \<Rightarrow> bool" where
  "is_JSONDecodeError (JSONDecodeError m) = True"
| "is_JSONDecodeError e = False"

fun py_type_name :: "json \<Rightarrow> string" where
  "py_type_name JNull = ''NoneType''"
| "py_type_name (JBool b) = ''bool''"
| "py_type_name (JInt i) = ''int''"
| "py_type_name (JFloat m e) = ''float''"
| "py_type_name (JStr s) = ''str''"
| "py_type_name (JList l) = ''list''"
| "py_type_name (JObj d) = ''dict''"

text \<open>Truth value of an object, as \<open>not x\<close> and \<open>all([...])\<close> test it.\<close>

fun py_truthy :: "json \<Rightarrow> bool" where
  "py_truthy JNull = False"
| "py_truthy (JBool b) = b"
| "py_truthy (JInt i) = (i \<noteq> 0)"
| "py_truthy (JFloat m e) = (m \<noteq> 0)"
| "py_truthy (JStr s) = (s \<noteq> [])"
| "py_truthy (JList l) = (l \<noteq> [])"
| "py_truthy (JObj d) = (d \<noteq> [])"

subsection \<open>String operations\<close>

text \<open>\<open>sub in s\<close> on two strings.\<close>

fun contains :: "string \<Rightarrow> string \<Rightarrow> bool" where
  "contains sub [] = (sub = [])"
| "contains sub (c # cs) = (prefix sub (c # cs) \<or> contains sub cs)"

text \<open>
  \<open>s.split(sep)\<close> for a non-empty separator: the leftmost occurrences of \<open>sep\<close>, not
  overlapping, cut the string. (Python raises \<open>ValueError\<close> for an empty separator; every
  call in the source passes a non-empty literal.)
\<close>

function split_from :: "string \<Rightarrow> string \<Rightarrow> string \<Rightarrow> string list" where
  "split_from sep piece [] = [piece]"
| "split_from sep piece (c # cs) =
     (if sep \<noteq> [] \<and> prefix sep (c # cs)
      then piece # split_from sep [] (drop (length sep) (c # cs))
      else split_from sep (piece @ [c]) cs)"
  by pat_completeness auto
termination
  by (relation "measure (\<lambda>(sep, piece, s). length s)") auto

definition py_split :: "string \<Rightarrow> string \<Rightarrow> string list" where
  "py_split sep s = split_from sep [] s"

text \<open>
  \<open>str.isspace\<close> on one character, for code points below 256: TAB, LF, VT, FF, CR,
  the separators 28 to 31, the space, NEL (133) and the no-break space (160). The
  \<open>\s\<close> of \<open>re\<close> on a \<open>str\<close> pattern is the same set.
\<close>

definition py_isspace :: "char \<Rightarrow> bool" where
  "py_isspace c = ((of_char c :: nat) \<in> {9, 10, 11, 12, 13, 28, 29, 30, 31, 32, 133, 160})"

definition py_strip :: "string \<Rightarrow> string" where
  "py_strip s = rev (dropWhile py_isspace (rev (dropWhile py_isspace s)))"

text \<open>\<open>str(n)\<close> of an integer.\<close>

definition digit_char :: "nat \<Rightarrow> char" where
  "digit_char d = char_of (48 + d)"

function nat_to_str :: "nat \<Rightarrow> string" where
  "nat_to_str n = (if n < 10 then [digit_char n] else nat_to_str (n div 10) @ [digit_char (n mod 10)])"
  by pat_completeness auto
termination
  by (relation "measure (\<lambda>n. n)") auto

declare nat_to_str.simps [simp del]

definition int_to_str :: "int \<Rightarrow> string" where
  "int_to_str i = (if i < 0 then ''-'' @ nat_to_str (nat (- i)) else nat_to_str (nat i))"

definition is_digit :: "char \<Rightarrow> bool" where
  "is_digit c = (c \<in> set ''0123456789'')"

definition digit_val :: "char \<Rightarrow> nat" where
  "digit_val c = of_char c - 48"

text \<open>
  \<open>int(ds)\<close> of a non-empty string of decimal digits, as \<open>int(match.group(1))\<close> calls it.
  The interpreter refuses a string of more digits than its limit
  \<open>sys.get_int_max_str_digits()\<close> with a \<open>ValueError\<close>; the limit is 4300 unless it was
  changed, and 0 switches the check off. The number returned has no more digits than the
  string, so printing it again (in an f-string, in \<open>json.dumps\<close>) is within the limit.
\<close>

definition decimal :: "string \<Rightarrow> nat" where
  "decimal ds = foldl (\<lambda>a c. 10 * a + digit_val c) 0 ds"

definition int_limit_error :: "nat \<Rightarrow> string \<Rightarrow> py_exception" where
  "int_limit_error limit ds =
     ValueError (''Exceeds the limit ('' @ nat_to_str limit @
                 '' digits) for integer string conversion: value has '' @
                 nat_to_str (length ds) @
                 '' digits; use sys.set_int_max_str_digits() to increase the limit'')"

definition py_int :: "nat \<Rightarrow> string \<Rightarrow> py_exception + nat" where
  "py_int limit ds =
     (if 0 < limit \<and> limit < length ds then Inl (int_limit_error limit ds)
      else Inr (decimal ds))"

subsection \<open>The three regular expressions of the source\<close>

text \<open>
  \<open>re.search(p, s)\<close> tries the pattern at position 0, 1, ... of \<open>s\<close> and returns the first
  position where it matches. The patterns are \<open>(\d+)\s+file\<close> and
  \<open>Label:\s+(\d+)\<close>. Digits, whitespace and the letter after them are disjoint classes, so
  a greedy repetition that backtracks matches exactly where the maximal runs do: the
  matchers below take maximal runs. They return group 1.
\<close>

definition match_count_file :: "string \<Rightarrow> string option" where
  "match_count_file s =
     (let ds = takeWhile is_digit s; r1 = dropWhile is_digit s;
          ws = takeWhile py_isspace r1; r2 = dropWhile py_isspace r1
      in if ds \<noteq> [] \<and> ws \<noteq> [] \<and> prefix ''file'' r2 then Some ds else None)"

definition match_label_count :: "string \<Rightarrow> string \<Rightarrow> string option" where
  "match_label_count label s =
     (if prefix label s
      then (let r1 = drop (length label) s;
                ws = takeWhile py_isspace r1; r2 = dropWhile py_isspace r1;
                ds = takeWhile is_digit r2
            in if ws \<noteq> [] \<and> ds \<noteq> [] then Some ds else None)
      else None)"

fun re_search :: "(string \<Rightarrow> 'a option) \<Rightarrow> string \<Rightarrow> 'a option" where
  "re_search m [] = m []"
| "re_search m (c # cs) = (case m (c # cs) of Some g \<Rightarrow> Some g | None \<Rightarrow> re_search m cs)"

text \<open>\<open>key in x\<close> for a string key and an arbitrary JSON value.\<close>

fun py_in :: "string \<Rightarrow> json \<Rightarrow> py_exception + bool" where
  "py_in k (JObj d) = Inr (k \<in> fst ` set d)"
| "py_in k (JList l) = Inr (JStr k \<in> set l)"
| "py_in k (JStr s) = Inr (contains k s)"
| "py_in k v = Inl (TypeError (''argument of type '' @ [CHR 0x27] @ py_type_name v @ [CHR 0x27] @ '' is not iterable''))"

text \<open>\<open>x[key]\<close> for a string key.\<close>

fun py_getitem :: "json \<Rightarrow> string \<Rightarrow> py_exception + json" where
  "py_getitem (JObj d) k =
     (case map_of d k of None \<Rightarrow> Inl (KeyError ([CHR 0x27] @ k @ [CHR 0x27])) | Some v \<Rightarrow> Inr v)"
| "py_getitem (JList l) k = Inl (TypeError ''list indices must be integers or slices, not str'')"
| "py_getitem (JStr s) k = Inl (TypeError (''string indices must be integers, not 'str'' @ [CHR 0x27]))"
| "py_getitem v k = Inl (TypeError ([CHR 0x27] @ py_type_name v @ [CHR 0x27] @ '' object is not subscriptable''))"

text \<open>\<open>x.get(key)\<close>: \<open>None\<close> for a missing key.\<close>

fun py_get :: "json \<Rightarrow> string \<Rightarrow> py_exception + json" where
  "py_get (JObj d) k = Inr (case map_of d k of None \<Rightarrow> JNull | Some v \<Rightarrow> v)"
| "py_get v k = Inl (AttributeError ([CHR 0x27] @ py_type_name v @ [CHR 0x27] @ '' object has no attribute 'get'' @ [CHR 0x27]))"

text \<open>\<open>len(x)\<close>.\<close>

fun py_len :: "json \<Rightarrow> py_exception + nat" where
  "py_len (JStr s) = Inr (length s)"
| "py_len (JList l) = Inr (length l)"
| "py_len (JObj d) = Inr (length d)"
| "py_len v = Inl (TypeError (''object of type '' @ [CHR 0x27] @ py_type_name v @ [CHR 0x27] @ '' has no len()''))"

text \<open>\<open>x.split('\n')\<close>: only a \<open>str\<close> has the method.\<close>

fun py_split_lines :: "json \<Rightarrow> py_exception + string list" where
  "py_split_lines (JStr s) = Inr (py_split ''\<newline>'' s)"
| "py_split_lines v = Inl (AttributeError ([CHR 0x27] @ py_type_name v @ [CHR 0x27] @ '' object has no attribute 'split'' @ [CHR 0x27]))"

text \<open>\<open>d.update(extra)\<close> and \<open>{**d, **extra}\<close>: a key keeps its place, a new key goes last.\<close>

definition dict_update :: "pydict \<Rightarrow> pydict \<Rightarrow> pydict" where
  "dict_update d extra = fold (\<lambda>(k, v). AList.update k v) extra d"

section \<open>Execution Bridge and environment\<close>

record raw_result =
  returncode :: int
  stdout :: string
  stderr :: string

datatype run_outcome = Completed raw_result | Raise py_exception

text \<open>
  \<open>subprocess.run(['docker', 'exec', CONTAINER_NAME, 'bash', '-c', cmd], capture_output=True,
  text=True, timeout=t)\<close> is a call \<open>bridge cmd t\<close> on the state of the execution target; a
  test double counts the calls in its state.
\<close>

type_synonym 's bridge = "string \<Rightarrow> int \<Rightarrow> 's \<Rightarrow> run_outcome \<times> 's"

text \<open>
  What the handlers take from the clock and from the Python library:
  \<open>datetime.utcnow().isoformat()\<close>, \<open>datetime.now().strftime('%Y%m%d_%H%M%S')\<close>,
  \<open>json.loads\<close>, \<open>json.dumps(x, indent=2)\<close>, \<open>str\<close> of a value that is not a string,
  \<open>base64.b64encode(s.encode('utf-8')).decode('utf-8')\<close>, and the interpreter's limit
  \<open>sys.get_int_max_str_digits()\<close>. The two loops that
  group the messages of a PHPCS report by file and line (in \<open>process_phpcs_result\<close> and in
  \<open>process_phpcs_detailed\<close>) are taken as functions of the parsed report too: they return
  \<open>issues_by_file\<close>, \<open>total_errors\<close> and \<open>total_warnings\<close> or raise, and nothing stated
  below depends on which.
\<close>

record env =
  utcnow_iso :: string
  now_stamp :: string
  json_loads :: "string \<Rightarrow> py_exception + json"
  json_dumps :: "json \<Rightarrow> string"
  py_str :: "json \<Rightarrow> string"
  b64encode :: "string \<Rightarrow> string"
  int_max_str_digits :: nat
  phpcs_issues :: "json \<Rightarrow> py_exception + (json list \<times> json \<times> json)"
  phpcs_detailed_issues :: "json \<Rightarrow> py_exception + (json list \<times> json \<times> json)"

definition CONTAINER_NAME :: string where
  "CONTAINER_NAME = ''master-nextcloud-1''"

definition APP_PATH :: string where
  "APP_PATH = ''/var/www/html/apps-extra/openregister''"

text \<open>An f-string field: a \<open>str\<close> is inserted as it is, another value as \<open>str\<close> prints it.\<close>

definition fmt :: "env \<Rightarrow> json \<Rightarrow> string" where
  "fmt E v = (case v of JStr s \<Rightarrow> s | _ \<Rightarrow> py_str E v)"

section \<open>File operations of \<open>ai_code_fixing.py\<close>\<close>

text \<open>
  The test \<open>'..' in file_path or file_path.startswith('/')\<close>. A list or dict without the
  element \<open>'..'\<close> has no \<open>startswith\<close>; a number, bool or \<open>None\<close> is not iterable.
\<close>

fun path_check :: "json \<Rightarrow> py_exception + bool" where
  "path_check (JStr p) = Inr (contains ''..'' p \<or> prefix ''/'' p)"
| "path_check v =
     (case py_in ''..'' v of
        Inl e \<Rightarrow> Inl e
      | Inr True \<Rightarrow> Inr True
      | Inr False \<Rightarrow> Inl (AttributeError ([CHR 0x27] @ py_type_name v @ [CHR 0x27] @
            '' object has no attribute 'startswith'' @ [CHR 0x27])))"

definition read_file_handler ::
  "env \<Rightarrow> 's bridge \<Rightarrow> json \<Rightarrow> 's \<Rightarrow> (py_exception + pydict) \<times> 's" where
  "read_file_handler E bridge request_body s =
     (case py_in ''file'' request_body of
        Inl e \<Rightarrow> (Inl e, s)
      | Inr False \<Rightarrow> (Inr [(''error'', JStr ''Missing 'file' parameter in request body'')], s)
      | Inr True \<Rightarrow>
          (case py_getitem request_body ''file'' of
             Inl e \<Rightarrow> (Inl e, s)
           | Inr file_path \<Rightarrow>
               (case path_check file_path of
                  Inl e \<Rightarrow> (Inl e, s)
                | Inr True \<Rightarrow> (Inr [(''error'', JStr ''Invalid file path'')], s)
                | Inr False \<Rightarrow>
                    (case bridge (''cat /var/www/html/apps-extra/openregister/'' @ fmt E file_path) 10 s of
                       (Raise e, s') \<Rightarrow> (Inr [(''error'', JStr (exc_str e))], s')
                     | (Completed result, s') \<Rightarrow>
                         if returncode result \<noteq> 0
                         then (Inr [(''error'', JStr ''File not found or not readable''),
                                    (''stderr'', JStr (stderr result))], s')
                         else (Inr [(''file'', file_path),
                                    (''content'', JStr (stdout result)),
                                    (''size'', JInt (int (length (stdout result)))),
                                    (''lines'', JInt (int (length (py_split ''\<newline>'' (stdout result)))))],
                               s')))))"

definition write_file_handler ::
  "env \<Rightarrow> 's bridge \<Rightarrow> json \<Rightarrow> 's \<Rightarrow> (py_exception + pydict) \<times> 's" where
  "write_file_handler E bridge request_body s =
     (case py_in ''file'' request_body of
        Inl e \<Rightarrow> (Inl e, s)
      | Inr False \<Rightarrow> (Inr [(''error'', JStr ''Missing 'file' or 'content' parameter'')], s)
      | Inr True \<Rightarrow>
     (case py_in ''content'' request_body of
        Inl e \<Rightarrow> (Inl e, s)
      | Inr False \<Rightarrow> (Inr [(''error'', JStr ''Missing 'file' or 'content' parameter'')], s)
      | Inr True \<Rightarrow>
     (case py_getitem request_body ''file'' of
        Inl e \<Rightarrow> (Inl e, s)
      | Inr file_path \<Rightarrow>
     (case py_getitem request_body ''content'' of
        Inl e \<Rightarrow> (Inl e, s)
      | Inr content \<Rightarrow>
     (case path_check file_path of
        Inl e \<Rightarrow> (Inl e, s)
      | Inr True \<Rightarrow> (Inr [(''error'', JStr ''Invalid file path'')], s)
      | Inr False \<Rightarrow>
          (case bridge (''cat > /var/www/html/apps-extra/openregister/'' @ fmt E file_path @
                        '' << 'EOF'\<newline>'' @ fmt E content @ ''\<newline>EOF'') 10 s of
             (Raise e, s') \<Rightarrow> (Inr [(''error'', JStr (exc_str e))], s')
           | (Completed result, s') \<Rightarrow>
               if returncode result \<noteq> 0
               then (Inr [(''error'', JStr ''Failed to write file''),
                          (''stderr'', JStr (stderr result))], s')
               else (case py_len content of
                       Inl e \<Rightarrow> (Inr [(''error'', JStr (exc_str e))], s')
                     | Inr n \<Rightarrow>
                    (case py_split_lines content of
                       Inl e \<Rightarrow> (Inr [(''error'', JStr (exc_str e))], s')
                     | Inr ls \<Rightarrow>
                         (Inr [(''file'', file_path),
                               (''bytes_written'', JInt (int n)),
                               (''lines_written'', JInt (int (length ls))),
                               (''status'', JStr ''success'')], s')))))))))"

definition backup_file_handler ::
  "env \<Rightarrow> 's bridge \<Rightarrow> json \<Rightarrow> 's \<Rightarrow> (py_exception + pydict) \<times> 's" where
  "backup_file_handler E bridge request_body s =
     (case py_in ''file'' request_body of
        Inl e \<Rightarrow> (Inl e, s)
      | Inr False \<Rightarrow> (Inr [(''error'', JStr ''Missing 'file' parameter'')], s)
      | Inr True \<Rightarrow>
     (case py_getitem request_body ''file'' of
        Inl e \<Rightarrow> (Inl e, s)
      | Inr file_path \<Rightarrow>
     (case path_check file_path of
        Inl e \<Rightarrow> (Inl e, s)
      | Inr True \<Rightarrow> (Inr [(''error'', JStr ''Invalid file path'')], s)
      | Inr False \<Rightarrow>
          (let timestamp = now_stamp E;
               backup_path = fmt E file_path @ ''.backup_'' @ timestamp
           in case bridge (''cp /var/www/html/apps-extra/openregister/'' @ fmt E file_path @ '' '' @
                           ''/var/www/html/apps-extra/openregister/'' @ backup_path) 10 s of
                (Raise e, s') \<Rightarrow> (Inr [(''error'', JStr (exc_str e))], s')
              | (Completed result, s') \<Rightarrow>
                  if returncode result \<noteq> 0
                  then (Inr [(''error'', JStr ''Failed to create backup''),
                             (''stderr'', JStr (stderr result))], s')
                  else (Inr [(''original_file'', file_path),
                             (''backup_file'', JStr backup_path),
                             (''timestamp'', JStr timestamp),
                             (''status'', JStr ''success'')], s')))))"

section \<open>File operations of \<open>container-api-ai.py\<close>\<close>

text \<open>The test \<open>not file_path or '..' in file_path\<close>.\<close>

definition ai_path_check :: "json \<Rightarrow> py_exception + bool" where
  "ai_path_check file_path =
     (if \<not> py_truthy file_path then Inr True else py_in ''..'' file_path)"

definition read_file ::
  "env \<Rightarrow> 's bridge \<Rightarrow> json \<Rightarrow> 's \<Rightarrow> (py_exception + pydict) \<times> 's" where
  "read_file E bridge file_path s =
     (case ai_path_check file_path of
        Inl e \<Rightarrow> (Inl e, s)
      | Inr True \<Rightarrow> (Inr [(''error'', JStr ''Invalid file path'')], s)
      | Inr False \<Rightarrow>
          (case bridge (''cat '' @ APP_PATH @ ''/'' @ fmt E file_path) 10 s of
             (Raise e, s') \<Rightarrow> (Inl e, s')
           | (Completed result, s') \<Rightarrow>
               if returncode result \<noteq> 0
               then (Inr [(''error'', JStr ''File not found'')], s')
               else (Inr [(''file'', file_path),
                          (''content'', JStr (stdout result)),
                          (''size'', JInt (int (length (stdout result)))),
                          (''lines'', JInt (int (length (py_split ''\<newline>'' (stdout result)))))],
                     s')))"

text \<open>\<open>content.encode('utf-8')\<close>: only a \<open>str\<close> has the method.\<close>

fun py_encode :: "json \<Rightarrow> py_exception + string" where
  "py_encode (JStr s) = Inr s"
| "py_encode v = Inl (AttributeError ([CHR 0x27] @ py_type_name v @ [CHR 0x27] @ '' object has no attribute 'encode'' @ [CHR 0x27]))"

definition write_file ::
  "env \<Rightarrow> 's bridge \<Rightarrow> json \<Rightarrow> json \<Rightarrow> 's \<Rightarrow> (py_exception + pydict) \<times> 's" where
  "write_file E bridge file_path content s =
     (case ai_path_check file_path of
        Inl e \<Rightarrow> (Inl e, s)
      | Inr True \<Rightarrow> (Inr [(''error'', JStr ''Invalid file path'')], s)
      | Inr False \<Rightarrow>
     (case py_encode content of
        Inl e \<Rightarrow> (Inl e, s)
      | Inr text \<Rightarrow>
          (let encoded = b64encode E text
           in case bridge (''echo '' @ [CHR 0x22] @ encoded @ [CHR 0x22] @ '' | base64 -d > '' @ APP_PATH @ ''/'' @ fmt E file_path) 10 s of
                (Raise e, s') \<Rightarrow> (Inl e, s')
              | (Completed result, s') \<Rightarrow>
                  if returncode result \<noteq> 0
                  then (Inr [(''error'', JStr ''Failed to write file'')], s')
                  else (Inr [(''file'', file_path),
                             (''bytes_written'', JInt (int (length text))),
                             (''status'', JStr ''success'')], s'))))"

definition backup_file ::
  "env \<Rightarrow> 's bridge \<Rightarrow> json \<Rightarrow> 's \<Rightarrow> (py_exception + pydict) \<times> 's" where
  "backup_file E bridge file_path s =
     (case ai_path_check file_path of
        Inl e \<Rightarrow> (Inl e, s)
      | Inr True \<Rightarrow> (Inr [(''error'', JStr ''Invalid file path'')], s)
      | Inr False \<Rightarrow>
          (let timestamp = now_stamp E;
               backup_path = fmt E file_path @ ''.backup_'' @ timestamp
           in case bridge (''cp '' @ APP_PATH @ ''/'' @ fmt E file_path @ '' '' @
                           APP_PATH @ ''/'' @ backup_path) 10 s of
                (Raise e, s') \<Rightarrow> (Inl e, s')
              | (Completed result, s') \<Rightarrow>
                  if returncode result \<noteq> 0
                  then (Inr [(''error'', JStr ''Failed to create backup'')], s')
                  else (Inr [(''original'', file_path),
                             (''backup'', JStr backup_path),
                             (''timestamp'', JStr timestamp)], s')))"

section \<open>HTTP requests and responses\<close>

text \<open>
  A response is the status code of \<open>send_response\<close> and the JSON object written to
  \<open>wfile\<close>. Of a POST request the handlers use the path and the outcome of reading the
  body: \<open>int(self.headers.get('Content-Length', 0))\<close> is 0 (\<open>EmptyBody\<close>), or reading,
  decoding and \<open>json.loads\<close> raise (\<open>BodyError\<close>), or they give a JSON value.
\<close>

record http_response =
  status_code :: nat
  body :: pydict

datatype body_read = EmptyBody | BodyError py_exception | Parsed json

definition send_json :: "pydict \<Rightarrow> http_response" where
  "send_json data = \<lparr>status_code = 200, body = data\<rparr>"

definition send_error :: "nat \<Rightarrow> string \<Rightarrow> http_response" where
  "send_error code message = \<lparr>status_code = code, body = [(''error'', JStr message)]\<rparr>"

subsection \<open>\<open>ContainerAPIHandler._handle_file_operation\<close>\<close>

definition file_operations :: "string list" where
  "file_operations = [''read-file'', ''write-file'', ''backup-file'']"

definition ContainerAPIHandler_handle_file_operation ::
  "env \<Rightarrow> 's bridge \<Rightarrow> string \<Rightarrow> body_read \<Rightarrow> 's \<Rightarrow> http_response \<times> 's" where
  "ContainerAPIHandler_handle_file_operation E bridge operation rb s =
     (case rb of
        EmptyBody \<Rightarrow> (\<lparr>status_code = 400, body = [(''error'', JStr ''Request body required'')]\<rparr>, s)
      | BodyError e \<Rightarrow>
          if is_JSONDecodeError e
          then (\<lparr>status_code = 400, body = [(''error'', JStr ''Invalid JSON in request body'')]\<rparr>, s)
          else (\<lparr>status_code = 500, body = [(''error'', JStr (exc_str e))]\<rparr>, s)
      | Parsed request_data \<Rightarrow>
          (case (if operation = ''read-file'' then read_file_handler E bridge request_data s
                 else if operation = ''write-file'' then write_file_handler E bridge request_data s
                 else if operation = ''backup-file'' then backup_file_handler E bridge request_data s
                 else (Inr [(''error'', JStr ''Unknown operation'')], s)) of
             (Inl e, s') \<Rightarrow> (\<lparr>status_code = 500, body = [(''error'', JStr (exc_str e))]\<rparr>, s')
           | (Inr result, s') \<Rightarrow>
               (\<lparr>status_code = (if ''error'' \<notin> fst ` set result then 200 else 400),
                 body = dict_update [(''timestamp'', JStr (utcnow_iso E @ ''Z'')),
                                     (''operation'', JStr operation),
                                     (''container'', JStr CONTAINER_NAME)] result\<rparr>, s')))"

subsection \<open>\<open>AICodeFixingHandler._handle_file_operation\<close>\<close>

text \<open>
  Here an empty body reaches \<open>json.loads('')\<close>, which raises. An operation other than
  the three leaves \<open>result\<close> unbound (\<open>UnboundLocalError\<close>); \<open>do_POST\<close> never passes one.
\<close>

definition AICodeFixingHandler_handle_file_operation ::
  "env \<Rightarrow> 's bridge \<Rightarrow> string \<Rightarrow> body_read \<Rightarrow> 's \<Rightarrow> http_response \<times> 's" where
  "AICodeFixingHandler_handle_file_operation E bridge operation rb s =
     (case rb of
        EmptyBody \<Rightarrow> (send_error 500 ''Expecting value: line 1 column 1 (char 0)'', s)
      | BodyError e \<Rightarrow> (send_error 500 (exc_str e), s)
      | Parsed b \<Rightarrow>
          (case (if operation = ''read-file'' then
                   (case py_get b ''file'' of
                      Inl e \<Rightarrow> (Inl e, s)
                    | Inr file_path \<Rightarrow> read_file E bridge file_path s)
                 else if operation = ''write-file'' then
                   (case py_get b ''file'' of
                      Inl e \<Rightarrow> (Inl e, s)
                    | Inr file_path \<Rightarrow>
                        (case py_get b ''content'' of
                           Inl e \<Rightarrow> (Inl e, s)
                         | Inr content \<Rightarrow> write_file E bridge file_path content s))
                 else if operation = ''backup-file'' then
                   (case py_get b ''file'' of
                      Inl e \<Rightarrow> (Inl e, s)
                    | Inr file_path \<Rightarrow> backup_file E bridge file_path s)
                 else (Inl (OtherException
                   ''cannot access local variable 'result' where it is not associated with a value''), s)) of
             (Inl e, s') \<Rightarrow> (send_error 500 (exc_str e), s')
           | (Inr result, s') \<Rightarrow> (send_json result, s')))"

section \<open>Commands of \<open>container-api.py\<close>\<close>

record 's CommandConfig =
  name :: string
  command :: string
  timeout :: int
  description :: string
  post_processor :: "(raw_result \<Rightarrow> 's \<Rightarrow> (py_exception + pydict) \<times> 's) option"

subsection \<open>Post-processors\<close>

definition process_phpqa_result ::
  "env \<Rightarrow> 's bridge \<Rightarrow> raw_result \<Rightarrow> 's \<Rightarrow> (py_exception + pydict) \<times> 's" where
  "process_phpqa_result E bridge result s =
     (case bridge (''cat '' @ APP_PATH @ ''/phpqa/phpqa.json 2>/dev/null || echo '' @
                   [CHR 0x22] @ ''{}'' @ [CHR 0x22]) 10 s of
        (Raise e, s') \<Rightarrow>
          (Inr [(''phpqa_report'',
                 JObj [(''error'', JStr (''Failed to parse phpqa.json: '' @ exc_str e))])], s')
      | (Completed json_result, s') \<Rightarrow>
          (case json_loads E (stdout json_result) of
             Inl e \<Rightarrow>
               (Inr [(''phpqa_report'',
                      JObj [(''error'', JStr (''Failed to parse phpqa.json: '' @ exc_str e))])], s')
           | Inr phpqa_json \<Rightarrow>
               (Inr [(''phpqa_report'', phpqa_json),
                     (''report_files'',
                      JObj [(''json'', JStr ''phpqa/phpqa.json''),
                            (''html'', JStr ''phpqa/phpqa-offline.html''),
                            (''metrics'', JStr ''phpqa/phpmetrics/'')])], s')))"

text \<open>
  The body of the loop over the output lines, and the loop: a later matching line
  overwrites the count, and a \<open>ValueError\<close> of \<open>int\<close> leaves the loop and the function.
\<close>

definition cs_fix_line :: "env \<Rightarrow> nat \<Rightarrow> string \<Rightarrow> py_exception + nat" where
  "cs_fix_line E files_fixed line =
     (if contains ''Fixed'' line \<or> contains ''fixed'' line
      then (case re_search match_count_file line of
              Some ds \<Rightarrow> py_int (int_max_str_digits E) ds
            | None \<Rightarrow> Inr files_fixed)
      else Inr files_fixed)"

fun cs_fix_loop :: "env \<Rightarrow> nat \<Rightarrow> string list \<Rightarrow> py_exception + nat" where
  "cs_fix_loop E files_fixed [] = Inr files_fixed"
| "cs_fix_loop E files_fixed (line # output_lines) =
     (case cs_fix_line E files_fixed line of
        Inl e \<Rightarrow> Inl e
      | Inr n \<Rightarrow> cs_fix_loop E n output_lines)"

definition process_cs_fix_result :: "env \<Rightarrow> raw_result \<Rightarrow> py_exception + pydict" where
  "process_cs_fix_result E result =
     (case cs_fix_loop E 0 (py_split ''\<newline>'' (stdout result)) of
        Inl e \<Rightarrow> Inl e
      | Inr files_fixed \<Rightarrow>
          Inr [(''files_fixed'', JInt (int files_fixed)),
               (''message'', JStr (if files_fixed > 0
                                   then ''Fixed '' @ nat_to_str files_fixed @ '' file(s)''
                                   else ''No files needed fixing''))])"

text \<open>
  \<open>int(m.group(1)) if m else 0\<close> for the match \<open>m\<close> of a label's pattern. The three searches
  come first; the dictionary is then built entry by entry, so the first \<open>int\<close> that raises
  ends the function.
\<close>

definition metric :: "env \<Rightarrow> string \<Rightarrow> string \<Rightarrow> py_exception + nat" where
  "metric E label output =
     (case re_search (match_label_count label) output of
        Some ds \<Rightarrow> py_int (int_max_str_digits E) ds
      | None \<Rightarrow> Inr 0)"

definition process_test_result :: "env \<Rightarrow> raw_result \<Rightarrow> py_exception + pydict" where
  "process_test_result E result =
     (let output = stdout result
      in case metric E ''Tests:'' output of
           Inl e \<Rightarrow> Inl e
         | Inr tests_run \<Rightarrow>
        (case metric E ''Assertions:'' output of
           Inl e \<Rightarrow> Inl e
         | Inr assertions \<Rightarrow>
        (case metric E ''Failures:'' output of
           Inl e \<Rightarrow> Inl e
         | Inr failures \<Rightarrow>
             Inr [(''tests_run'', JInt (int tests_run)),
                  (''assertions'', JInt (int assertions)),
                  (''failures'', JInt (int failures)),
                  (''success'', JBool (returncode result = 0))])))"

text \<open>\<open>process_phpcs_result\<close> of \<open>ai_code_fixing.py\<close>.\<close>

definition process_phpcs_result ::
  "env \<Rightarrow> 's bridge \<Rightarrow> raw_result \<Rightarrow> 's \<Rightarrow> (py_exception + pydict) \<times> 's" where
  "process_phpcs_result E bridge result s =
     (case bridge (''cd /var/www/html/apps-extra/openregister && '' @
                   ''./vendor/bin/phpcs --report=json --standard=PSR12 lib/ 2>&1'') 60 s of
        (Raise e, s') \<Rightarrow>
          (Inr [(''phpcs_issues'', JList []),
                (''error'', JStr (''Failed to parse PHPCS output: '' @ exc_str e))], s')
      | (Completed json_result, s') \<Rightarrow>
          (case json_loads E (stdout json_result) of
             Inl e \<Rightarrow>
               (Inr [(''phpcs_issues'', JList []),
                     (''error'', JStr (''Failed to parse PHPCS output: '' @ exc_str e))], s')
           | Inr phpcs_data \<Rightarrow>
               (case phpcs_issues E phpcs_data of
                  Inl e \<Rightarrow>
                    (Inr [(''phpcs_issues'', JList []),
                          (''error'', JStr (''Failed to parse PHPCS output: '' @ exc_str e))], s')
                | Inr (issues_by_file, total_errors, total_warnings) \<Rightarrow>
                    (Inr [(''phpcs_issues'', JList issues_by_file),
                          (''totals'',
                           JObj [(''files_with_issues'', JInt (int (length issues_by_file))),
                                 (''total_errors'', total_errors),
                                 (''total_warnings'', total_warnings)]),
                          (''ready_for_ai_fixing'', JBool (length issues_by_file > 0))], s'))))"

text \<open>
  A post-processor that makes no bridge call: one that may raise (\<open>local_pp\<close>) and one
  that returns a dictionary on every path (\<open>pure_pp\<close>).
\<close>

definition local_pp ::
  "(raw_result \<Rightarrow> py_exception + pydict) \<Rightarrow> raw_result \<Rightarrow> 's \<Rightarrow> (py_exception + pydict) \<times> 's" where
  "local_pp f result s = (f result, s)"

definition pure_pp ::
  "(raw_result \<Rightarrow> pydict) \<Rightarrow> raw_result \<Rightarrow> 's \<Rightarrow> (py_exception + pydict) \<times> 's" where
  "pure_pp f result s = (Inr (f result), s)"

subsection \<open>Command registry\<close>

text \<open>\<open>AI_COMMANDS\<close> of \<open>ai_code_fixing.py\<close>; the file operations have a handler and no command.\<close>

record 's ai_command_entry =
  ai_name :: string
  ai_command :: "string option"
  ai_timeout :: int
  ai_description :: string
  ai_post_processor :: "(raw_result \<Rightarrow> 's \<Rightarrow> (py_exception + pydict) \<times> 's) option"
  ai_handler :: "string option"

definition AI_COMMANDS :: "env \<Rightarrow> 's bridge \<Rightarrow> (string \<times> 's ai_command_entry) list" where
  "AI_COMMANDS E bridge =
     [(''phpcs-detailed'',
       \<lparr>ai_name = ''phpcs-detailed'',
        ai_command = Some ''./vendor/bin/phpcs --report=json --standard=PSR12 lib/'',
        ai_timeout = 60,
        ai_description = ''Run PHPCS and get detailed issues per file for AI fixing'',
        ai_post_processor = Some (process_phpcs_result E bridge),
        ai_handler = None\<rparr>),
      (''read-file'',
       \<lparr>ai_name = ''read-file'', ai_command = None, ai_timeout = 10,
        ai_description = ''Read a file from the container (use POST body: {'' @ [CHR 0x22] @ ''file'' @
           [CHR 0x22] @ '': '' @ [CHR 0x22] @ ''path/to/file.php'' @ [CHR 0x22] @ ''})'',
        ai_post_processor = None, ai_handler = Some ''read_file_handler''\<rparr>),
      (''write-file'',
       \<lparr>ai_name = ''write-file'', ai_command = None, ai_timeout = 10,
        ai_description = ''Write content to a file (use POST body: {'' @ [CHR 0x22] @ ''file'' @
           [CHR 0x22] @ '': '' @ [CHR 0x22] @ ''path'' @ [CHR 0x22] @ '', '' @ [CHR 0x22] @ ''content'' @
           [CHR 0x22] @ '': '' @ [CHR 0x22] @ ''...'' @ [CHR 0x22] @ ''})'',
        ai_post_processor = None, ai_handler = Some ''write_file_handler''\<rparr>),
      (''backup-file'',
       \<lparr>ai_name = ''backup-file'', ai_command = None, ai_timeout = 10,
        ai_description = ''Create a backup of a file before AI fixes'',
        ai_post_processor = None, ai_handler = Some ''backup_file_handler''\<rparr>)]"

text \<open>
  The merge loop: an entry without a handler becomes a \<open>CommandConfig\<close>. (An entry whose
  command is \<open>None\<close> has a handler; in an f-string \<open>None\<close> would print as \<open>None\<close>.)
\<close>

definition to_CommandConfig :: "'s ai_command_entry \<Rightarrow> 's CommandConfig" where
  "to_CommandConfig cmd_data =
     \<lparr>name = ai_name cmd_data,
      command = (case ai_command cmd_data of Some c \<Rightarrow> c | None \<Rightarrow> ''None''),
      timeout = ai_timeout cmd_data,
      description = ai_description cmd_data,
      post_processor = ai_post_processor cmd_data\<rparr>"

definition BASE_COMMANDS :: "env \<Rightarrow> 's bridge \<Rightarrow> (string \<times> 's CommandConfig) list" where
  "BASE_COMMANDS E bridge =
     [(''phpqa'', \<lparr>name = ''phpqa'', command = ''composer phpqa'', timeout = 300,
         description = ''Run full PHPQA analysis suite (PHPCS, PHPMD, PHPStan, Psalm, PHPMetrics)'',
         post_processor = Some (process_phpqa_result E bridge)\<rparr>),
      (''cs-fix'', \<lparr>name = ''cs-fix'', command = ''composer cs:fix'', timeout = 120,
         description = ''Auto-fix code style issues with PHP CS Fixer'',
         post_processor = Some (local_pp (process_cs_fix_result E))\<rparr>),
      (''cs-check'', \<lparr>name = ''cs-check'', command = ''composer cs:check'', timeout = 60,
         description = ''Check code style without fixing (dry-run)'',
         post_processor = None\<rparr>),
      (''phpstan'', \<lparr>name = ''phpstan'', command = ''composer phpstan'', timeout = 120,
         description = ''Run PHPStan static analysis'', post_processor = None\<rparr>),
      (''psalm'', \<lparr>name = ''psalm'', command = ''composer psalm'', timeout = 120,
         description = ''Run Psalm static analysis'', post_processor = None\<rparr>),
      (''test-unit'', \<lparr>name = ''test-unit'', command = ''composer test:unit'', timeout = 180,
         description = ''Run PHPUnit unit tests'',
         post_processor = Some (local_pp (process_test_result E))\<rparr>),
      (''test-integration'', \<lparr>name = ''test-integration'', command = ''composer test:integration'',
         timeout = 300, description = ''Run integration tests'',
         post_processor = Some (local_pp (process_test_result E))\<rparr>),
      (''composer-install'', \<lparr>name = ''composer-install'', command = ''composer install'',
         timeout = 180, description = ''Install composer dependencies'', post_processor = None\<rparr>),
      (''composer-update'', \<lparr>name = ''composer-update'', command = ''composer update'',
         timeout = 300, description = ''Update composer dependencies'', post_processor = None\<rparr>),
      (''npm-install'', \<lparr>name = ''npm-install'', command = ''npm install'', timeout = 180,
         description = ''Install npm dependencies'', post_processor = None\<rparr>),
      (''build-js'', \<lparr>name = ''build-js'', command = ''npm run build'', timeout = 120,
         description = ''Build JavaScript/Vue assets'', post_processor = None\<rparr>),
      (''watch-js'', \<lparr>name = ''watch-js'', command = ''npm run watch'', timeout = 3600,
         description = ''Watch and rebuild JavaScript on changes'', post_processor = None\<rparr>)]"

definition COMMANDS :: "env \<Rightarrow> 's bridge \<Rightarrow> (string \<times> 's CommandConfig) list" where
  "COMMANDS E bridge =
     fold (\<lambda>(cmd_name, cmd_data) cmds.
             if ai_handler cmd_data = None
             then AList.update cmd_name (to_CommandConfig cmd_data) cmds
             else cmds)
          (AI_COMMANDS E bridge) (BASE_COMMANDS E bridge)"

subsection \<open>\<open>ContainerAPIHandler._execute_command\<close> and \<open>do_POST\<close>\<close>

definition status_of_returncode :: "int \<Rightarrow> string" where
  "status_of_returncode rc = (if rc = 0 then ''success'' else ''completed_with_errors'')"

definition ContainerAPIHandler_execute_command ::
  "env \<Rightarrow> 's bridge \<Rightarrow> 's CommandConfig \<Rightarrow> 's \<Rightarrow> http_response \<times> 's" where
  "ContainerAPIHandler_execute_command E bridge cmd_config s =
     (case bridge (''cd '' @ APP_PATH @ '' && '' @ command cmd_config @ '' 2>&1'')
                  (timeout cmd_config) s of
        (Raise e, s') \<Rightarrow>
          if is_TimeoutExpired e
          then (\<lparr>status_code = 408,
                 body = [(''error'', JStr (''Request timeout after '' @
                            int_to_str (timeout cmd_config) @ '' seconds'')),
                         (''command'', JStr (name cmd_config))]\<rparr>, s')
          else (\<lparr>status_code = 500,
                 body = [(''error'', JStr (exc_str e)),
                         (''command'', JStr (name cmd_config))]\<rparr>, s')
      | (Completed result, s') \<Rightarrow>
          (let response_data =
                 [(''timestamp'', JStr (utcnow_iso E @ ''Z'')),
                  (''command'', JStr (name cmd_config)),
                  (''full_command'', JStr (command cmd_config)),
                  (''status'', JStr (status_of_returncode (returncode result))),
                  (''exit_code'', JInt (returncode result)),
                  (''output'', JStr (stdout result)),
                  (''container'', JStr CONTAINER_NAME)]
           in case post_processor cmd_config of
                None \<Rightarrow> (\<lparr>status_code = 200, body = response_data\<rparr>, s')
              | Some pp \<Rightarrow>
                  (case pp result s' of
                     (Inr extra_data, s'') \<Rightarrow>
                       (\<lparr>status_code = 200, body = dict_update response_data extra_data\<rparr>, s'')
                   | (Inl e, s'') \<Rightarrow>
                       (\<lparr>status_code = 200,
                         body = AList.update ''post_processor_error'' (JStr (exc_str e))
                                  response_data\<rparr>, s''))))"

definition ContainerAPIHandler_do_POST ::
  "env \<Rightarrow> 's bridge \<Rightarrow> string \<Rightarrow> body_read \<Rightarrow> 's \<Rightarrow> http_response \<times> 's" where
  "ContainerAPIHandler_do_POST E bridge path rb s =
     (let command_name = dropWhile (\<lambda>c. c = CHR ''/'') path
      in if command_name \<in> set file_operations
         then ContainerAPIHandler_handle_file_operation E bridge command_name rb s
         else (case map_of (COMMANDS E bridge) command_name of
                 Some cmd_config \<Rightarrow> ContainerAPIHandler_execute_command E bridge cmd_config s
               | None \<Rightarrow>
                   (\<lparr>status_code = 404,
                     body = [(''error'', JStr (''Unknown command: '' @ command_name)),
                             (''available_commands'',
                              JList (map JStr (map fst (COMMANDS E bridge) @ file_operations)))]\<rparr>,
                    s)))"

section \<open>Commands and AI fix of \<open>container-api-ai.py\<close>\<close>

record 's command_dict =
  cmd_command :: string
  cmd_timeout :: int
  cmd_description :: string
  cmd_post_processor :: "(raw_result \<Rightarrow> 's \<Rightarrow> (py_exception + pydict) \<times> 's) option"

definition process_phpcs_detailed :: "env \<Rightarrow> raw_result \<Rightarrow> pydict" where
  "process_phpcs_detailed E result =
     (case json_loads E (stdout result) of
        Inl e \<Rightarrow> [(''error'', JStr (''Failed to parse PHPCS: '' @ exc_str e))]
      | Inr phpcs_data \<Rightarrow>
          (case phpcs_detailed_issues E phpcs_data of
             Inl e \<Rightarrow> [(''error'', JStr (''Failed to parse PHPCS: '' @ exc_str e))]
           | Inr (issues_by_file, total_errors, total_warnings) \<Rightarrow>
               [(''phpcs_issues'', JList issues_by_file),
                (''totals'',
                 JObj [(''files_with_issues'', JInt (int (length issues_by_file))),
                       (''total_errors'', total_errors),
                       (''total_warnings'', total_warnings)])]))"

definition AICodeFixing_COMMANDS :: "env \<Rightarrow> (string \<times> 's command_dict) list" where
  "AICodeFixing_COMMANDS E =
     [(''phpcs-detailed'',
       \<lparr>cmd_command = ''./vendor/bin/phpcs --report=json --standard=PSR12 lib/'',
        cmd_timeout = 60,
        cmd_description = ''Get detailed PHPCS issues for AI fixing'',
        cmd_post_processor = Some (pure_pp (process_phpcs_detailed E))\<rparr>),
      (''phpqa'',
       \<lparr>cmd_command = ''composer phpqa'', cmd_timeout = 300,
        cmd_description = ''Run full PHPQA suite'', cmd_post_processor = None\<rparr>),
      (''cs-fix'',
       \<lparr>cmd_command = ''composer cs:fix'', cmd_timeout = 120,
        cmd_description = ''Auto-fix code style'', cmd_post_processor = None\<rparr>)]"

text \<open>
  \<open>_execute_command(cmd_name)\<close> reads \<open>cmd_config = COMMANDS[cmd_name]\<close> before its \<open>try\<close>:
  for a name that is not in the table the \<open>KeyError\<close> leaves the method and no response is
  written (\<open>None\<close>). An exception of the post-processor is raised inside the same \<open>try\<close> as
  the bridge call.
\<close>

definition AICodeFixingHandler_execute_command ::
  "env \<Rightarrow> 's bridge \<Rightarrow> string \<Rightarrow> 's \<Rightarrow> (http_response \<times> 's) option" where
  "AICodeFixingHandler_execute_command E bridge cmd_name s =
     (case map_of (AICodeFixing_COMMANDS E) cmd_name of
        None \<Rightarrow> None
      | Some cmd_config \<Rightarrow>
          Some
     (case bridge (''cd '' @ APP_PATH @ '' && '' @ cmd_command cmd_config @ '' 2>&1'')
                  (cmd_timeout cmd_config) s of
        (Raise e, s') \<Rightarrow>
          if is_TimeoutExpired e then (send_error 408 ''Timeout'', s')
          else (send_error 500 (exc_str e), s')
      | (Completed result, s') \<Rightarrow>
          (let response =
                 [(''timestamp'', JStr (utcnow_iso E @ ''Z'')),
                  (''command'', JStr cmd_name),
                  (''status'', JStr (status_of_returncode (returncode result))),
                  (''exit_code'', JInt (returncode result)),
                  (''output'', JStr (stdout result))]
           in case cmd_post_processor cmd_config of
                None \<Rightarrow> (send_json response, s')
              | Some pp \<Rightarrow>
                  (case pp result s' of
                     (Inr extra, s'') \<Rightarrow> (send_json (dict_update response extra), s'')
                   | (Inl e, s'') \<Rightarrow>
                       if is_TimeoutExpired e then (send_error 408 ''Timeout'', s'')
                       else (send_error 500 (exc_str e), s'')))))"

subsection \<open>The AI fix\<close>

text \<open>
  \<open>requests.post(...)\<close> to the model service: it raises, or returns a status code and
  what \<open>response.json()\<close> gives. The service has its own state in \<open>'s\<close>.
\<close>

datatype post_outcome = PostRaise py_exception | PostReply int "py_exception + json"

type_synonym 's model_service = "string \<Rightarrow> 's \<Rightarrow> post_outcome \<times> 's"

definition fence :: string where
  "fence = ''```''"

definition fence_php :: string where
  "fence_php = ''```php''"

definition fix_prompt :: "env \<Rightarrow> json \<Rightarrow> json \<Rightarrow> string" where
  "fix_prompt E issues content =
     ''Fix this PHP code according to PSR-12 standards.\<newline>\<newline>Issues found:\<newline>'' @
     json_dumps E issues @
     ''\<newline>\<newline>Current code:\<newline>```php\<newline>'' @ fmt E content @
     ''\<newline>```\<newline>\<newline>Provide ONLY the fixed PHP code, no explanations.''"

text \<open>
  \<open>s.split(sep)[1].split('```')[0].strip()\<close> on a \<open>str\<close>; another value has no \<open>split\<close>.
\<close>

definition between_fences :: "string \<Rightarrow> json \<Rightarrow> py_exception + json" where
  "between_fences sep v =
     (case v of
        JStr r \<Rightarrow>
          (case py_split sep r of
             a # b # rest \<Rightarrow>
               (case py_split fence b of
                  c # rest' \<Rightarrow> Inr (JStr (py_strip c))
                | [] \<Rightarrow> Inl (IndexError ''list index out of range''))
           | _ \<Rightarrow> Inl (IndexError ''list index out of range''))
      | _ \<Rightarrow> Inl (AttributeError ([CHR 0x27] @ py_type_name v @ [CHR 0x27] @
                 '' object has no attribute 'split'' @ [CHR 0x27])))"

text \<open>Lines 292 to 296 of \<open>_handle_ai_fix\<close>: the code is taken out of a markdown fence.\<close>

definition extract_fixed_code :: "json \<Rightarrow> py_exception + json" where
  "extract_fixed_code fixed_code =
     (case py_in fence_php fixed_code of
        Inl e \<Rightarrow> Inl e
      | Inr True \<Rightarrow> between_fences fence_php fixed_code
      | Inr False \<Rightarrow>
          (case py_in fence fixed_code of
             Inl e \<Rightarrow> Inl e
           | Inr True \<Rightarrow> between_fences fence fixed_code
           | Inr False \<Rightarrow> Inr fixed_code))"

text \<open>\<open>response.json().get('response', '')\<close>.\<close>

definition get_response :: "json \<Rightarrow> py_exception + json" where
  "get_response j =
     (case j of
        JObj d \<Rightarrow> Inr (case map_of d ''response'' of None \<Rightarrow> JStr [] | Some v \<Rightarrow> v)
      | _ \<Rightarrow> Inl (AttributeError ([CHR 0x27] @ py_type_name j @ [CHR 0x27] @
                 '' object has no attribute 'get'' @ [CHR 0x27])))"

text \<open>The part of \<open>_handle_ai_fix\<close> after the call of the model service.\<close>

definition ai_fix_reply :: "json \<Rightarrow> json \<Rightarrow> post_outcome \<Rightarrow> http_response" where
  "ai_fix_reply file_path content out =
     (case out of
        PostRaise e \<Rightarrow> send_error 500 (exc_str e)
      | PostReply code js \<Rightarrow>
          if code \<noteq> 200 then send_error 500 ''Ollama API error''
          else
     (case js of
        Inl e \<Rightarrow> send_error 500 (exc_str e)
      | Inr j \<Rightarrow>
     (case get_response j of
        Inl e \<Rightarrow> send_error 500 (exc_str e)
      | Inr model_text \<Rightarrow>
     (case extract_fixed_code model_text of
        Inl e \<Rightarrow> send_error 500 (exc_str e)
      | Inr fixed_code \<Rightarrow>
     (case py_len content of
        Inl e \<Rightarrow> send_error 500 (exc_str e)
      | Inr original_size \<Rightarrow>
     (case py_len fixed_code of
        Inl e \<Rightarrow> send_error 500 (exc_str e)
      | Inr fixed_size \<Rightarrow>
          send_json [(''file'', file_path),
                     (''original_size'', JInt (int original_size)),
                     (''fixed_size'', JInt (int fixed_size)),
                     (''fixed_code'', fixed_code),
                     (''status'', JStr ''success'')]))))))"

definition AICodeFixingHandler_handle_ai_fix ::
  "env \<Rightarrow> 's model_service \<Rightarrow> body_read \<Rightarrow> 's \<Rightarrow> http_response \<times> 's" where
  "AICodeFixingHandler_handle_ai_fix E ollama rb s =
     (case rb of
        EmptyBody \<Rightarrow> (send_error 500 ''Expecting value: line 1 column 1 (char 0)'', s)
      | BodyError e \<Rightarrow> (send_error 500 (exc_str e), s)
      | Parsed b \<Rightarrow>
     (case py_get b ''file'' of
        Inl e \<Rightarrow> (send_error 500 (exc_str e), s)
      | Inr file_path \<Rightarrow>
     (case py_get b ''issues'' of
        Inl e \<Rightarrow> (send_error 500 (exc_str e), s)
      | Inr issues \<Rightarrow>
     (case py_get b ''content'' of
        Inl e \<Rightarrow> (send_error 500 (exc_str e), s)
      | Inr content \<Rightarrow>
          if \<not> (py_truthy file_path \<and> py_truthy issues \<and> py_truthy content)
          then (send_error 400 ''Missing required fields'', s)
          else (case ollama (fix_prompt E issues content) s of
                  (out, s') \<Rightarrow> (ai_fix_reply file_path content out, s'))))))"

text \<open>
  \<open>do_POST\<close> calls \<open>_execute_command(path)\<close> for a path in \<open>COMMANDS\<close> and answers 404 for
  any other: the test \<open>path in COMMANDS\<close> and the lookup of the method are one case
  distinction here.
\<close>

definition AICodeFixingHandler_do_POST ::
  "env \<Rightarrow> 's bridge \<Rightarrow> 's model_service \<Rightarrow> string \<Rightarrow> body_read \<Rightarrow> 's \<Rightarrow> http_response \<times> 's" where
  "AICodeFixingHandler_do_POST E bridge ollama request_path rb s =
     (let path = dropWhile (\<lambda>c. c = CHR ''/'') request_path
      in if path \<in> set file_operations
         then AICodeFixingHandler_handle_file_operation E bridge path rb s
         else if path = ''ai-fix-code''
         then AICodeFixingHandler_handle_ai_fix E ollama rb s
         else (case AICodeFixingHandler_execute_command E bridge path s of
                 Some answer \<Rightarrow> answer
               | None \<Rightarrow> (send_error 404 (''Unknown endpoint: '' @ path), s)))"

section \<open>A model of the execution target\<close>

text \<open>
  What \<open>bash -c\<close> in the container does with two command templates of the file
  operations, on a flat table of files (the directories are taken to exist).
  \<^item> \<open>cat path\<close> prints the file, or fails with exit code 1.
  \<^item> \<open>cat > path << 'EOF'\<close> followed by lines: the here-document is made of the lines up
    to the first line that is exactly \<open>EOF\<close>, each with its newline; it replaces the
    file. Lines after that \<open>EOF\<close> line would be run as further commands: such a command
    is outside the model, as is a path with a character that the shell or \<open>cat\<close> treats
    specially.

  The table holds regular files only. The bridge of the model hands the command to the
  shell and the output back character by character: what \<open>subprocess.run\<close> itself does
  to them (it refuses a NUL in an argument and, with \<open>text=True\<close>, reads a carriage return
  as a newline) is not part of the model.
\<close>

type_synonym files = "(string \<times> string) list"

definition plain_char :: "char \<Rightarrow> bool" where
  "plain_char c =
     (c \<in> set ''abcdefghijklmnopqrstuvwxyzABCDEFGHIJKLMNOPQRSTUVWXYZ0123456789/._-'')"

definition plain_path :: "string \<Rightarrow> bool" where
  "plain_path p = (p \<noteq> [] \<and> list_all plain_char p)"

definition heredoc :: "string \<Rightarrow> string \<times> string list" where
  "heredoc text =
     (let ls = py_split ''\<newline>'' text
      in (concat (map (\<lambda>l. l @ ''\<newline>'') (takeWhile (\<lambda>l. l \<noteq> ''EOF'') ls)),
          drop 1 (dropWhile (\<lambda>l. l \<noteq> ''EOF'') ls)))"

definition target_exec :: "files \<Rightarrow> string \<Rightarrow> (raw_result \<times> files) option" where
  "target_exec fs cmd =
     (if prefix ''cat > '' cmd then
        (let rest = drop 6 cmd;
             path = takeWhile (\<lambda>c. c \<noteq> CHR '' '') rest;
             after_path = dropWhile (\<lambda>c. c \<noteq> CHR '' '') rest
         in if plain_path path \<and> prefix '' << 'EOF'\<newline>'' after_path
            then (case heredoc (drop 10 after_path) of
                    (doc, []) \<Rightarrow>
                      Some (\<lparr>returncode = 0, stdout = [], stderr = []\<rparr>, AList.update path doc fs)
                  | (doc, l # ls) \<Rightarrow> None)
            else None)
      else if prefix ''cat '' cmd then
        (let path = drop 4 cmd
         in if plain_path path
            then (case map_of fs path of
                    Some c \<Rightarrow> Some (\<lparr>returncode = 0, stdout = c, stderr = []\<rparr>, fs)
                  | None \<Rightarrow>
                      Some (\<lparr>returncode = 1, stdout = [],
                             stderr = ''cat: '' @ path @ '': No such file or directory\<newline>''\<rparr>, fs))
            else None)
      else None)"

definition target_bridge :: "files bridge" where
  "target_bridge cmd t fs =
     (case target_exec fs cmd of
        Some (r, fs') \<Rightarrow> (Completed r, fs')
      | None \<Rightarrow> (Raise (OtherException ''command outside the model of the target''), fs))"

text \<open>A write followed by a read of the same file: the two results.\<close>

definition write_then_read ::
  "env \<Rightarrow> 's bridge \<Rightarrow> string \<Rightarrow> string \<Rightarrow> 's
     \<Rightarrow> (py_exception + pydict) \<times> (py_exception + pydict)" where
  "write_then_read E bridge path content s =
     (case write_file_handler E bridge (JObj [(''file'', JStr path), (''content'', JStr content)]) s of
        (written, s1) \<Rightarrow>
          (case read_file_handler E bridge (JObj [(''file'', JStr path)]) s1 of
             (read, s2) \<Rightarrow> (written, read)))"

section \<open>Test doubles\<close>

text \<open>
  A bridge double that answers every call with the same outcome and logs the command it
  was given, and an environment whose clock is fixed and whose library functions are
  constant stand-ins (used below only where the result does not depend on them).
\<close>

definition const_bridge :: "run_outcome \<Rightarrow> string list bridge" where
  "const_bridge out cmd t log = (out, log @ [cmd])"

definition const_model :: "post_outcome \<Rightarrow> string list model_service" where
  "const_model out prompt log = (out, log @ [prompt])"

text \<open>
  A bridge double that answers the \<open>n\<close>-th call with the \<open>n\<close>-th scripted outcome and counts
  the calls. The stand-in environment has the interpreter's default limit of 4300 digits.
\<close>

definition scripted_bridge :: "run_outcome list \<Rightarrow> nat bridge" where
  "scripted_bridge outs cmd t n =
     ((if n < length outs then outs ! n else Raise (OtherException ''no scripted outcome'')), Suc n)"

definition stub_env :: env where
  "stub_env = \<lparr>utcnow_iso = ''2025-01-01T00:00:00'',
               now_stamp = ''20250101_000000'',
               json_loads = (\<lambda>s. Inl (JSONDecodeError ''Expecting value: line 1 column 1 (char 0)'')),
               json_dumps = (\<lambda>j. ''null''),
               py_str = (\<lambda>j. ''None''),
               b64encode = (\<lambda>s. []),
               int_max_str_digits = 4300,
               phpcs_issues = (\<lambda>j. Inr ([], JInt 0, JInt 0)),
               phpcs_detailed_issues = (\<lambda>j. Inr ([], JInt 0, JInt 0))\<rparr>"

section \<open>Notions of the specification\<close>

text \<open>
  The metrics in the words of the specification. \<open>matches_in m s\<close> lists the matches of
  a pattern at the positions 0, 1, ... of \<open>s\<close>, \<open>first_match\<close> is the first of them, and
  \<open>first_match_count\<close> its number, 0 when there is none. \<open>fixed_digits\<close> lists the digits
  matched in the lines that mention \<open>Fixed\<close> or \<open>fixed\<close> and match, in the order of the
  lines, and \<open>fixed_counts\<close> their numbers.
\<close>

definition matches_in :: "(string \<Rightarrow> 'a option) \<Rightarrow> string \<Rightarrow> 'a list" where
  "matches_in m s = List.map_filter (\<lambda>k. m (drop k s)) [0..<Suc (length s)]"

definition first_match :: "(string \<Rightarrow> 'a option) \<Rightarrow> string \<Rightarrow> 'a option" where
  "first_match m s = (case matches_in m s of [] \<Rightarrow> None | g # gs \<Rightarrow> Some g)"

definition first_match_count :: "string \<Rightarrow> string \<Rightarrow> nat" where
  "first_match_count label output =
     (case first_match (match_label_count label) output of None \<Rightarrow> 0 | Some ds \<Rightarrow> decimal ds)"

definition fixed_digits :: "string list \<Rightarrow> string list" where
  "fixed_digits lines =
     List.map_filter
       (\<lambda>line. if contains ''Fixed'' line \<or> contains ''fixed'' line
               then first_match match_count_file line
               else None)
       lines"

definition fixed_counts :: "string list \<Rightarrow> nat list" where
  "fixed_counts lines = map decimal (fixed_digits lines)"

definition last_fixed_count :: "string list \<Rightarrow> nat" where
  "last_fixed_count lines = (case rev (fixed_counts lines) of [] \<Rightarrow> 0 | n # ns \<Rightarrow> n)"

definition first_fixed_count :: "string list \<Rightarrow> nat" where
  "first_fixed_count lines = (case fixed_counts lines of [] \<Rightarrow> 0 | n # ns \<Rightarrow> n)"

text \<open>
  The digit strings that a test run converts, in the order of the conversions, and the
  test for a digit string that the interpreter refuses.
\<close>

definition test_digits :: "string \<Rightarrow> string list" where
  "test_digits output =
     List.map_filter (\<lambda>label. first_match (match_label_count label) output)
       [''Tests:'', ''Assertions:'', ''Failures:'']"

definition over_limit :: "env \<Rightarrow> string \<Rightarrow> bool" where
  "over_limit E ds = (0 < int_max_str_digits E \<and> int_max_str_digits E < length ds)"

text \<open>
  The text of \<open>s\<close> before the first occurrence of \<open>sep\<close> (all of \<open>s\<close> when there is none)
  and the text after it (nothing when there is none).
\<close>

fun text_before :: "string \<Rightarrow> string \<Rightarrow> string" where
  "text_before sep [] = []"
| "text_before sep (c # cs) = (if prefix sep (c # cs) then [] else c # text_before sep cs)"

fun text_after :: "string \<Rightarrow> string \<Rightarrow> string" where
  "text_after sep [] = []"
| "text_after sep (c # cs) =
     (if prefix sep (c # cs) then drop (length sep) (c # cs) else text_after sep cs)"

text \<open>
  \<open>first_at sep pre\<close>: in a text that starts with \<open>pre @ sep\<close>, no occurrence of \<open>sep\<close>
  starts before the end of \<open>pre\<close>, so the \<open>sep\<close> that follows \<open>pre\<close> is the first one.
\<close>

definition first_at :: "string \<Rightarrow> string \<Rightarrow> bool" where
  "first_at sep pre = (\<not> contains sep (pre @ butlast sep))"

text \<open>The number of non-empty lines of a text, in the words of the specification.\<close>

definition nonempty_lines :: "string \<Rightarrow> string list" where
  "nonempty_lines s = filter (\<lambda>l. l \<noteq> []) (py_split ''\<newline>'' s)"

section \<open>Properties\<close>

lemma length_split_from_newline:
  "length (split_from [c] piece s) = Suc (count_list s c)"
  by (induction "[c]" piece s rule: split_from.induct) auto

lemma length_py_split_newline:
  "length (py_split [c] s) = Suc (count_list s c)"
  by (simp add: py_split_def length_split_from_newline)

subsection \<open>Line and size report of a read\<close>

lemma count_list_append: "count_list (xs @ ys) c = count_list xs c + count_list ys c"
  by (induction xs) auto

lemma count_list_notin: "c \<notin> set l \<Longrightarrow> count_list l c = 0"
  by (induction l) auto

lemma count_terminated_lines:
  "\<forall>l\<in>set ls. c \<notin> set l \<Longrightarrow> count_list (concat (map (\<lambda>l. l @ [c]) ls)) c = length ls"
  by (induction ls) (auto simp: count_list_append count_list_notin)

lemma read_file_handler_success:
  assumes "read_file_handler E bridge request_body s = (Inr res, s')"
    and "''error'' \<notin> fst ` set res"
  shows "\<exists>fp content. res = [(''file'', fp), (''content'', JStr content),
            (''size'', JInt (int (length content))),
            (''lines'', JInt (int (length (py_split ''\<newline>'' content))))]"
  using assms unfolding read_file_handler_def
  by (auto split: sum.split_asm bool.split_asm prod.split_asm run_outcome.split_asm if_split_asm)

lemma read_file_success:
  assumes "read_file E bridge file_path s = (Inr res, s')"
    and "''error'' \<notin> fst ` set res"
  shows "\<exists>fp content. res = [(''file'', fp), (''content'', JStr content),
            (''size'', JInt (int (length content))),
            (''lines'', JInt (int (length (py_split ''\<newline>'' content))))]"
  using assms unfolding read_file_def
  by (auto split: sum.split_asm bool.split_asm prod.split_asm run_outcome.split_asm if_split_asm)

lemma read_report_fields:
  assumes "res = [(''file'', fp), (''content'', JStr content),
            (''size'', JInt (int (length content))),
            (''lines'', JInt (int (length (py_split ''\<newline>'' content))))]"
  shows "map_of res ''content'' = Some (JStr content)"
    and "map_of res ''size'' = Some (JInt (int (length content)))"
    and "map_of res ''lines'' = Some (JInt (int (length (py_split ''\<newline>'' content))))"
  using assms by simp_all

text \<open>
  C10 (as amended). A successful read, by \<open>read_file_handler\<close> or by \<open>_read_file\<close>,
  reports \<open>size\<close> = the length of the content and \<open>lines\<close> = one plus the number of
  newline characters in it. So \<open>lines\<close> is at least 1, an empty file reports size 0 and
  1 line, and a content made of \<open>k\<close> newline-terminated lines (empty ones included)
  reports \<open>k + 1\<close> lines.
\<close>

theorem read_file_lines_and_size:
  assumes "read_file_handler E bridge request_body s = (Inr res, s')
         \<or> read_file E bridge file_path s = (Inr res, s')"
    and "''error'' \<notin> fst ` set res"
  shows "\<exists>content n.
           map_of res ''content'' = Some (JStr content)
         \<and> map_of res ''size'' = Some (JInt (int (length content)))
         \<and> map_of res ''lines'' = Some (JInt (int n))
         \<and> n = 1 + count_list content CHR ''\<newline>''
         \<and> 1 \<le> n
         \<and> (content = [] \<longrightarrow> map_of res ''size'' = Some (JInt 0) \<and> n = 1)
         \<and> (\<forall>ls. (\<forall>l\<in>set ls. CHR ''\<newline>'' \<notin> set l)
                   \<and> content = concat (map (\<lambda>l. l @ ''\<newline>'') ls)
                \<longrightarrow> n = length ls + 1)"
proof -
  from assms obtain fp content where res:
    "res = [(''file'', fp), (''content'', JStr content),
            (''size'', JInt (int (length content))),
            (''lines'', JInt (int (length (py_split ''\<newline>'' content))))]"
    using read_file_handler_success read_file_success by meson
  define n where "n = length (py_split ''\<newline>'' content)"
  have n: "n = 1 + count_list content CHR ''\<newline>''"
    unfolding n_def by (simp only: length_py_split_newline plus_1_eq_Suc)
  have f1: "map_of res ''content'' = Some (JStr content)"
    by (rule read_report_fields(1) [OF res])
  have f2: "map_of res ''size'' = Some (JInt (int (length content)))"
    by (rule read_report_fields(2) [OF res])
  have f3: "map_of res ''lines'' = Some (JInt (int n))"
    unfolding n_def by (rule read_report_fields(3) [OF res])
  have f4: "1 \<le> n" using n by simp
  have f5: "content = [] \<longrightarrow> map_of res ''size'' = Some (JInt 0) \<and> n = 1"
    using f2 n by simp
  have f6: "\<forall>ls. (\<forall>l\<in>set ls. CHR ''\<newline>'' \<notin> set l)
                   \<and> content = concat (map (\<lambda>l. l @ ''\<newline>'') ls)
                \<longrightarrow> n = length ls + 1"
  proof (intro allI impI)
    fix ls assume a: "(\<forall>l\<in>set ls. CHR ''\<newline>'' \<notin> set l)
                   \<and> content = concat (map (\<lambda>l. l @ ''\<newline>'') ls)"
    then have "count_list content CHR ''\<newline>'' = length ls"
      using count_terminated_lines [of ls "CHR ''\<newline>''"] by simp
    with n show "n = length ls + 1" by simp
  qed
  from f1 f2 f3 n f4 f5 f6 show ?thesis by blast
qed


theorem read_file_lines_and_size_witness:
  "read_file_handler stub_env
       (const_bridge (Completed \<lparr>returncode = 0, stdout = ''a\<newline>b\<newline>'', stderr = []\<rparr>))
       (JObj [(''file'', JStr ''notes.txt'')]) []
     = (Inr [(''file'', JStr ''notes.txt''), (''content'', JStr ''a\<newline>b\<newline>''),
             (''size'', JInt 4), (''lines'', JInt 3)],
        [''cat /var/www/html/apps-extra/openregister/notes.txt''])
   \<and> ''error'' \<notin> fst ` set [(''file'', JStr ''notes.txt''), (''content'', JStr ''a\<newline>b\<newline>''),
             (''size'', JInt 4), (''lines'', JInt 3)]
   \<and> (3::nat) = 1 + count_list ''a\<newline>b\<newline>'' CHR ''\<newline>''"
proof -
  have run: "read_file_handler stub_env
       (const_bridge (Completed \<lparr>returncode = 0, stdout = ''a\<newline>b\<newline>'', stderr = []\<rparr>))
       (JObj [(''file'', JStr ''notes.txt'')]) []
     = (Inr [(''file'', JStr ''notes.txt''), (''content'', JStr ''a\<newline>b\<newline>''),
             (''size'', JInt 4), (''lines'', JInt 3)],
        [''cat /var/www/html/apps-extra/openregister/notes.txt''])"
    by (simp add: read_file_handler_def const_bridge_def fmt_def py_split_def)
  have ok: "''error'' \<notin> fst ` set [(''file'', JStr ''notes.txt''),
             (''content'', JStr ''a\<newline>b\<newline>''), (''size'', JInt 4), (''lines'', JInt 3)]"
    by simp
  from read_file_lines_and_size [OF disjI1 [OF run] ok]
  obtain content n where
    c: "map_of [(''file'', JStr ''notes.txt''), (''content'', JStr ''a\<newline>b\<newline>''),
             (''size'', JInt 4), (''lines'', JInt 3)] ''content'' = Some (JStr content)"
    and l: "map_of [(''file'', JStr ''notes.txt''), (''content'', JStr ''a\<newline>b\<newline>''),
             (''size'', JInt 4), (''lines'', JInt 3)] ''lines'' = Some (JInt (int n))"
    and n: "n = 1 + count_list content CHR ''\<newline>''"
    by blast
  from c have "content = ''a\<newline>b\<newline>''" by simp
  moreover from l have "n = 3" by simp
  ultimately have "(3::nat) = 1 + count_list ''a\<newline>b\<newline>'' CHR ''\<newline>''"
    using n by simp
  with run ok show ?thesis by blast
qed

text \<open>
  The last clause of C10 as it is worded fails on a content with a blank line: the read
  reports 4 lines where the content has 2 non-empty lines.
\<close>

theorem read_file_lines_counterexample:
  "fst (read_file_handler stub_env
       (const_bridge (Completed \<lparr>returncode = 0, stdout = ''a\<newline>\<newline>b\<newline>'', stderr = []\<rparr>))
       (JObj [(''file'', JStr ''notes.txt'')]) [])
     = Inr [(''file'', JStr ''notes.txt''), (''content'', JStr ''a\<newline>\<newline>b\<newline>''),
            (''size'', JInt 5), (''lines'', JInt 4)]
   \<and> length (nonempty_lines ''a\<newline>\<newline>b\<newline>'') = 2"
  by (simp add: read_file_handler_def const_bridge_def fmt_def py_split_def nonempty_lines_def)

subsection \<open>Status of a read that finds no file\<close>

lemma map_of_key_in: "map_of d k = Some v \<Longrightarrow> k \<in> fst ` set d"
  by (metis map_of_eq_None_iff option.distinct(1))



lemma strip_read_file: "dropWhile (\<lambda>c. c = CHR ''/'') ''/read-file'' = ''read-file''"
  by simp




subsection \<open>Path guard\<close>

text \<open>
  C2. Every path with a \<open>..\<close> or a leading \<open>/\<close> is to be rejected before any bridge call.
  The handlers of \<open>ai_code_fixing.py\<close> do so (lemmas below); \<open>_read_file\<close> of
  \<open>container-api-ai.py\<close> tests only for \<open>..\<close> and an empty path: for the absolute path
  \<open>/etc/passwd\<close> it calls the bridge once and returns what \<open>cat\<close> printed.
\<close>

theorem ai_read_file_absolute_path_reaches_bridge:
  "AICodeFixingHandler_handle_file_operation stub_env
     (const_bridge (Completed \<lparr>returncode = 0, stdout = ''root:x:0:0'', stderr = []\<rparr>))
     ''read-file'' (Parsed (JObj [(''file'', JStr ''/etc/passwd'')])) []
   = (\<lparr>status_code = 200,
       body = [(''file'', JStr ''/etc/passwd''),
               (''content'', JStr ''root:x:0:0''),
               (''size'', JInt 10),
               (''lines'', JInt 1)]\<rparr>,
      [''cat /var/www/html/apps-extra/openregister//etc/passwd''])"
  by (simp add: AICodeFixingHandler_handle_file_operation_def read_file_def ai_path_check_def
      const_bridge_def fmt_def APP_PATH_def send_json_def py_split_def)

lemma path_check_unsafe:
  "contains ''..'' p \<or> prefix ''/'' p \<Longrightarrow> path_check (JStr p) = Inr True"
  by simp

lemma read_reject_unsafe_path:
  assumes "map_of d ''file'' = Some (JStr p)" and "contains ''..'' p \<or> prefix ''/'' p"
  shows "read_file_handler E bridge (JObj d) s = (Inr [(''error'', JStr ''Invalid file path'')], s)"
proof -
  have a: "py_in ''file'' (JObj d) = Inr True"
    using map_of_key_in [OF assms(1)] by simp
  have b: "py_getitem (JObj d) ''file'' = Inr (JStr p)"
    using assms(1) by simp
  have c: "path_check (JStr p) = Inr True"
    using assms(2) by (rule path_check_unsafe)
  show ?thesis
    unfolding read_file_handler_def by (simp only: a b c sum.case bool.case)
qed


lemma backup_reject_unsafe_path:
  assumes "map_of d ''file'' = Some (JStr p)" and "contains ''..'' p \<or> prefix ''/'' p"
  shows "backup_file_handler E bridge (JObj d) s = (Inr [(''error'', JStr ''Invalid file path'')], s)"
proof -
  have a: "py_in ''file'' (JObj d) = Inr True"
    using map_of_key_in [OF assms(1)] by simp
  have b: "py_getitem (JObj d) ''file'' = Inr (JStr p)"
    using assms(1) by simp
  have c: "path_check (JStr p) = Inr True"
    using assms(2) by (rule path_check_unsafe)
  show ?thesis
    unfolding backup_file_handler_def by (simp only: a b c sum.case bool.case)
qed

lemma write_reject_unsafe_path:
  assumes "map_of d ''file'' = Some (JStr p)" and "map_of d ''content'' = Some v"
    and "contains ''..'' p \<or> prefix ''/'' p"
  shows "write_file_handler E bridge (JObj d) s = (Inr [(''error'', JStr ''Invalid file path'')], s)"
proof -
  have a: "py_in ''file'' (JObj d) = Inr True"
    using map_of_key_in [OF assms(1)] by simp
  have a': "py_in ''content'' (JObj d) = Inr True"
    using map_of_key_in [OF assms(2)] by simp
  have b: "py_getitem (JObj d) ''file'' = Inr (JStr p)"
    using assms(1) by simp
  have b': "py_getitem (JObj d) ''content'' = Inr v"
    using assms(2) by simp
  have c: "path_check (JStr p) = Inr True"
    using assms(3) by (rule path_check_unsafe)
  show ?thesis
    unfolding write_file_handler_def by (simp only: a a' b b' c sum.case bool.case)
qed

lemma write_missing_content:
  assumes "map_of d ''file'' = Some (JStr p)" and "map_of d ''content'' = None"
  shows "write_file_handler E bridge (JObj d) s =
           (Inr [(''error'', JStr ''Missing 'file' or 'content' parameter'')], s)"
proof -
  have a: "py_in ''file'' (JObj d) = Inr True"
    using map_of_key_in [OF assms(1)] by simp
  have a': "py_in ''content'' (JObj d) = Inr False"
    using assms(2) by (simp add: map_of_eq_None_iff)
  show ?thesis
    unfolding write_file_handler_def by (simp only: a a' sum.case bool.case)
qed

subsection \<open>Splitting a text\<close>

lemma split_from_nonempty: "split_from sep piece s \<noteq> []"
  by (induction sep piece s rule: split_from.induct) auto

lemma hd_split_from_piece:
  "hd (split_from sep piece s) = piece @ hd (split_from sep [] s)"
proof (induction s arbitrary: piece)
  case Nil
  then show ?case by simp
next
  case (Cons c cs)
  show ?case
  proof (cases "sep \<noteq> [] \<and> prefix sep (c # cs)")
    case True
    then show ?thesis by simp
  next
    case False
    have "hd (split_from sep (piece @ [c]) cs) = (piece @ [c]) @ hd (split_from sep [] cs)"
      by (rule Cons.IH)
    moreover have "hd (split_from sep [c] cs) = [c] @ hd (split_from sep [] cs)"
      by (rule Cons.IH)
    ultimately show ?thesis using False by simp
  qed
qed

lemma not_contains_split:
  "\<not> contains sep s \<Longrightarrow> split_from sep piece s = [piece @ s]"
  by (induction s arbitrary: piece) auto

lemma contains_single: "contains [c] s = (c \<in> set s)"
  by (induction s) auto

lemma py_split_one_line: "CHR ''\<newline>'' \<notin> set s \<Longrightarrow> py_split ''\<newline>'' s = [s]"
  unfolding py_split_def
  using not_contains_split [of "''\<newline>''" s "[]"] by (simp add: contains_single)

text \<open>
  The first piece of a split is the text before the first separator; when the separator
  occurs, the other pieces are the split of the text after it.
\<close>

lemma split_from_before_after:
  assumes "sep \<noteq> []"
  shows "split_from sep piece s =
           (piece @ text_before sep s) #
           (if contains sep s then split_from sep [] (text_after sep s) else [])"
  using assms
proof (induction sep piece s rule: split_from.induct)
  case (1 sep piece)
  then show ?case by simp
next
  case (2 sep piece c cs)
  show ?case
  proof (cases "prefix sep (c # cs)")
    case True
    then show ?thesis using 2(3) by simp
  next
    case False
    then show ?thesis using 2(2) 2(3) by simp
  qed
qed

lemma py_split_before_after:
  assumes "sep \<noteq> []" and "contains sep s"
  shows "py_split sep s = text_before sep s # py_split sep (text_after sep s)"
  unfolding py_split_def
  using split_from_before_after [OF assms(1), of "[]" s] assms(2) by simp

lemma py_split_hd:
  assumes "sep \<noteq> []"
  shows "\<exists>rest. py_split sep s = text_before sep s # rest"
  unfolding py_split_def
  using split_from_before_after [OF assms, of "[]" s] by simp

lemma prefix_text_before: "prefix (text_before sep s) s"
  by (induction s) auto

lemma text_before_free:
  assumes "sep \<noteq> []"
  shows "\<not> contains sep (text_before sep s)"
proof (induction s)
  case Nil
  show ?case using assms by simp
next
  case (Cons c cs)
  show ?case
  proof (cases "prefix sep (c # cs)")
    case True
    then show ?thesis using assms by simp
  next
    case False
    have "\<not> prefix sep (c # text_before sep cs)"
    proof
      assume "prefix sep (c # text_before sep cs)"
      moreover have "prefix (c # text_before sep cs) (c # cs)"
        using prefix_text_before [of sep cs] by simp
      ultimately have "prefix sep (c # cs)" by (rule prefix_order.trans)
      with False show False by blast
    qed
    then show ?thesis using False Cons.IH by simp
  qed
qed

lemma text_before_none: "\<not> contains sep s \<Longrightarrow> text_before sep s = s"
  by (induction s) auto

lemma text_before_idem:
  assumes "sep \<noteq> []"
  shows "text_before sep (text_before sep s) = text_before sep s"
  using text_before_free [OF assms, of s] by (rule text_before_none)

subsection \<open>Matches of the patterns\<close>

lemma matches_in_Nil: "matches_in m [] = (case m [] of None \<Rightarrow> [] | Some g \<Rightarrow> [g])"
  by (simp add: matches_in_def map_filter_simps split: option.split)

lemma upt_Suc_shift: "[0..<Suc n] = 0 # map Suc [0..<n]"
  by (simp add: upt_conv_Cons map_Suc_upt del: upt_Suc)

lemma map_filter_map: "List.map_filter f (map g xs) = List.map_filter (\<lambda>x. f (g x)) xs"
  by (induction xs) (simp_all add: map_filter_simps split: option.split)

lemma matches_in_Cons:
  "matches_in m (c # cs) = (case m (c # cs) of None \<Rightarrow> [] | Some g \<Rightarrow> [g]) @ matches_in m cs"
proof -
  have "matches_in m (c # cs) =
        List.map_filter (\<lambda>k. m (drop k (c # cs))) (0 # map Suc [0..<Suc (length cs)])"
    unfolding matches_in_def length_Cons by (subst upt_Suc_shift) (rule refl)
  also have "\<dots> = (case m (c # cs) of None \<Rightarrow> [] | Some g \<Rightarrow> [g]) @
                  List.map_filter (\<lambda>k. m (drop k cs)) [0..<Suc (length cs)]"
    by (simp add: map_filter_simps map_filter_map del: upt_Suc split: option.split)
  finally show ?thesis by (simp add: matches_in_def del: upt_Suc)
qed

lemma re_search_first_match: "re_search m s = first_match m s"
proof (induction s)
  case Nil
  show ?case by (simp add: first_match_def matches_in_Nil split: option.split)
next
  case (Cons c cs)
  then show ?case
    by (simp add: first_match_def matches_in_Cons split: option.split)
qed

lemma first_match_absent:
  "(\<forall>k\<le>length s. m (drop k s) = None) \<Longrightarrow> first_match m s = None"
proof -
  assume a: "\<forall>k\<le>length s. m (drop k s) = None"
  have "List.map_filter (\<lambda>k. m (drop k s)) [0..<Suc (length s)] = []"
    unfolding List.map_filter_def using a by (auto simp add: filter_empty_conv)
  then show ?thesis by (simp add: first_match_def matches_in_def)
qed

lemma digit_not_space: "is_digit c \<Longrightarrow> \<not> py_isspace c"
  by (auto simp add: is_digit_def py_isspace_def)

lemma run_then_stop:
  assumes "\<forall>c\<in>set xs. P c" and "ys = [] \<or> \<not> P (hd ys)"
  shows "takeWhile P (xs @ ys) = xs" and "dropWhile P (xs @ ys) = ys"
  using assms by (cases ys; simp add: takeWhile_append2 dropWhile_append2)+

lemma split_run:
  "s = takeWhile P s @ dropWhile P s
   \<and> (\<forall>c\<in>set (takeWhile P s). P c)
   \<and> (dropWhile P s = [] \<or> \<not> P (hd (dropWhile P s)))"
proof (intro conjI)
  show "s = takeWhile P s @ dropWhile P s" by simp
  show "\<forall>c\<in>set (takeWhile P s). P c" by (auto dest: set_takeWhileD)
  show "dropWhile P s = [] \<or> \<not> P (hd (dropWhile P s))"
    using hd_dropWhile [of P s] by blast
qed

text \<open>
  The matcher for \<open>Label:\s+(\d+)\<close> succeeds exactly on a text that is the label, one or
  more whitespace characters, and one or more digits that no further digit follows; it
  returns those digits (the greedy group).
\<close>

lemma match_label_count_iff:
  "match_label_count label s = Some ds \<longleftrightarrow>
     (\<exists>ws rest. s = label @ ws @ ds @ rest
        \<and> ws \<noteq> [] \<and> (\<forall>c\<in>set ws. py_isspace c)
        \<and> ds \<noteq> [] \<and> (\<forall>c\<in>set ds. is_digit c)
        \<and> (rest = [] \<or> \<not> is_digit (hd rest)))"
proof
  assume m: "match_label_count label s = Some ds"
  then have p: "prefix label s"
    by (simp add: match_label_count_def split: if_split_asm)
  define r1 where "r1 = drop (length label) s"
  define ws where "ws = takeWhile py_isspace r1"
  define r2 where "r2 = dropWhile py_isspace r1"
  define rest where "rest = dropWhile is_digit r2"
  from m p have ds: "ds = takeWhile is_digit r2" and ne: "ws \<noteq> []" "ds \<noteq> []"
    by (auto simp add: match_label_count_def Let_def r1_def ws_def r2_def split: if_split_asm)
  from p have "s = label @ r1" by (auto simp add: r1_def prefix_def)
  moreover have "r1 = ws @ r2" by (simp add: ws_def r2_def)
  moreover have "r2 = ds @ rest" by (simp add: ds rest_def)
  moreover have "\<forall>c\<in>set ws. py_isspace c" using split_run [of r1 py_isspace] by (simp add: ws_def)
  moreover have "\<forall>c\<in>set ds. is_digit c" using split_run [of r2 is_digit] by (simp add: ds)
  moreover have "rest = [] \<or> \<not> is_digit (hd rest)"
    using split_run [of r2 is_digit] by (simp add: rest_def)
  ultimately show "\<exists>ws rest. s = label @ ws @ ds @ rest
        \<and> ws \<noteq> [] \<and> (\<forall>c\<in>set ws. py_isspace c)
        \<and> ds \<noteq> [] \<and> (\<forall>c\<in>set ds. is_digit c)
        \<and> (rest = [] \<or> \<not> is_digit (hd rest))"
    using ne by blast
next
  assume "\<exists>ws rest. s = label @ ws @ ds @ rest
        \<and> ws \<noteq> [] \<and> (\<forall>c\<in>set ws. py_isspace c)
        \<and> ds \<noteq> [] \<and> (\<forall>c\<in>set ds. is_digit c)
        \<and> (rest = [] \<or> \<not> is_digit (hd rest))"
  then obtain ws rest where s: "s = label @ ws @ ds @ rest"
    and ws: "ws \<noteq> []" "\<forall>c\<in>set ws. py_isspace c"
    and ds: "ds \<noteq> []" "\<forall>c\<in>set ds. is_digit c"
    and rest: "rest = [] \<or> \<not> is_digit (hd rest)"
    by blast
  have "\<not> py_isspace (hd (ds @ rest))"
    using ds digit_not_space by (cases ds) auto
  then have stop: "ds @ rest = [] \<or> \<not> py_isspace (hd (ds @ rest))" by simp
  have a: "takeWhile py_isspace (ws @ ds @ rest) = ws"
    using run_then_stop(1) [OF ws(2) stop] by simp
  have b: "dropWhile py_isspace (ws @ ds @ rest) = ds @ rest"
    using run_then_stop(2) [OF ws(2) stop] by simp
  have c: "takeWhile is_digit (ds @ rest) = ds"
    using run_then_stop(1) [OF ds(2) rest] by simp
  show "match_label_count label s = Some ds"
    unfolding match_label_count_def s using ws(1) ds(1) by (simp add: a b c Let_def)
qed

text \<open>
  The matcher for \<open>(\d+)\s+file\<close> succeeds exactly on a text that is one or more digits,
  one or more whitespace characters and the word \<open>file\<close>; it returns the digits.
\<close>

lemma match_count_file_iff:
  "match_count_file s = Some ds \<longleftrightarrow>
     (\<exists>ws rest. s = ds @ ws @ ''file'' @ rest
        \<and> ds \<noteq> [] \<and> (\<forall>c\<in>set ds. is_digit c)
        \<and> ws \<noteq> [] \<and> (\<forall>c\<in>set ws. py_isspace c))"
proof
  assume m: "match_count_file s = Some ds"
  define r1 where "r1 = dropWhile is_digit s"
  define ws where "ws = takeWhile py_isspace r1"
  define r2 where "r2 = dropWhile py_isspace r1"
  from m have ds: "ds = takeWhile is_digit s" and ne: "ds \<noteq> []" "ws \<noteq> []"
    and p: "prefix ''file'' r2"
    by (auto simp add: match_count_file_def Let_def r1_def ws_def r2_def split: if_split_asm)
  from p obtain rest where "r2 = ''file'' @ rest" by (auto simp add: prefix_def)
  moreover have "s = ds @ r1" by (simp add: ds r1_def)
  moreover have "r1 = ws @ r2" by (simp add: ws_def r2_def)
  moreover have "\<forall>c\<in>set ds. is_digit c" using split_run [of s is_digit] by (simp add: ds)
  moreover have "\<forall>c\<in>set ws. py_isspace c" using split_run [of r1 py_isspace] by (simp add: ws_def)
  ultimately show "\<exists>ws rest. s = ds @ ws @ ''file'' @ rest
        \<and> ds \<noteq> [] \<and> (\<forall>c\<in>set ds. is_digit c)
        \<and> ws \<noteq> [] \<and> (\<forall>c\<in>set ws. py_isspace c)"
    using ne by blast
next
  assume "\<exists>ws rest. s = ds @ ws @ ''file'' @ rest
        \<and> ds \<noteq> [] \<and> (\<forall>c\<in>set ds. is_digit c)
        \<and> ws \<noteq> [] \<and> (\<forall>c\<in>set ws. py_isspace c)"
  then obtain ws rest where s: "s = ds @ ws @ ''file'' @ rest"
    and ds: "ds \<noteq> []" "\<forall>c\<in>set ds. is_digit c"
    and ws: "ws \<noteq> []" "\<forall>c\<in>set ws. py_isspace c"
    by blast
  have "\<not> is_digit (hd (ws @ ''file'' @ rest))"
    using ws digit_not_space by (cases ws) auto
  then have stop1: "ws @ ''file'' @ rest = [] \<or> \<not> is_digit (hd (ws @ ''file'' @ rest))" by simp
  have stop2: "''file'' @ rest = [] \<or> \<not> py_isspace (hd (''file'' @ rest))"
    by (simp add: py_isspace_def)
  have a: "takeWhile is_digit (ds @ ws @ ''file'' @ rest) = ds"
    by (rule run_then_stop(1) [OF ds(2) stop1])
  have b: "dropWhile is_digit (ds @ ws @ ''file'' @ rest) = ws @ ''file'' @ rest"
    by (rule run_then_stop(2) [OF ds(2) stop1])
  have c: "takeWhile py_isspace (ws @ ''file'' @ rest) = ws"
    by (rule run_then_stop(1) [OF ws(2) stop2])
  have d: "dropWhile py_isspace (ws @ ''file'' @ rest) = ''file'' @ rest"
    by (rule run_then_stop(2) [OF ws(2) stop2])
  show "match_count_file s = Some ds"
    unfolding match_count_file_def s Let_def a b c d using ds(1) ws(1) by simp
qed

lemma match_count_file_nondigit: "\<not> is_digit c \<Longrightarrow> match_count_file (c # cs) = None"
  by (simp add: match_count_file_def)

lemma re_search_here: "m s = Some g \<Longrightarrow> re_search m s = Some g"
  by (cases s) simp_all

lemma re_search_fixed_files:
  assumes "ds \<noteq> []" and "\<forall>c\<in>set ds. is_digit c"
  shows "re_search match_count_file (''Fixed '' @ ds @ '' files'') = Some ds"
proof -
  have "\<exists>ws rest. ds @ '' files'' = ds @ ws @ ''file'' @ rest
        \<and> ds \<noteq> [] \<and> (\<forall>c\<in>set ds. is_digit c)
        \<and> ws \<noteq> [] \<and> (\<forall>c\<in>set ws. py_isspace c)"
    using assms
    by (intro exI [of _ "'' ''"] exI [of _ "''s''"]) (simp add: py_isspace_def)
  then have "match_count_file (ds @ '' files'') = Some ds"
    by (simp only: match_count_file_iff)
  then have "re_search match_count_file (ds @ '' files'') = Some ds"
    by (rule re_search_here)
  then show ?thesis
    by (simp add: match_count_file_nondigit is_digit_def)
qed

text \<open>The conversions of the two post-processors, in terms of the matches.\<close>

lemma py_int_over_limit:
  "py_int (int_max_str_digits E) ds =
     (if over_limit E ds then Inl (int_limit_error (int_max_str_digits E) ds)
      else Inr (decimal ds))"
  by (simp add: py_int_def over_limit_def)

lemma metric_first_match:
  "metric E label output =
     (case first_match (match_label_count label) output of
        None \<Rightarrow> Inr 0
      | Some ds \<Rightarrow> if over_limit E ds then Inl (int_limit_error (int_max_str_digits E) ds)
                  else Inr (decimal ds))"
  by (simp add: metric_def re_search_first_match py_int_over_limit split: option.split)

lemma cs_fix_line_first_match:
  "cs_fix_line E a line =
     (case (if contains ''Fixed'' line \<or> contains ''fixed'' line
            then first_match match_count_file line else None) of
        None \<Rightarrow> Inr a
      | Some ds \<Rightarrow> if over_limit E ds then Inl (int_limit_error (int_max_str_digits E) ds)
                  else Inr (decimal ds))"
  by (simp add: cs_fix_line_def re_search_first_match py_int_over_limit split: option.split)

lemma fixed_digits_Cons:
  "fixed_digits (l # ls) =
     (case (if contains ''Fixed'' l \<or> contains ''fixed'' l
            then first_match match_count_file l else None) of
        None \<Rightarrow> fixed_digits ls | Some ds \<Rightarrow> ds # fixed_digits ls)"
  unfolding fixed_digits_def by (simp add: map_filter_simps split: option.split)

lemma fixed_digits_Nil: "fixed_digits [] = []"
  by (simp add: fixed_digits_def map_filter_simps)

lemma cs_fix_loop_eq:
  "cs_fix_loop E a lines =
     (case find (over_limit E) (fixed_digits lines) of
        Some ds \<Rightarrow> Inl (int_limit_error (int_max_str_digits E) ds)
      | None \<Rightarrow> Inr (case rev (fixed_counts lines) of [] \<Rightarrow> a | n # ns \<Rightarrow> n))"
proof (induction lines arbitrary: a)
  case Nil
  show ?case by (simp add: fixed_digits_Nil fixed_counts_def)
next
  case (Cons l ls)
  let ?f = "if contains ''Fixed'' l \<or> contains ''fixed'' l
            then first_match match_count_file l else None"
  show ?case
  proof (cases ?f)
    case None
    then have c: "cs_fix_line E a l = Inr a" and f: "fixed_digits (l # ls) = fixed_digits ls"
      by (simp_all only: cs_fix_line_first_match fixed_digits_Cons option.case)
    show ?thesis
      by (simp only: cs_fix_loop.simps c f sum.case Cons.IH [of a] fixed_counts_def)
  next
    case (Some ds)
    then have c: "cs_fix_line E a l =
                    (if over_limit E ds then Inl (int_limit_error (int_max_str_digits E) ds)
                     else Inr (decimal ds))"
      and f: "fixed_digits (l # ls) = ds # fixed_digits ls"
      by (simp_all only: cs_fix_line_first_match fixed_digits_Cons option.case)
    show ?thesis
    proof (cases "over_limit E ds")
      case True
      then show ?thesis by (simp add: c f)
    next
      case False
      have "cs_fix_loop E a (l # ls) = cs_fix_loop E (decimal ds) ls"
        using False by (simp add: c)
      also have "\<dots> = (case find (over_limit E) (fixed_digits ls) of
            Some ds' \<Rightarrow> Inl (int_limit_error (int_max_str_digits E) ds')
          | None \<Rightarrow> Inr (case rev (fixed_counts ls) of [] \<Rightarrow> decimal ds | n # ns \<Rightarrow> n))"
        by (rule Cons.IH)
      also have "\<dots> = (case find (over_limit E) (fixed_digits (l # ls)) of
            Some ds' \<Rightarrow> Inl (int_limit_error (int_max_str_digits E) ds')
          | None \<Rightarrow> Inr (case rev (fixed_counts (l # ls)) of [] \<Rightarrow> a | n # ns \<Rightarrow> n))"
      proof -
        have fc: "rev (fixed_counts (l # ls)) = rev (fixed_counts ls) @ [decimal ds]"
          by (simp add: fixed_counts_def f)
        have "(case rev (fixed_counts ls) of [] \<Rightarrow> decimal ds | n # ns \<Rightarrow> n) =
              (case rev (fixed_counts (l # ls)) of [] \<Rightarrow> a | n # ns \<Rightarrow> n)"
          unfolding fc by (cases "rev (fixed_counts ls)") simp_all
        then have eq: "(case rev (fixed_counts ls) of [] \<Rightarrow> decimal ds | n # ns \<Rightarrow> n) =
              (case rev (fixed_counts (l # ls)) of [] \<Rightarrow> a | n # ns \<Rightarrow> n)" .
        have fnd: "find (over_limit E) (fixed_digits (l # ls)) = find (over_limit E) (fixed_digits ls)"
          using False by (simp add: f)
        show ?thesis unfolding fnd eq by (rule refl)
      qed
      finally show ?thesis .
    qed
  qed
qed

lemma process_cs_fix_result_eq:
  "process_cs_fix_result E result =
     (case find (over_limit E) (fixed_digits (py_split ''\<newline>'' (stdout result))) of
        Some ds \<Rightarrow> Inl (int_limit_error (int_max_str_digits E) ds)
      | None \<Rightarrow>
          Inr [(''files_fixed'', JInt (int (last_fixed_count (py_split ''\<newline>'' (stdout result))))),
               (''message'',
                JStr (if 0 < last_fixed_count (py_split ''\<newline>'' (stdout result))
                      then ''Fixed '' @ nat_to_str (last_fixed_count (py_split ''\<newline>'' (stdout result)))
                           @ '' file(s)''
                      else ''No files needed fixing''))])"
  unfolding process_cs_fix_result_def cs_fix_loop_eq last_fixed_count_def
  by (simp split: option.split)

lemma test_digits_eq:
  "test_digits output =
     (case first_match (match_label_count ''Tests:'') output of None \<Rightarrow> [] | Some ds \<Rightarrow> [ds]) @
     (case first_match (match_label_count ''Assertions:'') output of None \<Rightarrow> [] | Some ds \<Rightarrow> [ds]) @
     (case first_match (match_label_count ''Failures:'') output of None \<Rightarrow> [] | Some ds \<Rightarrow> [ds])"
  unfolding test_digits_def by (simp add: map_filter_simps split: option.split)

lemma process_test_result_eq:
  "process_test_result E result =
     (case find (over_limit E) (test_digits (stdout result)) of
        Some ds \<Rightarrow> Inl (int_limit_error (int_max_str_digits E) ds)
      | None \<Rightarrow>
          Inr [(''tests_run'', JInt (int (first_match_count ''Tests:'' (stdout result)))),
               (''assertions'', JInt (int (first_match_count ''Assertions:'' (stdout result)))),
               (''failures'', JInt (int (first_match_count ''Failures:'' (stdout result)))),
               (''success'', JBool (returncode result = 0))])"
proof -
  let ?t = "first_match (match_label_count ''Tests:'') (stdout result)"
  let ?a = "first_match (match_label_count ''Assertions:'') (stdout result)"
  let ?f = "first_match (match_label_count ''Failures:'') (stdout result)"
  show ?thesis
    unfolding process_test_result_def Let_def metric_first_match test_digits_eq
      first_match_count_def
    by (cases ?t; cases ?a; cases ?f) simp_all
qed

lemma digit_not_newline: "is_digit c \<Longrightarrow> c \<noteq> CHR ''\<newline>''"
  by (auto simp add: is_digit_def)

lemma fixed_line_split:
  assumes "\<forall>c\<in>set ds. is_digit c"
  shows "py_split ''\<newline>'' (''Fixed '' @ ds @ '' files'') = [''Fixed '' @ ds @ '' files'']"
proof -
  have "CHR ''\<newline>'' \<notin> set ds"
    using assms digit_not_newline by blast
  then have "CHR ''\<newline>'' \<notin> set (''Fixed '' @ ds @ '' files'')" by simp
  then show ?thesis by (rule py_split_one_line)
qed

lemma fixed_line_digits:
  assumes "ds \<noteq> []" and "\<forall>c\<in>set ds. is_digit c"
  shows "fixed_digits [''Fixed '' @ ds @ '' files''] = [ds]"
proof -
  let ?line = "''Fixed '' @ ds @ '' files''"
  have c: "contains ''Fixed'' ?line" by simp
  have m: "first_match match_count_file ?line = Some ds"
    using re_search_fixed_files [OF assms(1) assms(2)] by (simp only: re_search_first_match)
  show ?thesis
    by (simp only: fixed_digits_Cons fixed_digits_Nil c m simp_thms if_True option.case)
qed

text \<open>A count of more digits than the limit in the report of \<open>cs-fix\<close>.\<close>

lemma cs_fix_over_limit:
  assumes "ds \<noteq> []" and "\<forall>c\<in>set ds. is_digit c" and "over_limit E ds"
  shows "process_cs_fix_result E \<lparr>returncode = rc, stdout = ''Fixed '' @ ds @ '' files'', stderr = err\<rparr>
         = Inl (int_limit_error (int_max_str_digits E) ds)"
proof -
  have st: "stdout \<lparr>returncode = rc, stdout = ''Fixed '' @ ds @ '' files'', stderr = err\<rparr>
            = ''Fixed '' @ ds @ '' files''"
    by simp
  have fnd: "find (over_limit E) [ds] = Some ds"
    using assms(3) by simp
  show ?thesis
    unfolding process_cs_fix_result_eq st fixed_line_split [OF assms(2)]
      fixed_line_digits [OF assms(1) assms(2)] fnd
    by (simp only: option.case)
qed

lemma digit_chars:
  "digit_char 0 = CHR ''0''" "digit_char 1 = CHR ''1''" "digit_char 3 = CHR ''3''"
  "digit_char 4 = CHR ''4''" "digit_char 5 = CHR ''5''" "digit_char (Suc 0) = CHR ''1''"
  unfolding digit_char_def by code_simp+

lemma nat_to_str_4300: "nat_to_str 4300 = ''4300''"
  by (simp add: nat_to_str.simps [of 4300] nat_to_str.simps [of 430] nat_to_str.simps [of 43]
      nat_to_str.simps [of 4] digit_chars)

lemma nat_to_str_4301: "nat_to_str 4301 = ''4301''"
  by (simp add: nat_to_str.simps [of 4301] nat_to_str.simps [of 430] nat_to_str.simps [of 43]
      nat_to_str.simps [of 4] digit_chars)

lemma ones_over_limit:
  "replicate 4301 (CHR ''1'') \<noteq> []"
  "\<forall>c\<in>set (replicate 4301 (CHR ''1'')). is_digit c"
  "over_limit stub_env (replicate 4301 (CHR ''1''))"
  "int_limit_error (int_max_str_digits stub_env) (replicate 4301 (CHR ''1'')) =
     ValueError (''Exceeds the limit (4300 digits) for integer string conversion: '' @
                 ''value has 4301 digits; use sys.set_int_max_str_digits() to increase the limit'')"
  by (simp_all add: is_digit_def over_limit_def stub_env_def int_limit_error_def
      nat_to_str_4300 nat_to_str_4301)

subsection \<open>Registered commands\<close>

lemma command_names:
  "map fst (COMMANDS E bridge) =
     [''phpqa'', ''cs-fix'', ''cs-check'', ''phpstan'', ''psalm'', ''test-unit'',
      ''test-integration'', ''composer-install'', ''composer-update'', ''npm-install'',
      ''build-js'', ''watch-js'', ''phpcs-detailed'']"
  by (simp add: COMMANDS_def AI_COMMANDS_def BASE_COMMANDS_def)

lemma ai_command_names:
  "map fst (AICodeFixing_COMMANDS E) = [''phpcs-detailed'', ''phpqa'', ''cs-fix'']"
  by (simp add: AICodeFixing_COMMANDS_def)

lemma map_of_None_names: "k \<notin> set (map fst l) \<Longrightarrow> map_of l k = None"
  by (simp add: map_of_eq_None_iff)

lemma map_of_dict_update_other:
  "k \<notin> fst ` set extra \<Longrightarrow> map_of (dict_update d extra) k = map_of d k"
  unfolding dict_update_def
  by (induction extra arbitrary: d) (auto simp add: update_conv')

lemma base_response_post_processor_error:
  "AList.update ''post_processor_error'' v
     [(''timestamp'', a), (''command'', b), (''full_command'', c), (''status'', d),
      (''exit_code'', e), (''output'', f), (''container'', g)]
   = [(''timestamp'', a), (''command'', b), (''full_command'', c), (''status'', d),
      (''exit_code'', e), (''output'', f), (''container'', g), (''post_processor_error'', v)]"
  by simp

lemma registered_name_route:
  assumes "cmd \<in> set [''phpqa'', ''cs-fix'', ''cs-check'', ''phpstan'', ''psalm'', ''test-unit'',
      ''test-integration'', ''composer-install'', ''composer-update'', ''npm-install'',
      ''build-js'', ''watch-js'', ''phpcs-detailed'']"
  shows "dropWhile (\<lambda>c. c = CHR ''/'') (''/'' @ cmd) = cmd"
    and "cmd \<notin> set file_operations"
    and "cmd \<noteq> ''ai-fix-code''"
  using assms by (auto simp add: file_operations_def)

lemma registered_name:
  assumes "map_of (COMMANDS E bridge) cmd = Some cmd_config"
  shows "cmd \<in> set [''phpqa'', ''cs-fix'', ''cs-check'', ''phpstan'', ''psalm'', ''test-unit'',
      ''test-integration'', ''composer-install'', ''composer-update'', ''npm-install'',
      ''build-js'', ''watch-js'', ''phpcs-detailed'']"
proof -
  have "cmd \<in> fst ` set (COMMANDS E bridge)" using assms by (rule map_of_key_in)
  then have "cmd \<in> set (map fst (COMMANDS E bridge))" by simp
  then show ?thesis by (simp only: command_names)
qed

lemma registered_post_processor:
  assumes "map_of (COMMANDS E bridge) cmd = Some cmd_config"
  shows "post_processor cmd_config = None
       \<or> post_processor cmd_config = Some (process_phpqa_result E bridge)
       \<or> post_processor cmd_config = Some (local_pp (process_cs_fix_result E))
       \<or> post_processor cmd_config = Some (local_pp (process_test_result E))
       \<or> post_processor cmd_config = Some (process_phpcs_result E bridge)"
  using assms
  by (auto simp add: COMMANDS_def AI_COMMANDS_def BASE_COMMANDS_def to_CommandConfig_def
      split: if_split_asm)

lemma registered_route:
  assumes "map_of (COMMANDS E bridge) cmd = Some cmd_config"
  shows "ContainerAPIHandler_do_POST E bridge (''/'' @ cmd) rb s =
         ContainerAPIHandler_execute_command E bridge cmd_config s"
proof -
  note n = registered_name [OF assms]
  show ?thesis
    unfolding ContainerAPIHandler_do_POST_def Let_def
    by (simp only: registered_name_route(1) [OF n] registered_name_route(2) [OF n] assms
        if_False option.case)
qed

lemma ai_registered:
  assumes "map_of (AICodeFixing_COMMANDS E) cmd = Some cmd_config"
  shows "cmd \<in> set [''phpcs-detailed'', ''phpqa'', ''cs-fix'']"
    and "cmd_post_processor cmd_config = None
       \<or> cmd_post_processor cmd_config = Some (pure_pp (process_phpcs_detailed E))"
  using assms
  by (auto simp add: AICodeFixing_COMMANDS_def split: if_split_asm)

lemma ai_registered_name_route:
  assumes "cmd \<in> set [''phpcs-detailed'', ''phpqa'', ''cs-fix'']"
  shows "dropWhile (\<lambda>c. c = CHR ''/'') (''/'' @ cmd) = cmd"
    and "cmd \<notin> set file_operations"
    and "cmd \<noteq> ''ai-fix-code''"
  using assms by (auto simp add: file_operations_def)

text \<open>
  The answer of \<open>AICodeFixingHandler\<close> to a registered command whose run completes, for
  the two kinds of entries of its table.
\<close>

lemma ai_registered_completed:
  assumes "map_of (AICodeFixing_COMMANDS E) cmd = Some (ai_config :: 's command_dict)"
    and "(bridge :: 's bridge) (''cd '' @ APP_PATH @ '' && '' @ cmd_command ai_config @ '' 2>&1'')
           (cmd_timeout ai_config) s = (Completed result, s1)"
  shows "AICodeFixingHandler_do_POST E bridge ollama (''/'' @ cmd) rb s =
           (\<lparr>status_code = 200,
             body = (case cmd_post_processor ai_config of
                       None \<Rightarrow> [(''timestamp'', JStr (utcnow_iso E @ ''Z'')),
                                 (''command'', JStr cmd),
                                 (''status'', JStr (status_of_returncode (returncode result))),
                                 (''exit_code'', JInt (returncode result)),
                                 (''output'', JStr (stdout result))]
                     | Some pp \<Rightarrow>
                         dict_update [(''timestamp'', JStr (utcnow_iso E @ ''Z'')),
                                      (''command'', JStr cmd),
                                      (''status'', JStr (status_of_returncode (returncode result))),
                                      (''exit_code'', JInt (returncode result)),
                                      (''output'', JStr (stdout result))]
                                     (process_phpcs_detailed E result))\<rparr>, s1)"
proof -
  note n = ai_registered(1) [OF assms(1)]
  have ex: "AICodeFixingHandler_do_POST E bridge ollama (''/'' @ cmd) rb s =
            (case AICodeFixingHandler_execute_command E bridge cmd s of
               Some answer \<Rightarrow> answer
             | None \<Rightarrow> (send_error 404 (''Unknown endpoint: '' @ cmd), s))"
    unfolding AICodeFixingHandler_do_POST_def Let_def
    by (simp only: ai_registered_name_route(1) [OF n] ai_registered_name_route(2) [OF n]
        ai_registered_name_route(3) [OF n] if_False)
  from ai_registered(2) [OF assms(1)] show ?thesis
  proof
    assume p: "cmd_post_processor ai_config = None"
    show ?thesis
      unfolding ex AICodeFixingHandler_execute_command_def Let_def
      by (simp only: assms p prod.case run_outcome.case option.case send_json_def)
  next
    assume p: "cmd_post_processor ai_config = Some (pure_pp (process_phpcs_detailed E))"
    have pp: "pure_pp (process_phpcs_detailed E) result s1 = (Inr (process_phpcs_detailed E result), s1)"
      by (simp add: pure_pp_def)
    show ?thesis
      unfolding ex AICodeFixingHandler_execute_command_def Let_def
      by (simp only: assms p pp prod.case run_outcome.case option.case sum.case send_json_def)
  qed
qed

lemma phpcs_detailed_keys:
  "fst ` set (process_phpcs_detailed E result) \<subseteq> {''error'', ''phpcs_issues'', ''totals''}"
  unfolding process_phpcs_detailed_def
  by (auto split: sum.split prod.split)

lemma registered_config_name:
  assumes "map_of (COMMANDS E bridge) cmd = Some cmd_config"
  shows "name cmd_config = cmd"
  using assms
  by (auto simp add: COMMANDS_def AI_COMMANDS_def BASE_COMMANDS_def to_CommandConfig_def
      split: if_split_asm)

text \<open>
  The answer of \<open>ContainerAPIHandler._execute_command\<close> when the run completes and the
  post-processor raises.
\<close>

lemma execute_command_post_processor_error:
  assumes "bridge (''cd '' @ APP_PATH @ '' && '' @ command cmd_config @ '' 2>&1'')
             (timeout cmd_config) s = (Completed result, s1)"
    and "post_processor cmd_config = Some pp"
    and "pp result s1 = (Inl e, s2)"
  shows "ContainerAPIHandler_execute_command E bridge cmd_config s =
           (\<lparr>status_code = 200,
             body = [(''timestamp'', JStr (utcnow_iso E @ ''Z'')),
                     (''command'', JStr (name cmd_config)),
                     (''full_command'', JStr (command cmd_config)),
                     (''status'', JStr (status_of_returncode (returncode result))),
                     (''exit_code'', JInt (returncode result)),
                     (''output'', JStr (stdout result)),
                     (''container'', JStr CONTAINER_NAME),
                     (''post_processor_error'', JStr (exc_str e))]\<rparr>, s2)"
  unfolding ContainerAPIHandler_execute_command_def Let_def
  by (simp only: assms(1) assms(2) assms(3) prod.case run_outcome.case option.case sum.case
      base_response_post_processor_error)

text \<open>
  The request \<open>POST /cs-fix\<close> whose tool exits with 0 and reports a count of 4301 digits:
  the post-processor raises and the answer is 200 with status \<open>success\<close>.
\<close>

lemma cs_fix_over_limit_request:
  "ContainerAPIHandler_do_POST stub_env
     (const_bridge (Completed \<lparr>returncode = 0,
                               stdout = ''Fixed '' @ replicate 4301 (CHR ''1'') @ '' files'',
                               stderr = []\<rparr>))
     ''/cs-fix'' rb []
   = (\<lparr>status_code = 200,
       body = [(''timestamp'', JStr ''2025-01-01T00:00:00Z''),
               (''command'', JStr ''cs-fix''),
               (''full_command'', JStr ''composer cs:fix''),
               (''status'', JStr ''success''),
               (''exit_code'', JInt 0),
               (''output'', JStr (''Fixed '' @ replicate 4301 (CHR ''1'') @ '' files'')),
               (''container'', JStr ''master-nextcloud-1''),
               (''post_processor_error'',
                JStr (''Exceeds the limit (4300 digits) for integer string conversion: '' @
                      ''value has 4301 digits; use sys.set_int_max_str_digits() to increase the limit''))]\<rparr>,
      [''cd /var/www/html/apps-extra/openregister && composer cs:fix 2>&1''])"
proof -
  let ?r = "\<lparr>returncode = 0, stdout = ''Fixed '' @ replicate 4301 (CHR ''1'') @ '' files'',
             stderr = []\<rparr>"
  let ?b = "const_bridge (Completed ?r)"
  let ?cfg = "\<lparr>name = ''cs-fix'', command = ''composer cs:fix'', timeout = 120,
         description = ''Auto-fix code style issues with PHP CS Fixer'',
         post_processor = Some (local_pp (process_cs_fix_result stub_env))\<rparr> :: string list CommandConfig"
  let ?log = "[''cd /var/www/html/apps-extra/openregister && composer cs:fix 2>&1'']"
  let ?e = "int_limit_error (int_max_str_digits stub_env) (replicate 4301 (CHR ''1''))"
  have reg: "map_of (COMMANDS stub_env ?b) ''cs-fix'' = Some ?cfg"
    by (simp add: COMMANDS_def AI_COMMANDS_def BASE_COMMANDS_def)
  have run: "?b (''cd '' @ APP_PATH @ '' && '' @ command ?cfg @ '' 2>&1'') (timeout ?cfg) []
             = (Completed ?r, ?log)"
    by (simp add: const_bridge_def APP_PATH_def)
  have pp: "post_processor ?cfg = Some (local_pp (process_cs_fix_result stub_env))" by simp
  have raises: "local_pp (process_cs_fix_result stub_env) ?r ?log = (Inl ?e, ?log)"
    unfolding local_pp_def
    by (simp only: cs_fix_over_limit [OF ones_over_limit(1) ones_over_limit(2) ones_over_limit(3)])
  have "ContainerAPIHandler_do_POST stub_env ?b (''/'' @ ''cs-fix'') rb [] =
        ContainerAPIHandler_execute_command stub_env ?b ?cfg []"
    using reg by (rule registered_route)
  also have "\<dots> = (\<lparr>status_code = 200,
             body = [(''timestamp'', JStr (utcnow_iso stub_env @ ''Z'')),
                     (''command'', JStr (name ?cfg)),
                     (''full_command'', JStr (command ?cfg)),
                     (''status'', JStr (status_of_returncode (returncode ?r))),
                     (''exit_code'', JInt (returncode ?r)),
                     (''output'', JStr (stdout ?r)),
                     (''container'', JStr CONTAINER_NAME),
                     (''post_processor_error'', JStr (exc_str ?e))]\<rparr>, ?log)"
    using run pp raises by (rule execute_command_post_processor_error)
  finally have "ContainerAPIHandler_do_POST stub_env ?b (''/'' @ ''cs-fix'') rb [] =
           (\<lparr>status_code = 200,
             body = [(''timestamp'', JStr (utcnow_iso stub_env @ ''Z'')),
                     (''command'', JStr (name ?cfg)),
                     (''full_command'', JStr (command ?cfg)),
                     (''status'', JStr (status_of_returncode (returncode ?r))),
                     (''exit_code'', JInt (returncode ?r)),
                     (''output'', JStr (stdout ?r)),
                     (''container'', JStr CONTAINER_NAME),
                     (''post_processor_error'', JStr (exc_str ?e))]\<rparr>, ?log)" .
  moreover have "utcnow_iso stub_env = ''2025-01-01T00:00:00''" by (simp add: stub_env_def)
  ultimately show ?thesis
    by (simp add: ones_over_limit(4) status_of_returncode_def CONTAINER_NAME_def)
qed

subsection \<open>Unknown routes\<close>

text \<open>
  C7 (as amended). Each server answers 404 to a POST whose path, without its leading
  slashes, is none of its own routes: for \<open>ContainerAPIHandler\<close> the three file
  operations and the commands of its table, for \<open>AICodeFixingHandler\<close> the three file
  operations, \<open>ai-fix-code\<close> and the three commands of its table. The body of
  \<open>ContainerAPIHandler\<close> lists every registered command and the three file operations
  in \<open>available_commands\<close>, and not the requested name; the body of
  \<open>AICodeFixingHandler\<close> holds the error message only.
\<close>

theorem unknown_command_404:
  "(command_name = dropWhile (\<lambda>c. c = CHR ''/'') path
      \<and> command_name \<notin> set file_operations
      \<and> command_name \<notin> set (map fst (COMMANDS E (bridge :: 's bridge)))
    \<longrightarrow> ContainerAPIHandler_do_POST E bridge path rb s =
           (\<lparr>status_code = 404,
             body = [(''error'', JStr (''Unknown command: '' @ command_name)),
                     (''available_commands'',
                      JList (map JStr (map fst (COMMANDS E bridge) @ file_operations)))]\<rparr>, s)
       \<and> set (map fst (COMMANDS E bridge)) \<union> {''read-file'', ''write-file'', ''backup-file''}
             = set (map fst (COMMANDS E bridge) @ file_operations)
       \<and> command_name \<notin> set (map fst (COMMANDS E bridge) @ file_operations))
   \<and> (command_name = dropWhile (\<lambda>c. c = CHR ''/'') path
      \<and> command_name \<notin> set file_operations
      \<and> command_name \<noteq> ''ai-fix-code''
      \<and> command_name \<notin> set (map fst (AICodeFixing_COMMANDS E :: (string \<times> 's command_dict) list))
    \<longrightarrow> AICodeFixingHandler_do_POST E bridge ollama path rb s =
           (\<lparr>status_code = 404,
             body = [(''error'', JStr (''Unknown endpoint: '' @ command_name))]\<rparr>, s))"
proof (intro conjI impI)
  assume a: "command_name = dropWhile (\<lambda>c. c = CHR ''/'') path
      \<and> command_name \<notin> set file_operations
      \<and> command_name \<notin> set (map fst (COMMANDS E bridge))"
  then have p: "command_name = dropWhile (\<lambda>c. c = CHR ''/'') path"
    and f: "command_name \<notin> set file_operations"
    and r: "command_name \<notin> set (map fst (COMMANDS E bridge))"
    by blast+
  have none: "map_of (COMMANDS E bridge) command_name = None"
    using r by (rule map_of_None_names)
  show "ContainerAPIHandler_do_POST E bridge path rb s =
           (\<lparr>status_code = 404,
             body = [(''error'', JStr (''Unknown command: '' @ command_name)),
                     (''available_commands'',
                      JList (map JStr (map fst (COMMANDS E bridge) @ file_operations)))]\<rparr>, s)"
    unfolding ContainerAPIHandler_do_POST_def Let_def p [symmetric]
    using f none by simp
  show "set (map fst (COMMANDS E bridge)) \<union> {''read-file'', ''write-file'', ''backup-file''}
             = set (map fst (COMMANDS E bridge) @ file_operations)"
    by (simp add: file_operations_def)
  show "command_name \<notin> set (map fst (COMMANDS E bridge) @ file_operations)"
    using f r by simp
next
  assume a: "command_name = dropWhile (\<lambda>c. c = CHR ''/'') path
      \<and> command_name \<notin> set file_operations
      \<and> command_name \<noteq> ''ai-fix-code''
      \<and> command_name \<notin> set (map fst (AICodeFixing_COMMANDS E :: (string \<times> 's command_dict) list))"
  then have p: "command_name = dropWhile (\<lambda>c. c = CHR ''/'') path"
    and f: "command_name \<notin> set file_operations"
    and x: "command_name \<noteq> ''ai-fix-code''"
    and r: "command_name \<notin> set (map fst (AICodeFixing_COMMANDS E :: (string \<times> 's command_dict) list))"
    by blast+
  have none: "map_of (AICodeFixing_COMMANDS E :: (string \<times> 's command_dict) list) command_name = None"
    using r by (rule map_of_None_names)
  have ex: "AICodeFixingHandler_execute_command E bridge command_name s = None"
    unfolding AICodeFixingHandler_execute_command_def by (simp only: none option.case)
  show "AICodeFixingHandler_do_POST E bridge ollama path rb s =
           (\<lparr>status_code = 404,
             body = [(''error'', JStr (''Unknown endpoint: '' @ command_name))]\<rparr>, s)"
    unfolding AICodeFixingHandler_do_POST_def Let_def p [symmetric]
    using f x ex by (simp add: send_error_def)
qed

theorem unknown_command_404_witness:
  "ContainerAPIHandler_do_POST stub_env (const_bridge (Raise (OtherException ''unused'')))
         ''/does-not-exist'' EmptyBody [] =
       (\<lparr>status_code = 404,
         body = [(''error'', JStr ''Unknown command: does-not-exist''),
                 (''available_commands'',
                  JList [JStr ''phpqa'', JStr ''cs-fix'', JStr ''cs-check'', JStr ''phpstan'',
                         JStr ''psalm'', JStr ''test-unit'', JStr ''test-integration'',
                         JStr ''composer-install'', JStr ''composer-update'', JStr ''npm-install'',
                         JStr ''build-js'', JStr ''watch-js'', JStr ''phpcs-detailed'',
                         JStr ''read-file'', JStr ''write-file'', JStr ''backup-file''])]\<rparr>, [])
   \<and> ContainerAPIHandler_do_POST stub_env (const_bridge (Raise (OtherException ''unused'')))
         ''/ai-fix-code'' EmptyBody [] =
       (\<lparr>status_code = 404,
         body = [(''error'', JStr ''Unknown command: ai-fix-code''),
                 (''available_commands'',
                  JList [JStr ''phpqa'', JStr ''cs-fix'', JStr ''cs-check'', JStr ''phpstan'',
                         JStr ''psalm'', JStr ''test-unit'', JStr ''test-integration'',
                         JStr ''composer-install'', JStr ''composer-update'', JStr ''npm-install'',
                         JStr ''build-js'', JStr ''watch-js'', JStr ''phpcs-detailed'',
                         JStr ''read-file'', JStr ''write-file'', JStr ''backup-file''])]\<rparr>, [])
   \<and> AICodeFixingHandler_do_POST stub_env (const_bridge (Raise (OtherException ''unused'')))
         (const_model (PostRaise (OtherException ''unused''))) ''/psalm'' EmptyBody [] =
       (\<lparr>status_code = 404, body = [(''error'', JStr ''Unknown endpoint: psalm'')]\<rparr>, [])"
proof -
  let ?b = "const_bridge (Raise (OtherException ''unused''))"
  let ?m = "const_model (PostRaise (OtherException ''unused''))"
  have h1: "''does-not-exist'' = dropWhile (\<lambda>c. c = CHR ''/'') ''/does-not-exist''
      \<and> ''does-not-exist'' \<notin> set file_operations
      \<and> ''does-not-exist'' \<notin> set (map fst (COMMANDS stub_env ?b))"
    by (simp add: command_names file_operations_def)
  have h2: "''ai-fix-code'' = dropWhile (\<lambda>c. c = CHR ''/'') ''/ai-fix-code''
      \<and> ''ai-fix-code'' \<notin> set file_operations
      \<and> ''ai-fix-code'' \<notin> set (map fst (COMMANDS stub_env ?b))"
    by (simp add: command_names file_operations_def)
  have h3: "''psalm'' = dropWhile (\<lambda>c. c = CHR ''/'') ''/psalm''
      \<and> ''psalm'' \<notin> set file_operations
      \<and> ''psalm'' \<noteq> ''ai-fix-code''
      \<and> ''psalm'' \<notin> set (map fst (AICodeFixing_COMMANDS stub_env :: (string \<times> string list command_dict) list))"
    by (simp add: ai_command_names file_operations_def)
  note t1 = unknown_command_404 [where E = stub_env and bridge = ?b and rb = EmptyBody
      and s = "[]" and ollama = ?m and command_name = "''does-not-exist''"
      and path = "''/does-not-exist''"]
  note t2 = unknown_command_404 [where E = stub_env and bridge = ?b and rb = EmptyBody
      and s = "[]" and ollama = ?m and command_name = "''ai-fix-code''"
      and path = "''/ai-fix-code''"]
  note t3 = unknown_command_404 [where E = stub_env and bridge = ?b and rb = EmptyBody
      and s = "[]" and ollama = ?m and command_name = "''psalm''" and path = "''/psalm''"]
  from t1 h1 have "ContainerAPIHandler_do_POST stub_env ?b ''/does-not-exist'' EmptyBody [] =
           (\<lparr>status_code = 404,
             body = [(''error'', JStr (''Unknown command: '' @ ''does-not-exist'')),
                     (''available_commands'',
                      JList (map JStr (map fst (COMMANDS stub_env ?b) @ file_operations)))]\<rparr>, [])"
    by blast
  then have c1: "ContainerAPIHandler_do_POST stub_env ?b ''/does-not-exist'' EmptyBody [] =
       (\<lparr>status_code = 404,
         body = [(''error'', JStr ''Unknown command: does-not-exist''),
                 (''available_commands'',
                  JList [JStr ''phpqa'', JStr ''cs-fix'', JStr ''cs-check'', JStr ''phpstan'',
                         JStr ''psalm'', JStr ''test-unit'', JStr ''test-integration'',
                         JStr ''composer-install'', JStr ''composer-update'', JStr ''npm-install'',
                         JStr ''build-js'', JStr ''watch-js'', JStr ''phpcs-detailed'',
                         JStr ''read-file'', JStr ''write-file'', JStr ''backup-file''])]\<rparr>, [])"
    by (simp add: command_names file_operations_def)
  from t2 h2 have "ContainerAPIHandler_do_POST stub_env ?b ''/ai-fix-code'' EmptyBody [] =
           (\<lparr>status_code = 404,
             body = [(''error'', JStr (''Unknown command: '' @ ''ai-fix-code'')),
                     (''available_commands'',
                      JList (map JStr (map fst (COMMANDS stub_env ?b) @ file_operations)))]\<rparr>, [])"
    by blast
  then have c2: "ContainerAPIHandler_do_POST stub_env ?b ''/ai-fix-code'' EmptyBody [] =
       (\<lparr>status_code = 404,
         body = [(''error'', JStr ''Unknown command: ai-fix-code''),
                 (''available_commands'',
                  JList [JStr ''phpqa'', JStr ''cs-fix'', JStr ''cs-check'', JStr ''phpstan'',
                         JStr ''psalm'', JStr ''test-unit'', JStr ''test-integration'',
                         JStr ''composer-install'', JStr ''composer-update'', JStr ''npm-install'',
                         JStr ''build-js'', JStr ''watch-js'', JStr ''phpcs-detailed'',
                         JStr ''read-file'', JStr ''write-file'', JStr ''backup-file''])]\<rparr>, [])"
    by (simp add: command_names file_operations_def)
  from t3 h3 have "AICodeFixingHandler_do_POST stub_env ?b ?m ''/psalm'' EmptyBody [] =
           (\<lparr>status_code = 404,
             body = [(''error'', JStr (''Unknown endpoint: '' @ ''psalm''))]\<rparr>, [])"
    by blast
  then have c3: "AICodeFixingHandler_do_POST stub_env ?b ?m ''/psalm'' EmptyBody [] =
       (\<lparr>status_code = 404, body = [(''error'', JStr ''Unknown endpoint: psalm'')]\<rparr>, [])"
    by simp
  from c1 c2 c3 show ?thesis by (intro conjI)
qed

text \<open>
  C7 as worded fails: the 404 of \<open>AICodeFixingHandler\<close> for \<open>POST /does-not-exist\<close> has
  no \<open>available_commands\<close>.
\<close>

theorem unknown_endpoint_counterexample:
  "AICodeFixingHandler_do_POST stub_env (const_bridge (Raise (OtherException ''unused'')))
     (const_model (PostRaise (OtherException ''unused''))) ''/does-not-exist'' EmptyBody []
   = (\<lparr>status_code = 404, body = [(''error'', JStr ''Unknown endpoint: does-not-exist'')]\<rparr>, [])
   \<and> map_of [(''error'', JStr ''Unknown endpoint: does-not-exist'')] ''available_commands'' = None"
  by (simp add: AICodeFixingHandler_do_POST_def file_operations_def AICodeFixing_COMMANDS_def
      AICodeFixingHandler_execute_command_def send_error_def)

subsection \<open>Required fields of the AI fix\<close>

lemma ai_fix_reply_status:
  "status_code (ai_fix_reply file_path content out) = 200
   \<or> status_code (ai_fix_reply file_path content out) = 500"
  by (simp add: ai_fix_reply_def send_error_def send_json_def
      split: post_outcome.split sum.split)

lemma py_truthy_missing:
  "map_of d k = None \<Longrightarrow> \<not> py_truthy (case map_of d k of None \<Rightarrow> JNull | Some v \<Rightarrow> v)"
  by simp

text \<open>
  C9 (as amended). On a JSON object body, \<open>_handle_ai_fix\<close> answers 400 with the message
  \<open>Missing required fields\<close>, without calling the model service, when one of \<open>file\<close>,
  \<open>issues\<close>, \<open>content\<close> is missing or has a false truth value (\<open>null\<close>, \<open>false\<close>, 0, an
  empty string, list or object). When the three are present with a true truth value it
  calls the model service once with the prompt built from \<open>issues\<close> and \<open>content\<close>, and
  answers 200 or 500.
\<close>

theorem ai_fix_required_fields:
  assumes "file_path = (case map_of d ''file'' of None \<Rightarrow> JNull | Some v \<Rightarrow> v)"
    and "issues = (case map_of d ''issues'' of None \<Rightarrow> JNull | Some v \<Rightarrow> v)"
    and "content = (case map_of d ''content'' of None \<Rightarrow> JNull | Some v \<Rightarrow> v)"
  shows "((map_of d ''file'' = None \<or> map_of d ''issues'' = None \<or> map_of d ''content'' = None)
            \<longrightarrow> \<not> (py_truthy file_path \<and> py_truthy issues \<and> py_truthy content))
       \<and> (\<not> (py_truthy file_path \<and> py_truthy issues \<and> py_truthy content)
            \<longrightarrow> AICodeFixingHandler_handle_ai_fix E ollama (Parsed (JObj d)) s =
                  (\<lparr>status_code = 400, body = [(''error'', JStr ''Missing required fields'')]\<rparr>, s))
       \<and> (py_truthy file_path \<and> py_truthy issues \<and> py_truthy content
            \<longrightarrow> AICodeFixingHandler_handle_ai_fix E ollama (Parsed (JObj d)) s =
                  (ai_fix_reply file_path content (fst (ollama (fix_prompt E issues content) s)),
                   snd (ollama (fix_prompt E issues content) s))
                \<and> (status_code (fst (AICodeFixingHandler_handle_ai_fix E ollama (Parsed (JObj d)) s)) = 200
                   \<or> status_code (fst (AICodeFixingHandler_handle_ai_fix E ollama (Parsed (JObj d)) s)) = 500))"
proof -
  let ?T = "py_truthy file_path \<and> py_truthy issues \<and> py_truthy content"
  let ?h = "AICodeFixingHandler_handle_ai_fix E ollama (Parsed (JObj d)) s"
  have g1: "py_get (JObj d) ''file'' = Inr file_path"
    and g2: "py_get (JObj d) ''issues'' = Inr issues"
    and g3: "py_get (JObj d) ''content'' = Inr content"
    unfolding assms by simp_all
  have h: "?h = (if \<not> ?T
                 then (send_error 400 ''Missing required fields'', s)
                 else (case ollama (fix_prompt E issues content) s of
                         (out, s') \<Rightarrow> (ai_fix_reply file_path content out, s')))"
    unfolding AICodeFixingHandler_handle_ai_fix_def
    by (simp only: g1 g2 g3 body_read.case sum.case)
  have p1: "(map_of d ''file'' = None \<or> map_of d ''issues'' = None \<or> map_of d ''content'' = None)
            \<longrightarrow> \<not> ?T"
  proof
    assume "map_of d ''file'' = None \<or> map_of d ''issues'' = None \<or> map_of d ''content'' = None"
    then show "\<not> ?T"
      unfolding assms by (elim disjE) simp_all
  qed
  have p2: "\<not> ?T \<longrightarrow> ?h =
              (\<lparr>status_code = 400, body = [(''error'', JStr ''Missing required fields'')]\<rparr>, s)"
  proof
    assume "\<not> ?T"
    then show "?h = (\<lparr>status_code = 400, body = [(''error'', JStr ''Missing required fields'')]\<rparr>, s)"
      unfolding h send_error_def by (rule if_P)
  qed
  have p3: "?T \<longrightarrow> ?h =
                  (ai_fix_reply file_path content (fst (ollama (fix_prompt E issues content) s)),
                   snd (ollama (fix_prompt E issues content) s))
                \<and> (status_code (fst ?h) = 200 \<or> status_code (fst ?h) = 500)"
  proof
    assume t: "?T"
    have e: "?h = (ai_fix_reply file_path content (fst (ollama (fix_prompt E issues content) s)),
                   snd (ollama (fix_prompt E issues content) s))"
      unfolding h using t by (simp only: not_True_eq_False if_False case_prod_beta simp_thms)
    have "status_code (fst ?h) = 200 \<or> status_code (fst ?h) = 500"
      unfolding e fst_conv by (rule ai_fix_reply_status)
    with e show "?h =
                  (ai_fix_reply file_path content (fst (ollama (fix_prompt E issues content) s)),
                   snd (ollama (fix_prompt E issues content) s))
                \<and> (status_code (fst ?h) = 200 \<or> status_code (fst ?h) = 500)"
      by (rule conjI)
  qed
  from p1 p2 p3 show ?thesis by (intro conjI)
qed


lemma extract_example:
  "extract_fixed_code (JStr ''```php\<newline><?php echo 1;\<newline>```'') = Inr (JStr ''<?php echo 1;'')"
  by (simp add: extract_fixed_code_def between_fences_def fence_php_def fence_def py_split_def
      py_strip_def py_isspace_def)

theorem ai_fix_required_fields_witness:
  "py_truthy (JStr ''a.php'') \<and> py_truthy (JList [JStr ''Missing doc comment'']) \<and>
   py_truthy (JStr ''<?php echo 1 ;'')
   \<and> AICodeFixingHandler_handle_ai_fix stub_env
         (const_model (PostReply 200
            (Inr (JObj [(''response'', JStr ''```php\<newline><?php echo 1;\<newline>```'')]))))
         (Parsed (JObj [(''file'', JStr ''a.php''),
                        (''issues'', JList [JStr ''Missing doc comment'']),
                        (''content'', JStr ''<?php echo 1 ;'')])) []
       = (\<lparr>status_code = 200,
           body = [(''file'', JStr ''a.php''),
                   (''original_size'', JInt 14),
                   (''fixed_size'', JInt 13),
                   (''fixed_code'', JStr ''<?php echo 1;''),
                   (''status'', JStr ''success'')]\<rparr>,
          [fix_prompt stub_env (JList [JStr ''Missing doc comment'']) (JStr ''<?php echo 1 ;'')])"
proof -
  let ?d = "[(''file'', JStr ''a.php''),
             (''issues'', JList [JStr ''Missing doc comment'']),
             (''content'', JStr ''<?php echo 1 ;'')]"
  let ?m = "const_model (PostReply 200
            (Inr (JObj [(''response'', JStr ''```php\<newline><?php echo 1;\<newline>```'')])))"
  have h1: "JStr ''a.php'' = (case map_of ?d ''file'' of None \<Rightarrow> JNull | Some v \<Rightarrow> v)" by simp
  have h2: "JList [JStr ''Missing doc comment''] =
            (case map_of ?d ''issues'' of None \<Rightarrow> JNull | Some v \<Rightarrow> v)" by simp
  have h3: "JStr ''<?php echo 1 ;'' =
            (case map_of ?d ''content'' of None \<Rightarrow> JNull | Some v \<Rightarrow> v)" by simp
  have t: "py_truthy (JStr ''a.php'') \<and> py_truthy (JList [JStr ''Missing doc comment'']) \<and>
           py_truthy (JStr ''<?php echo 1 ;'')" by simp
  note r = ai_fix_required_fields [where E = stub_env and ollama = ?m and s = "[]", OF h1 h2 h3]
  from r t have e: "AICodeFixingHandler_handle_ai_fix stub_env ?m (Parsed (JObj ?d)) [] =
      (ai_fix_reply (JStr ''a.php'') (JStr ''<?php echo 1 ;'')
         (fst (?m (fix_prompt stub_env (JList [JStr ''Missing doc comment'']) (JStr ''<?php echo 1 ;'')) [])),
       snd (?m (fix_prompt stub_env (JList [JStr ''Missing doc comment'']) (JStr ''<?php echo 1 ;'')) []))"
    by blast
  have "AICodeFixingHandler_handle_ai_fix stub_env ?m (Parsed (JObj ?d)) []
       = (\<lparr>status_code = 200,
           body = [(''file'', JStr ''a.php''),
                   (''original_size'', JInt 14),
                   (''fixed_size'', JInt 13),
                   (''fixed_code'', JStr ''<?php echo 1;''),
                   (''status'', JStr ''success'')]\<rparr>,
          [fix_prompt stub_env (JList [JStr ''Missing doc comment'']) (JStr ''<?php echo 1 ;'')])"
    unfolding e
    by (simp add: const_model_def ai_fix_reply_def get_response_def extract_example send_json_def)
  with t show ?thesis by blast
qed

text \<open>
  C9 as worded fails: a body with the three fields present, \<open>issues\<close> being an empty list,
  is answered with 400 and the model service is not called.
\<close>

theorem ai_fix_empty_issues_counterexample:
  "map_of [(''file'', JStr ''a.php''), (''issues'', JList []), (''content'', JStr ''<?php echo 1 ;'')]
     ''issues'' = Some (JList [])
   \<and> AICodeFixingHandler_handle_ai_fix stub_env
         (const_model (PostReply 200 (Inr (JObj [(''response'', JStr ''<?php echo 1;'')]))))
         (Parsed (JObj [(''file'', JStr ''a.php''),
                        (''issues'', JList []),
                        (''content'', JStr ''<?php echo 1 ;'')])) []
       = (\<lparr>status_code = 400, body = [(''error'', JStr ''Missing required fields'')]\<rparr>, [])"
  by (simp add: AICodeFixingHandler_handle_ai_fix_def send_error_def)

subsection \<open>Post-processor exceptions\<close>

text \<open>
  C5. For a registered command of \<open>ContainerAPIHandler\<close> whose post-processor raises on
  the result of the bridge, the exception is caught: the POST is answered with 200, the
  base fields (status, exit code, output) are as the run left them and the exception's
  message is attached as \<open>post_processor_error\<close>. The only post-processor registered in
  \<open>AICodeFixingHandler\<close> catches its own exceptions and never raises: the POST is answered
  with 200, the base fields are kept and the fields of the post-processor (its \<open>error\<close>
  when it failed) are added.
\<close>

theorem post_processor_exception:
  "(map_of (COMMANDS E (bridge :: 's bridge)) cmd = Some cmd_config
      \<and> bridge (''cd '' @ APP_PATH @ '' && '' @ command cmd_config @ '' 2>&1'')
           (timeout cmd_config) s = (Completed result, s1)
      \<and> post_processor cmd_config = Some pp
      \<and> pp result s1 = (Inl e, s2)
    \<longrightarrow> ContainerAPIHandler_do_POST E bridge (''/'' @ cmd) rb s =
           (\<lparr>status_code = 200,
             body = [(''timestamp'', JStr (utcnow_iso E @ ''Z'')),
                     (''command'', JStr cmd),
                     (''full_command'', JStr (command cmd_config)),
                     (''status'', JStr (status_of_returncode (returncode result))),
                     (''exit_code'', JInt (returncode result)),
                     (''output'', JStr (stdout result)),
                     (''container'', JStr CONTAINER_NAME),
                     (''post_processor_error'', JStr (exc_str e))]\<rparr>, s2))
   \<and> (map_of (AICodeFixing_COMMANDS E) cmd = Some (ai_config :: 's command_dict)
      \<and> cmd_post_processor ai_config = Some pp'
    \<longrightarrow> pp' result' s' = (Inr (process_phpcs_detailed E result'), s'))
   \<and> (map_of (AICodeFixing_COMMANDS E) cmd = Some ai_config
      \<and> bridge (''cd '' @ APP_PATH @ '' && '' @ cmd_command ai_config @ '' 2>&1'')
           (cmd_timeout ai_config) s = (Completed result, s1)
      \<and> cmd_post_processor ai_config = Some pp'
    \<longrightarrow> status_code (fst (AICodeFixingHandler_do_POST E bridge ollama (''/'' @ cmd) rb s)) = 200
      \<and> body (fst (AICodeFixingHandler_do_POST E bridge ollama (''/'' @ cmd) rb s)) =
          dict_update [(''timestamp'', JStr (utcnow_iso E @ ''Z'')),
                       (''command'', JStr cmd),
                       (''status'', JStr (status_of_returncode (returncode result))),
                       (''exit_code'', JInt (returncode result)),
                       (''output'', JStr (stdout result))]
                      (process_phpcs_detailed E result)
      \<and> map_of (body (fst (AICodeFixingHandler_do_POST E bridge ollama (''/'' @ cmd) rb s)))
            ''status'' = Some (JStr (status_of_returncode (returncode result)))
      \<and> map_of (body (fst (AICodeFixingHandler_do_POST E bridge ollama (''/'' @ cmd) rb s)))
            ''exit_code'' = Some (JInt (returncode result))
      \<and> map_of (body (fst (AICodeFixingHandler_do_POST E bridge ollama (''/'' @ cmd) rb s)))
            ''output'' = Some (JStr (stdout result)))"
proof (intro conjI impI)
  assume a: "map_of (COMMANDS E bridge) cmd = Some cmd_config
      \<and> bridge (''cd '' @ APP_PATH @ '' && '' @ command cmd_config @ '' 2>&1'')
           (timeout cmd_config) s = (Completed result, s1)
      \<and> post_processor cmd_config = Some pp
      \<and> pp result s1 = (Inl e, s2)"
  then have reg: "map_of (COMMANDS E bridge) cmd = Some cmd_config"
    and run: "bridge (''cd '' @ APP_PATH @ '' && '' @ command cmd_config @ '' 2>&1'')
           (timeout cmd_config) s = (Completed result, s1)"
    and pp: "post_processor cmd_config = Some pp"
    and raises: "pp result s1 = (Inl e, s2)"
    by blast+
  show "ContainerAPIHandler_do_POST E bridge (''/'' @ cmd) rb s =
           (\<lparr>status_code = 200,
             body = [(''timestamp'', JStr (utcnow_iso E @ ''Z'')),
                     (''command'', JStr cmd),
                     (''full_command'', JStr (command cmd_config)),
                     (''status'', JStr (status_of_returncode (returncode result))),
                     (''exit_code'', JInt (returncode result)),
                     (''output'', JStr (stdout result)),
                     (''container'', JStr CONTAINER_NAME),
                     (''post_processor_error'', JStr (exc_str e))]\<rparr>, s2)"
    unfolding registered_route [OF reg]
      execute_command_post_processor_error [where bridge = bridge and pp = pp, OF run pp raises]
      registered_config_name [OF reg]
    by (rule refl)
next
  assume a: "map_of (AICodeFixing_COMMANDS E) cmd = Some ai_config
      \<and> cmd_post_processor ai_config = Some pp'"
  then have reg: "map_of (AICodeFixing_COMMANDS E) cmd = Some ai_config"
    and pp: "cmd_post_processor ai_config = Some pp'"
    by blast+
  from ai_registered(2) [OF reg] pp
  have "pp' = pure_pp (process_phpcs_detailed E)" by simp
  then show "pp' result' s' = (Inr (process_phpcs_detailed E result'), s')"
    by (simp add: pure_pp_def)
next
  assume a: "map_of (AICodeFixing_COMMANDS E) cmd = Some ai_config
      \<and> bridge (''cd '' @ APP_PATH @ '' && '' @ cmd_command ai_config @ '' 2>&1'')
           (cmd_timeout ai_config) s = (Completed result, s1)
      \<and> cmd_post_processor ai_config = Some pp'"
  then have reg: "map_of (AICodeFixing_COMMANDS E) cmd = Some ai_config"
    and run: "bridge (''cd '' @ APP_PATH @ '' && '' @ cmd_command ai_config @ '' 2>&1'')
           (cmd_timeout ai_config) s = (Completed result, s1)"
    and pp: "cmd_post_processor ai_config = Some pp'"
    by blast+
  let ?base = "[(''timestamp'', JStr (utcnow_iso E @ ''Z'')),
                (''command'', JStr cmd),
                (''status'', JStr (status_of_returncode (returncode result))),
                (''exit_code'', JInt (returncode result)),
                (''output'', JStr (stdout result))]"
  have ans: "AICodeFixingHandler_do_POST E bridge ollama (''/'' @ cmd) rb s =
             (\<lparr>status_code = 200, body = dict_update ?base (process_phpcs_detailed E result)\<rparr>, s1)"
    using ai_registered_completed [where bridge = bridge and ollama = ollama and rb = rb,
        OF reg run] pp by simp
  have k: "''status'' \<notin> fst ` set (process_phpcs_detailed E result)"
    "''exit_code'' \<notin> fst ` set (process_phpcs_detailed E result)"
    "''output'' \<notin> fst ` set (process_phpcs_detailed E result)"
    using phpcs_detailed_keys [of E result] by auto
  show "status_code (fst (AICodeFixingHandler_do_POST E bridge ollama (''/'' @ cmd) rb s)) = 200"
    unfolding ans by simp
  show "body (fst (AICodeFixingHandler_do_POST E bridge ollama (''/'' @ cmd) rb s)) =
          dict_update ?base (process_phpcs_detailed E result)"
    unfolding ans by simp
  show "map_of (body (fst (AICodeFixingHandler_do_POST E bridge ollama (''/'' @ cmd) rb s)))
            ''status'' = Some (JStr (status_of_returncode (returncode result)))"
    unfolding ans by (simp add: map_of_dict_update_other [OF k(1)])
  show "map_of (body (fst (AICodeFixingHandler_do_POST E bridge ollama (''/'' @ cmd) rb s)))
            ''exit_code'' = Some (JInt (returncode result))"
    unfolding ans by (simp add: map_of_dict_update_other [OF k(2)])
  show "map_of (body (fst (AICodeFixingHandler_do_POST E bridge ollama (''/'' @ cmd) rb s)))
            ''output'' = Some (JStr (stdout result))"
    unfolding ans by (simp add: map_of_dict_update_other [OF k(3)])
qed

theorem post_processor_exception_witness:
  "ContainerAPIHandler_do_POST stub_env
     (const_bridge (Completed \<lparr>returncode = 0,
                               stdout = ''Fixed '' @ replicate 4301 (CHR ''1'') @ '' files'',
                               stderr = []\<rparr>))
     ''/cs-fix'' EmptyBody []
   = (\<lparr>status_code = 200,
       body = [(''timestamp'', JStr ''2025-01-01T00:00:00Z''),
               (''command'', JStr ''cs-fix''),
               (''full_command'', JStr ''composer cs:fix''),
               (''status'', JStr ''success''),
               (''exit_code'', JInt 0),
               (''output'', JStr (''Fixed '' @ replicate 4301 (CHR ''1'') @ '' files'')),
               (''container'', JStr ''master-nextcloud-1''),
               (''post_processor_error'',
                JStr (''Exceeds the limit (4300 digits) for integer string conversion: '' @
                      ''value has 4301 digits; use sys.set_int_max_str_digits() to increase the limit''))]\<rparr>,
      [''cd /var/www/html/apps-extra/openregister && composer cs:fix 2>&1''])
   \<and> body (fst (AICodeFixingHandler_do_POST stub_env
         (const_bridge (Completed \<lparr>returncode = 1, stdout = ''ERROR: no report'', stderr = []\<rparr>))
         (const_model (PostRaise (OtherException ''unused''))) ''/phpcs-detailed'' EmptyBody []))
     = [(''timestamp'', JStr ''2025-01-01T00:00:00Z''),
        (''command'', JStr ''phpcs-detailed''),
        (''status'', JStr ''completed_with_errors''),
        (''exit_code'', JInt 1),
        (''output'', JStr ''ERROR: no report''),
        (''error'', JStr ''Failed to parse PHPCS: Expecting value: line 1 column 1 (char 0)'')]
   \<and> status_code (fst (AICodeFixingHandler_do_POST stub_env
         (const_bridge (Completed \<lparr>returncode = 1, stdout = ''ERROR: no report'', stderr = []\<rparr>))
         (const_model (PostRaise (OtherException ''unused''))) ''/phpcs-detailed'' EmptyBody []))
     = 200"
proof -
  let ?r = "\<lparr>returncode = 0, stdout = ''Fixed '' @ replicate 4301 (CHR ''1'') @ '' files'',
             stderr = []\<rparr>"
  let ?b = "const_bridge (Completed ?r)"
  let ?cfg = "\<lparr>name = ''cs-fix'', command = ''composer cs:fix'', timeout = 120,
         description = ''Auto-fix code style issues with PHP CS Fixer'',
         post_processor = Some (local_pp (process_cs_fix_result stub_env))\<rparr> :: string list CommandConfig"
  let ?log = "[''cd /var/www/html/apps-extra/openregister && composer cs:fix 2>&1'']"
  let ?e = "int_limit_error (int_max_str_digits stub_env) (replicate 4301 (CHR ''1''))"
  let ?m = "const_model (PostRaise (OtherException ''unused''))"
  let ?r' = "\<lparr>returncode = 1, stdout = ''ERROR: no report'', stderr = []\<rparr>"
  let ?b' = "const_bridge (Completed ?r')"
  let ?cfg' = "\<lparr>cmd_command = ''./vendor/bin/phpcs --report=json --standard=PSR12 lib/'',
        cmd_timeout = 60,
        cmd_description = ''Get detailed PHPCS issues for AI fixing'',
        cmd_post_processor = Some (pure_pp (process_phpcs_detailed stub_env))\<rparr> :: string list command_dict"
  let ?log' = "[''cd /var/www/html/apps-extra/openregister && ./vendor/bin/phpcs --report=json --standard=PSR12 lib/ 2>&1'']"
  have h: "map_of (COMMANDS stub_env ?b) ''cs-fix'' = Some ?cfg
      \<and> ?b (''cd '' @ APP_PATH @ '' && '' @ command ?cfg @ '' 2>&1'') (timeout ?cfg) []
           = (Completed ?r, ?log)
      \<and> post_processor ?cfg = Some (local_pp (process_cs_fix_result stub_env))
      \<and> local_pp (process_cs_fix_result stub_env) ?r ?log = (Inl ?e, ?log)"
  proof (intro conjI)
    show "map_of (COMMANDS stub_env ?b) ''cs-fix'' = Some ?cfg"
      by (simp add: COMMANDS_def AI_COMMANDS_def BASE_COMMANDS_def)
    show "?b (''cd '' @ APP_PATH @ '' && '' @ command ?cfg @ '' 2>&1'') (timeout ?cfg) []
             = (Completed ?r, ?log)"
      by (simp add: const_bridge_def APP_PATH_def)
    show "post_processor ?cfg = Some (local_pp (process_cs_fix_result stub_env))" by simp
    show "local_pp (process_cs_fix_result stub_env) ?r ?log = (Inl ?e, ?log)"
      unfolding local_pp_def
      by (simp only: cs_fix_over_limit [OF ones_over_limit(1) ones_over_limit(2) ones_over_limit(3)])
  qed
  have h': "map_of (AICodeFixing_COMMANDS stub_env) ''phpcs-detailed'' = Some ?cfg'
      \<and> ?b' (''cd '' @ APP_PATH @ '' && '' @ cmd_command ?cfg' @ '' 2>&1'') (cmd_timeout ?cfg') []
           = (Completed ?r', ?log')
      \<and> cmd_post_processor ?cfg' = Some (pure_pp (process_phpcs_detailed stub_env))"
    by (simp add: AICodeFixing_COMMANDS_def const_bridge_def APP_PATH_def)
  note t = post_processor_exception [where E = stub_env and bridge = ?b and cmd = "''cs-fix''"
      and cmd_config = ?cfg and s = "[]" and result = ?r and ?s1.0 = ?log and ?s2.0 = ?log
      and pp = "local_pp (process_cs_fix_result stub_env)" and e = ?e and rb = EmptyBody]
  note t' = post_processor_exception [where E = stub_env and bridge = ?b'
      and cmd = "''phpcs-detailed''" and ai_config = ?cfg' and s = "[]" and result = ?r'
      and ?s1.0 = ?log' and pp' = "pure_pp (process_phpcs_detailed stub_env)"
      and rb = EmptyBody and ollama = ?m]
  from t h have "ContainerAPIHandler_do_POST stub_env ?b (''/'' @ ''cs-fix'') EmptyBody [] =
           (\<lparr>status_code = 200,
             body = [(''timestamp'', JStr (utcnow_iso stub_env @ ''Z'')),
                     (''command'', JStr ''cs-fix''),
                     (''full_command'', JStr (command ?cfg)),
                     (''status'', JStr (status_of_returncode (returncode ?r))),
                     (''exit_code'', JInt (returncode ?r)),
                     (''output'', JStr (stdout ?r)),
                     (''container'', JStr CONTAINER_NAME),
                     (''post_processor_error'', JStr (exc_str ?e))]\<rparr>, ?log)"
    by blast
  moreover have u: "utcnow_iso stub_env = ''2025-01-01T00:00:00''" by (simp add: stub_env_def)
  ultimately have c1: "ContainerAPIHandler_do_POST stub_env ?b ''/cs-fix'' EmptyBody []
   = (\<lparr>status_code = 200,
       body = [(''timestamp'', JStr ''2025-01-01T00:00:00Z''),
               (''command'', JStr ''cs-fix''),
               (''full_command'', JStr ''composer cs:fix''),
               (''status'', JStr ''success''),
               (''exit_code'', JInt 0),
               (''output'', JStr (''Fixed '' @ replicate 4301 (CHR ''1'') @ '' files'')),
               (''container'', JStr ''master-nextcloud-1''),
               (''post_processor_error'',
                JStr (''Exceeds the limit (4300 digits) for integer string conversion: '' @
                      ''value has 4301 digits; use sys.set_int_max_str_digits() to increase the limit''))]\<rparr>,
      ?log)"
    by (simp add: ones_over_limit(4) status_of_returncode_def CONTAINER_NAME_def)
  from t' h' have "status_code (fst (AICodeFixingHandler_do_POST stub_env ?b' ?m
                     (''/'' @ ''phpcs-detailed'') EmptyBody [])) = 200
      \<and> body (fst (AICodeFixingHandler_do_POST stub_env ?b' ?m
                     (''/'' @ ''phpcs-detailed'') EmptyBody [])) =
          dict_update [(''timestamp'', JStr (utcnow_iso stub_env @ ''Z'')),
                       (''command'', JStr ''phpcs-detailed''),
                       (''status'', JStr (status_of_returncode (returncode ?r'))),
                       (''exit_code'', JInt (returncode ?r')),
                       (''output'', JStr (stdout ?r'))]
                      (process_phpcs_detailed stub_env ?r')"
    by blast
  moreover have "process_phpcs_detailed stub_env ?r' =
      [(''error'', JStr ''Failed to parse PHPCS: Expecting value: line 1 column 1 (char 0)'')]"
    by (simp add: process_phpcs_detailed_def stub_env_def)
  ultimately have c2: "status_code (fst (AICodeFixingHandler_do_POST stub_env ?b' ?m
                     ''/phpcs-detailed'' EmptyBody [])) = 200
      \<and> body (fst (AICodeFixingHandler_do_POST stub_env ?b' ?m ''/phpcs-detailed'' EmptyBody []))
     = [(''timestamp'', JStr ''2025-01-01T00:00:00Z''),
        (''command'', JStr ''phpcs-detailed''),
        (''status'', JStr ''completed_with_errors''),
        (''exit_code'', JInt 1),
        (''output'', JStr ''ERROR: no report''),
        (''error'', JStr ''Failed to parse PHPCS: Expecting value: line 1 column 1 (char 0)'')]"
    using u by (simp add: dict_update_def status_of_returncode_def)
  from c1 c2 show ?thesis by blast
qed

subsection \<open>Status of a registered command\<close>

lemma phpqa_no_status:
  "process_phpqa_result E bridge r s = (Inr extra, s') \<Longrightarrow> ''status'' \<notin> fst ` set extra"
  unfolding process_phpqa_result_def
  by (auto split: prod.split_asm run_outcome.split_asm sum.split_asm)

lemma phpcs_no_status:
  "process_phpcs_result E bridge r s = (Inr extra, s') \<Longrightarrow> ''status'' \<notin> fst ` set extra"
  unfolding process_phpcs_result_def
  by (auto split: prod.split_asm run_outcome.split_asm sum.split_asm)

lemma cs_fix_no_status:
  "local_pp (process_cs_fix_result E) r s = (Inr extra, s') \<Longrightarrow> ''status'' \<notin> fst ` set extra"
  unfolding local_pp_def process_cs_fix_result_def
  by (auto split: sum.split_asm)

lemma test_no_status:
  "local_pp (process_test_result E) r s = (Inr extra, s') \<Longrightarrow> ''status'' \<notin> fst ` set extra"
  unfolding local_pp_def process_test_result_def Let_def
  by (auto split: sum.split_asm)

lemma registered_no_status:
  assumes "map_of (COMMANDS E bridge) cmd = Some cmd_config"
    and "post_processor cmd_config = Some pp"
    and "pp r s = (Inr extra, s')"
  shows "''status'' \<notin> fst ` set extra"
  using registered_post_processor [OF assms(1)] assms(2) assms(3)
    phpqa_no_status phpcs_no_status cs_fix_no_status test_no_status
  by (metis option.distinct(1) option.inject)

lemma map_of_base_response_status:
  "map_of [(''timestamp'', a), (''command'', b), (''full_command'', c), (''status'', d),
           (''exit_code'', e), (''output'', f), (''container'', g)] ''status'' = Some d"
  by simp

lemma execute_command_status:
  assumes "bridge (''cd '' @ APP_PATH @ '' && '' @ command cmd_config @ '' 2>&1'')
             (timeout cmd_config) s = (Completed result, s1)"
    and "\<And>pp extra s2. post_processor cmd_config = Some pp \<Longrightarrow> pp result s1 = (Inr extra, s2)
           \<Longrightarrow> ''status'' \<notin> fst ` set extra"
  shows "status_code (fst (ContainerAPIHandler_execute_command E bridge cmd_config s)) = 200
       \<and> map_of (body (fst (ContainerAPIHandler_execute_command E bridge cmd_config s))) ''status''
           = Some (JStr (status_of_returncode (returncode result)))"
proof (cases "post_processor cmd_config")
  case None
  show ?thesis
    unfolding ContainerAPIHandler_execute_command_def Let_def
    by (simp only: assms(1) None prod.case run_outcome.case option.case fst_conv
        http_response.simps map_of_base_response_status simp_thms)
next
  case (Some pp)
  obtain x s2 where pp: "pp result s1 = (x, s2)" by (cases "pp result s1") auto
  show ?thesis
  proof (cases x)
    case (Inl e)
    show ?thesis
      unfolding ContainerAPIHandler_execute_command_def Let_def
      by (simp only: assms(1) Some pp Inl prod.case run_outcome.case option.case sum.case
          fst_conv http_response.simps base_response_post_processor_error) simp
  next
    case (Inr extra)
    have "''status'' \<notin> fst ` set extra"
      using assms(2) [OF Some] pp Inr by simp
    then show ?thesis
      unfolding ContainerAPIHandler_execute_command_def Let_def
      by (simp only: assms(1) Some pp Inr prod.case run_outcome.case option.case sum.case
          fst_conv http_response.simps map_of_dict_update_other map_of_base_response_status
          simp_thms)
  qed
qed

lemma ai_execute_command_status:
  assumes "map_of (AICodeFixing_COMMANDS E) cmd = Some (ai_config :: 's command_dict)"
    and "(bridge :: 's bridge) (''cd '' @ APP_PATH @ '' && '' @ cmd_command ai_config @ '' 2>&1'')
           (cmd_timeout ai_config) s = (Completed result, s1)"
  shows "status_code (fst (AICodeFixingHandler_do_POST E bridge ollama (''/'' @ cmd) rb s)) = 200
       \<and> map_of (body (fst (AICodeFixingHandler_do_POST E bridge ollama (''/'' @ cmd) rb s))) ''status''
           = Some (JStr (status_of_returncode (returncode result)))"
proof -
  note ans = ai_registered_completed [where bridge = bridge and ollama = ollama and rb = rb,
      OF assms(1) assms(2)]
  have k: "''status'' \<notin> fst ` set (process_phpcs_detailed E result)"
    using phpcs_detailed_keys [of E result] by auto
  show ?thesis
    unfolding ans
    by (cases "cmd_post_processor ai_config") (simp_all add: map_of_dict_update_other [OF k])
qed

text \<open>
  C1 (as amended). For every registered command of either server, when the bridge returns
  with exit code \<open>e\<close> the POST is answered with HTTP 200 and the \<open>status\<close> field is
  \<open>success\<close> if \<open>e = 0\<close> and \<open>completed_with_errors\<close> otherwise. The status is fixed before
  the post-processor runs and nothing a post-processor does changes it.
\<close>

theorem registered_command_status:
  "(map_of (COMMANDS E (bridge :: 's bridge)) cmd = Some cmd_config
      \<and> bridge (''cd '' @ APP_PATH @ '' && '' @ command cmd_config @ '' 2>&1'')
           (timeout cmd_config) s = (Completed result, s1)
    \<longrightarrow> status_code (fst (ContainerAPIHandler_do_POST E bridge (''/'' @ cmd) rb s)) = 200
      \<and> map_of (body (fst (ContainerAPIHandler_do_POST E bridge (''/'' @ cmd) rb s))) ''status''
          = Some (JStr (if returncode result = 0 then ''success'' else ''completed_with_errors'')))
   \<and> (map_of (AICodeFixing_COMMANDS E) cmd = Some (ai_config :: 's command_dict)
      \<and> bridge (''cd '' @ APP_PATH @ '' && '' @ cmd_command ai_config @ '' 2>&1'')
           (cmd_timeout ai_config) s = (Completed result, s1)
    \<longrightarrow> status_code (fst (AICodeFixingHandler_do_POST E bridge ollama (''/'' @ cmd) rb s)) = 200
      \<and> map_of (body (fst (AICodeFixingHandler_do_POST E bridge ollama (''/'' @ cmd) rb s))) ''status''
          = Some (JStr (if returncode result = 0 then ''success'' else ''completed_with_errors'')))"
proof (intro conjI impI)
  assume a: "map_of (COMMANDS E bridge) cmd = Some cmd_config
      \<and> bridge (''cd '' @ APP_PATH @ '' && '' @ command cmd_config @ '' 2>&1'')
           (timeout cmd_config) s = (Completed result, s1)"
  then have reg: "map_of (COMMANDS E bridge) cmd = Some cmd_config"
    and run: "bridge (''cd '' @ APP_PATH @ '' && '' @ command cmd_config @ '' 2>&1'')
           (timeout cmd_config) s = (Completed result, s1)"
    by simp_all
  note route = registered_route [OF reg, of rb s]
  have st: "status_code (fst (ContainerAPIHandler_execute_command E bridge cmd_config s)) = 200
       \<and> map_of (body (fst (ContainerAPIHandler_execute_command E bridge cmd_config s))) ''status''
           = Some (JStr (status_of_returncode (returncode result)))"
    using run registered_no_status [OF reg] by (rule execute_command_status)
  from st show "status_code (fst (ContainerAPIHandler_do_POST E bridge (''/'' @ cmd) rb s)) = 200"
    unfolding route by simp
  from st show "map_of (body (fst (ContainerAPIHandler_do_POST E bridge (''/'' @ cmd) rb s))) ''status''
          = Some (JStr (if returncode result = 0 then ''success'' else ''completed_with_errors''))"
    unfolding route status_of_returncode_def by simp
next
  assume a: "map_of (AICodeFixing_COMMANDS E) cmd = Some ai_config
      \<and> bridge (''cd '' @ APP_PATH @ '' && '' @ cmd_command ai_config @ '' 2>&1'')
           (cmd_timeout ai_config) s = (Completed result, s1)"
  then have reg: "map_of (AICodeFixing_COMMANDS E) cmd = Some ai_config"
    and run: "bridge (''cd '' @ APP_PATH @ '' && '' @ cmd_command ai_config @ '' 2>&1'')
           (cmd_timeout ai_config) s = (Completed result, s1)"
    by simp_all
  note st = ai_execute_command_status [where bridge = bridge and ollama = ollama and rb = rb,
      OF reg run]
  from st show "status_code (fst (AICodeFixingHandler_do_POST E bridge ollama (''/'' @ cmd) rb s)) = 200"
    by simp
  from st show "map_of (body (fst (AICodeFixingHandler_do_POST E bridge ollama (''/'' @ cmd) rb s))) ''status''
          = Some (JStr (if returncode result = 0 then ''success'' else ''completed_with_errors''))"
    unfolding status_of_returncode_def by simp
qed

theorem registered_command_status_witness:
  "map_of (COMMANDS stub_env
            (const_bridge (Completed \<lparr>returncode = 1, stdout = ''Fixed 2 files'', stderr = []\<rparr>)))
      ''cs-fix''
     = Some \<lparr>name = ''cs-fix'', command = ''composer cs:fix'', timeout = 120,
         description = ''Auto-fix code style issues with PHP CS Fixer'',
         post_processor = Some (local_pp (process_cs_fix_result stub_env))\<rparr>
   \<and> const_bridge (Completed \<lparr>returncode = 1, stdout = ''Fixed 2 files'', stderr = []\<rparr>)
        (''cd '' @ APP_PATH @ '' && '' @ ''composer cs:fix'' @ '' 2>&1'') 120 []
     = (Completed \<lparr>returncode = 1, stdout = ''Fixed 2 files'', stderr = []\<rparr>,
        [''cd /var/www/html/apps-extra/openregister && composer cs:fix 2>&1''])
   \<and> status_code (fst (ContainerAPIHandler_do_POST stub_env
          (const_bridge (Completed \<lparr>returncode = 1, stdout = ''Fixed 2 files'', stderr = []\<rparr>))
          ''/cs-fix'' EmptyBody [])) = 200
   \<and> map_of (body (fst (ContainerAPIHandler_do_POST stub_env
          (const_bridge (Completed \<lparr>returncode = 1, stdout = ''Fixed 2 files'', stderr = []\<rparr>))
          ''/cs-fix'' EmptyBody []))) ''status'' = Some (JStr ''completed_with_errors'')"
proof -
  let ?r = "\<lparr>returncode = 1, stdout = ''Fixed 2 files'', stderr = []\<rparr>"
  let ?b = "const_bridge (Completed ?r)"
  let ?cfg = "\<lparr>name = ''cs-fix'', command = ''composer cs:fix'', timeout = 120,
         description = ''Auto-fix code style issues with PHP CS Fixer'',
         post_processor = Some (local_pp (process_cs_fix_result stub_env))\<rparr> :: string list CommandConfig"
  have h1: "map_of (COMMANDS stub_env ?b) ''cs-fix'' = Some ?cfg"
    by (simp add: COMMANDS_def AI_COMMANDS_def BASE_COMMANDS_def)
  have h2: "?b (''cd '' @ APP_PATH @ '' && '' @ ''composer cs:fix'' @ '' 2>&1'') 120 []
     = (Completed ?r, [''cd /var/www/html/apps-extra/openregister && composer cs:fix 2>&1''])"
    by (simp add: const_bridge_def APP_PATH_def)
  have h2': "?b (''cd '' @ APP_PATH @ '' && '' @ command ?cfg @ '' 2>&1'') (timeout ?cfg) []
     = (Completed ?r, [''cd /var/www/html/apps-extra/openregister && composer cs:fix 2>&1''])"
    using h2 by simp
  note t = registered_command_status [where E = stub_env and bridge = ?b and cmd = "''cs-fix''"
      and cmd_config = ?cfg and s = "[]" and result = ?r and rb = EmptyBody
      and ?s1.0 = "[''cd /var/www/html/apps-extra/openregister && composer cs:fix 2>&1'']"]
  from t h1 h2' have c:
    "status_code (fst (ContainerAPIHandler_do_POST stub_env ?b (''/'' @ ''cs-fix'') EmptyBody [])) = 200
     \<and> map_of (body (fst (ContainerAPIHandler_do_POST stub_env ?b (''/'' @ ''cs-fix'') EmptyBody [])))
          ''status''
        = Some (JStr (if returncode ?r = 0 then ''success'' else ''completed_with_errors''))"
    by blast
  from c have c': "status_code (fst (ContainerAPIHandler_do_POST stub_env ?b ''/cs-fix'' EmptyBody [])) = 200
     \<and> map_of (body (fst (ContainerAPIHandler_do_POST stub_env ?b ''/cs-fix'' EmptyBody []))) ''status''
        = Some (JStr ''completed_with_errors'')"
    by simp
  from h1 h2 c' show ?thesis by blast
qed


text \<open>
  C1 as worded fails where a post-processor fails while the exit code is 0: the
  status stays \<open>success\<close>. For \<open>phpqa\<close> the tool exits with 0 and the fetch of the report
  times out: the answer reports the failure under \<open>phpqa_report\<close> with status \<open>success\<close>.
  For \<open>cs-fix\<close> the tool exits with 0 and reports a count of 4301 digits, on which the
  post-processor raises: the answer carries \<open>post_processor_error\<close> with status
  \<open>success\<close>.
\<close>

theorem status_ignores_post_processor_counterexample:
  "ContainerAPIHandler_do_POST stub_env
     (scripted_bridge [Completed \<lparr>returncode = 0, stdout = ''No errors'', stderr = []\<rparr>,
                       Raise (TimeoutExpired ''Command timed out after 10 seconds'')])
     ''/phpqa'' EmptyBody 0
   = (\<lparr>status_code = 200,
       body = [(''timestamp'', JStr ''2025-01-01T00:00:00Z''),
               (''command'', JStr ''phpqa''),
               (''full_command'', JStr ''composer phpqa''),
               (''status'', JStr ''success''),
               (''exit_code'', JInt 0),
               (''output'', JStr ''No errors''),
               (''container'', JStr ''master-nextcloud-1''),
               (''phpqa_report'',
                JObj [(''error'',
                       JStr ''Failed to parse phpqa.json: Command timed out after 10 seconds'')])]\<rparr>,
      2)
   \<and> ContainerAPIHandler_do_POST stub_env
       (const_bridge (Completed \<lparr>returncode = 0,
                                 stdout = ''Fixed '' @ replicate 4301 (CHR ''1'') @ '' files'',
                                 stderr = []\<rparr>))
       ''/cs-fix'' EmptyBody []
   = (\<lparr>status_code = 200,
       body = [(''timestamp'', JStr ''2025-01-01T00:00:00Z''),
               (''command'', JStr ''cs-fix''),
               (''full_command'', JStr ''composer cs:fix''),
               (''status'', JStr ''success''),
               (''exit_code'', JInt 0),
               (''output'', JStr (''Fixed '' @ replicate 4301 (CHR ''1'') @ '' files'')),
               (''container'', JStr ''master-nextcloud-1''),
               (''post_processor_error'',
                JStr (''Exceeds the limit (4300 digits) for integer string conversion: '' @
                      ''value has 4301 digits; use sys.set_int_max_str_digits() to increase the limit''))]\<rparr>,
      [''cd /var/www/html/apps-extra/openregister && composer cs:fix 2>&1''])"
proof -
  have a: "ContainerAPIHandler_do_POST stub_env
     (scripted_bridge [Completed \<lparr>returncode = 0, stdout = ''No errors'', stderr = []\<rparr>,
                       Raise (TimeoutExpired ''Command timed out after 10 seconds'')])
     ''/phpqa'' EmptyBody 0
   = (\<lparr>status_code = 200,
       body = [(''timestamp'', JStr ''2025-01-01T00:00:00Z''),
               (''command'', JStr ''phpqa''),
               (''full_command'', JStr ''composer phpqa''),
               (''status'', JStr ''success''),
               (''exit_code'', JInt 0),
               (''output'', JStr ''No errors''),
               (''container'', JStr ''master-nextcloud-1''),
               (''phpqa_report'',
                JObj [(''error'',
                       JStr ''Failed to parse phpqa.json: Command timed out after 10 seconds'')])]\<rparr>,
      2)"
    by (simp add: ContainerAPIHandler_do_POST_def file_operations_def COMMANDS_def AI_COMMANDS_def
        BASE_COMMANDS_def ContainerAPIHandler_execute_command_def scripted_bridge_def
        process_phpqa_result_def dict_update_def stub_env_def status_of_returncode_def
        CONTAINER_NAME_def numeral_2_eq_2 Let_def)
  from a cs_fix_over_limit_request [of EmptyBody] show ?thesis by (rule conjI)
qed

subsection \<open>Extraction of the fixed code\<close>

lemma prefix_shorten:
  assumes "pre \<noteq> []" and "prefix sep (pre @ sep @ rest)"
  shows "prefix sep (pre @ butlast sep)"
proof (cases "sep = []")
  case True
  then show ?thesis by simp
next
  case False
  then have s: "sep = butlast sep @ [last sep]" by simp
  have "pre @ sep @ rest = (pre @ butlast sep) @ ([last sep] @ rest)"
    using s by (metis append.assoc)
  with assms(2) have "prefix sep ((pre @ butlast sep) @ ([last sep] @ rest))" by simp
  moreover have "length sep \<le> length (pre @ butlast sep)"
    using assms(1) by (cases pre) auto
  ultimately show ?thesis
    by (metis prefix_length_prefix prefixI le_refl append_prefixD prefix_order.eq_iff
        prefix_append)
qed


lemma first_occurrence_split:
  assumes "sep \<noteq> []" and "\<not> contains sep (pre @ butlast sep)"
  shows "split_from sep piece (pre @ sep @ rest) = (piece @ pre) # split_from sep [] rest"
  using assms(2)
proof (induction pre arbitrary: piece)
  case Nil
  obtain c sep' where sep: "sep = c # sep'" using assms(1) by (cases sep) auto
  have "split_from sep piece (c # sep' @ rest) =
          piece # split_from sep [] (drop (length sep) (c # sep' @ rest))"
    using sep by simp
  then show ?case using sep by simp
next
  case (Cons c pre)
  have np: "\<not> prefix sep ((c # pre) @ butlast sep)"
    using Cons.prems by simp
  have "\<not> prefix sep ((c # pre) @ sep @ rest)"
    using np prefix_shorten [of "c # pre" sep rest] by blast
  then have "split_from sep piece ((c # pre) @ sep @ rest) =
             split_from sep (piece @ [c]) (pre @ sep @ rest)"
    by simp
  moreover have "\<not> contains sep (pre @ butlast sep)"
    using Cons.prems by simp
  ultimately show ?case using Cons.IH [of "piece @ [c]"] by simp
qed

lemma before_first_fence:
  assumes "sep \<noteq> []" and "\<not> contains sep (pre @ butlast sep)"
  shows "hd (split_from sep [] (pre @ sep @ rest)) = pre"
  using first_occurrence_split [OF assms, of "[]" rest] by simp

lemma not_contains_shorter: "\<not> contains sep (s @ t) \<Longrightarrow> sep \<noteq> [] \<Longrightarrow> \<not> contains sep s"
proof (induction s)
  case Nil
  then show ?case by simp
next
  case (Cons c s)
  then show ?case by (auto dest: prefix_prefix)
qed

lemma prefix_first_char: "prefix (a # x) post \<Longrightarrow> prefix [a] post"
  by (cases post) auto

lemma fence_prefix_php: "prefix fence_php s \<Longrightarrow> prefix fence s"
proof -
  assume "prefix fence_php s"
  moreover have "prefix fence fence_php" by (simp add: fence_def fence_php_def)
  ultimately show "prefix fence s" by (rule prefix_order.trans [rotated])
qed

lemma contains_fence_php: "contains fence_php s \<Longrightarrow> contains fence s"
proof (induction s)
  case Nil
  then show ?case by (simp add: fence_php_def)
next
  case (Cons c s)
  then show ?case using fence_prefix_php [of "c # s"] by auto
qed

lemma contains_here: "contains sep (pre @ sep @ rest)"
proof (induction pre)
  case Nil
  show ?case
  proof (cases "sep @ rest")
    case Nil
    then show ?thesis by simp
  next
    case (Cons a list)
    have "prefix sep (sep @ rest)" by simp
    then have "prefix sep (a # list)" using Cons by simp
    then have "contains sep (a # list)" by simp
    then show ?thesis using Cons by simp
  qed
next
  case (Cons c pre)
  then show ?case by simp
qed

lemma php_step1:
  "\<not> prefix ''php'' post \<Longrightarrow>
   split_from ''```php'' piece (''```'' @ post) = split_from ''```php'' (piece @ ''`'') (''``'' @ post)"
  by simp

lemma php_step2:
  "\<not> prefix ''`php'' post \<Longrightarrow>
   split_from ''```php'' piece (''``'' @ post) = split_from ''```php'' (piece @ ''`'') (''`'' @ post)"
  by simp

lemma php_step3:
  "\<not> prefix ''``php'' post \<Longrightarrow>
   split_from ''```php'' piece (''`'' @ post) = split_from ''```php'' (piece @ ''`'') post"
  by simp


lemma php_head_base:
  assumes "\<not> prefix ''`'' post"
  shows "\<exists>w. hd (split_from fence_php [] (fence @ post)) = w \<and> (w = [] \<or> prefix fence w)"
proof (cases "prefix ''php'' post")
  case True
  then have "\<exists>rest. split_from ''```php'' [] (''```'' @ post) = [] # rest"
    by simp
  then have "hd (split_from fence_php [] (fence @ post)) = []"
    unfolding fence_def fence_php_def by (auto simp only: list.sel)
  then show ?thesis by blast
next
  case False
  have n1: "\<not> prefix ''`php'' post"
  proof
    assume "prefix ''`php'' post"
    then have "prefix ''`'' post" by (rule prefix_first_char)
    with assms show False by blast
  qed
  have n2: "\<not> prefix ''``php'' post"
  proof
    assume "prefix ''``php'' post"
    then have "prefix ''`'' post" by (rule prefix_first_char)
    with assms show False by blast
  qed
  have "split_from ''```php'' [] (''```'' @ post) = split_from ''```php'' ''```'' post"
    using php_step1 [OF False, of "[]"] php_step2 [OF n1, of "''`''"] php_step3 [OF n2, of "''``''"]
    by (simp only: append.simps)
  then have "hd (split_from fence_php [] (fence @ post)) = hd (split_from fence_php fence post)"
    unfolding fence_def fence_php_def by (rule arg_cong)
  then have "hd (split_from fence_php [] (fence @ post)) = fence @ hd (split_from fence_php [] post)"
    by (simp only: hd_split_from_piece [of fence_php fence post])
  then show ?thesis by (metis prefixI)
qed


lemma php_head:
  assumes "\<not> contains fence (inner @ butlast fence)" and "\<not> prefix ''`'' post"
  shows "\<exists>w. hd (split_from fence_php [] (inner @ fence @ post)) = inner @ w
            \<and> (w = [] \<or> prefix fence w)"
  using assms(1)
proof (induction inner)
  case Nil
  show ?case using php_head_base [OF assms(2)] by simp
next
  case (Cons c inner)
  have np: "\<not> prefix fence ((c # inner) @ butlast fence)"
    using Cons.prems by simp
  have "\<not> prefix fence ((c # inner) @ fence @ post)"
    using np prefix_shorten [of "c # inner" fence post] by blast
  then have "\<not> prefix fence_php ((c # inner) @ fence @ post)"
    using fence_prefix_php by blast
  then have "split_from fence_php [] ((c # inner) @ fence @ post) =
             split_from fence_php [c] (inner @ fence @ post)"
    by simp
  then have h: "hd (split_from fence_php [] ((c # inner) @ fence @ post)) =
             c # hd (split_from fence_php [] (inner @ fence @ post))"
    using hd_split_from_piece [of fence_php "[c]" "inner @ fence @ post"] by simp
  have "\<not> contains fence (inner @ butlast fence)"
    using Cons.prems by simp
  then obtain w where "hd (split_from fence_php [] (inner @ fence @ post)) = inner @ w"
      and "w = [] \<or> prefix fence w"
    using Cons.IH by blast
  with h show ?case by simp
qed

lemma fence_head_of_php_head:
  assumes "\<not> contains fence (inner @ butlast fence)" and "\<not> prefix ''`'' post"
  shows "\<exists>rest. split_from fence [] (hd (split_from fence_php [] (inner @ fence @ post)))
                 = inner # rest"
proof -
  have ne: "fence \<noteq> []" by (simp add: fence_def)
  obtain w where w: "hd (split_from fence_php [] (inner @ fence @ post)) = inner @ w"
      and c: "w = [] \<or> prefix fence w"
    using php_head [OF assms] by blast
  from c show ?thesis
  proof
    assume "w = []"
    moreover have "\<not> contains fence inner"
      using assms(1) ne by (rule not_contains_shorter)
    ultimately show ?thesis using w not_contains_split [of fence inner "[]"] by simp
  next
    assume "prefix fence w"
    then obtain x where "w = fence @ x" by (auto simp add: prefix_def)
    then show ?thesis
      using w first_occurrence_split [OF ne assms(1), of "[]" x] by simp
  qed
qed

lemma fence_php_ne: "fence_php \<noteq> []" by (simp add: fence_php_def)
lemma fence_ne: "fence \<noteq> []" by (simp add: fence_def)

lemma extract_php_fenced:
  assumes "first_at fence_php pre" and "first_at fence inner" and "\<not> prefix ''`'' post"
  shows "extract_fixed_code (JStr (pre @ fence_php @ inner @ fence @ post)) = Inr (JStr (py_strip inner))"
proof -
  let ?r = "pre @ fence_php @ inner @ fence @ post"
  have a: "py_in fence_php (JStr ?r) = Inr True"
    using contains_here [of fence_php pre "inner @ fence @ post"] by simp
  have sp: "py_split fence_php ?r = pre # split_from fence_php [] (inner @ fence @ post)"
    unfolding py_split_def
    using first_occurrence_split [OF fence_php_ne, of pre "[]" "inner @ fence @ post"] assms(1)
    by (simp add: first_at_def)
  obtain b rest where br: "split_from fence_php [] (inner @ fence @ post) = b # rest"
    using split_from_nonempty [of fence_php "[]" "inner @ fence @ post"]
    by (cases "split_from fence_php [] (inner @ fence @ post)") auto
  then have b: "b = hd (split_from fence_php [] (inner @ fence @ post))" by simp
  obtain rest' where c: "py_split fence b = inner # rest'"
    unfolding py_split_def b
    using fence_head_of_php_head [of inner post] assms(2) assms(3)
    by (auto simp add: first_at_def)
  have "between_fences fence_php (JStr ?r) = Inr (JStr (py_strip inner))"
    unfolding between_fences_def by (simp only: json.case sp br c list.case)
  then show ?thesis
    unfolding extract_fixed_code_def by (simp only: a sum.case bool.case)
qed

lemma extract_plain_fenced:
  assumes "\<not> contains fence_php (pre @ fence @ inner @ fence @ post)"
    and "first_at fence pre" and "first_at fence inner"
  shows "extract_fixed_code (JStr (pre @ fence @ inner @ fence @ post)) = Inr (JStr (py_strip inner))"
proof -
  let ?r = "pre @ fence @ inner @ fence @ post"
  have a: "py_in fence_php (JStr ?r) = Inr False"
    using assms(1) by simp
  have a': "py_in fence (JStr ?r) = Inr True"
    using contains_here [of fence pre "inner @ fence @ post"] by simp
  have s1: "split_from fence [] (inner @ fence @ post) = inner # split_from fence [] post"
    using first_occurrence_split [OF fence_ne, of inner "[]" post] assms(3)
    by (simp add: first_at_def)
  have sp: "py_split fence ?r = pre # inner # split_from fence [] post"
    unfolding py_split_def
    using first_occurrence_split [OF fence_ne, of pre "[]" "inner @ fence @ post"] assms(2) s1
    by (simp add: first_at_def)
  have "\<not> contains fence inner"
    using assms(3) fence_ne unfolding first_at_def by (rule not_contains_shorter)
  then have c: "py_split fence inner = [inner]"
    unfolding py_split_def using not_contains_split [of fence inner "[]"] by simp
  have "between_fences fence (JStr ?r) = Inr (JStr (py_strip inner))"
    unfolding between_fences_def by (simp only: json.case sp c list.case)
  then show ?thesis
    unfolding extract_fixed_code_def by (simp only: a a' sum.case bool.case)
qed

lemma extract_unfenced:
  assumes "\<not> contains fence r"
  shows "extract_fixed_code (JStr r) = Inr (JStr r)"
proof -
  have "\<not> contains fence_php r" using assms contains_fence_php by blast
  then have a: "py_in fence_php (JStr r) = Inr False" by simp
  have a': "py_in fence (JStr r) = Inr False" using assms by simp
  show ?thesis
    unfolding extract_fixed_code_def by (simp only: a a' sum.case bool.case)
qed

lemma ai_fix_reply_fixed_code:
  assumes "extract_fixed_code (JStr r) = Inr (JStr code)" and "py_len content = Inr n"
  shows "ai_fix_reply file_path content (PostReply 200 (Inr (JObj [(''response'', JStr r)]))) =
           \<lparr>status_code = 200,
             body = [(''file'', file_path),
                     (''original_size'', JInt (int n)),
                     (''fixed_size'', JInt (int (length code))),
                     (''fixed_code'', JStr code),
                     (''status'', JStr ''success'')]\<rparr>"
proof -
  have g: "get_response (JObj [(''response'', JStr r)]) = Inr (JStr r)"
    by (simp add: get_response_def)
  have l: "py_len (JStr code) = Inr (length code)" by simp
  show ?thesis
    unfolding ai_fix_reply_def
    by (simp only: post_outcome.case sum.case g assms l send_json_def) simp
qed

text \<open>
  The extraction for every response, in terms of the text before and after the first
  occurrence of a fence.
\<close>

lemma between_fences_eq:
  assumes "sep \<noteq> []" and "contains sep r"
  shows "between_fences sep (JStr r) =
           Inr (JStr (py_strip (text_before fence (text_before sep (text_after sep r)))))"
proof -
  obtain rest where a: "py_split sep (text_after sep r) = text_before sep (text_after sep r) # rest"
    using py_split_hd [OF assms(1)] by blast
  have sp: "py_split sep r = text_before sep r # text_before sep (text_after sep r) # rest"
    using py_split_before_after [OF assms] a by simp
  obtain rest' where c: "py_split fence (text_before sep (text_after sep r)) =
      text_before fence (text_before sep (text_after sep r)) # rest'"
    using py_split_hd [OF fence_ne] by blast
  show ?thesis
    unfolding between_fences_def by (simp only: json.case sp c list.case)
qed

lemma extract_fixed_code_eq:
  "extract_fixed_code (JStr r) =
     Inr (JStr (if contains fence_php r
                then py_strip (text_before fence (text_before fence_php (text_after fence_php r)))
                else if contains fence r
                then py_strip (text_before fence (text_after fence r))
                else r))"
proof (cases "contains fence_php r")
  case True
  then have a: "py_in fence_php (JStr r) = Inr True" by simp
  show ?thesis
    unfolding extract_fixed_code_def
    by (simp only: a sum.case bool.case between_fences_eq [OF fence_php_ne True] True if_True)
next
  case False
  then have a: "py_in fence_php (JStr r) = Inr False" by simp
  show ?thesis
  proof (cases "contains fence r")
    case True
    then have a': "py_in fence (JStr r) = Inr True" by simp
    show ?thesis
      unfolding extract_fixed_code_def
      by (simp only: a a' sum.case bool.case between_fences_eq [OF fence_ne True]
          text_before_idem [OF fence_ne] False True if_True if_False)
  next
    case nf: False
    then have a': "py_in fence (JStr r) = Inr False" by simp
    show ?thesis
      unfolding extract_fixed_code_def
      by (simp only: a a' sum.case bool.case False nf if_False)
  qed
qed

text \<open>
  C4 (as amended). The fixed code is taken from the model's response \<open>r\<close> as follows, for
  every \<open>r\<close>. If \<open>r\<close> has a \<open>```php\<close>, it is the text that follows the first \<open>```php\<close>, cut
  before the next \<open>```php\<close> and then before the first \<open>```\<close>, trimmed; else if \<open>r\<close> has a
  \<open>```\<close>, it is the text between the first \<open>```\<close> and the next one (the end of \<open>r\<close> when
  there is none), trimmed; else it is \<open>r\<close> itself, not trimmed. A fence that is opened and
  not closed is taken as well. For a block that is closed (by a \<open>```\<close> that no backtick
  follows, for \<open>```php\<close>) this is the inner text of the block, trimmed. The answer to the
  request carries it as \<open>fixed_code\<close>.
\<close>

theorem fixed_code_extraction:
  "extract_fixed_code (JStr r) =
     Inr (JStr (if contains fence_php r
                then py_strip (text_before fence (text_before fence_php (text_after fence_php r)))
                else if contains fence r
                then py_strip (text_before fence (text_after fence r))
                else r))
   \<and> (first_at fence_php pre \<and> first_at fence inner \<and> \<not> prefix ''`'' post
      \<longrightarrow> extract_fixed_code (JStr (pre @ fence_php @ inner @ fence @ post))
          = Inr (JStr (py_strip inner)))
   \<and> (\<not> contains fence_php (pre @ fence @ inner @ fence @ post)
        \<and> first_at fence pre \<and> first_at fence inner
      \<longrightarrow> extract_fixed_code (JStr (pre @ fence @ inner @ fence @ post))
          = Inr (JStr (py_strip inner)))
   \<and> (\<not> contains fence r \<longrightarrow> extract_fixed_code (JStr r) = Inr (JStr r))
   \<and> (extract_fixed_code (JStr r) = Inr (JStr code) \<and> py_len content = Inr n
      \<longrightarrow> ai_fix_reply file_path content (PostReply 200 (Inr (JObj [(''response'', JStr r)]))) =
           \<lparr>status_code = 200,
             body = [(''file'', file_path),
                     (''original_size'', JInt (int n)),
                     (''fixed_size'', JInt (int (length code))),
                     (''fixed_code'', JStr code),
                     (''status'', JStr ''success'')]\<rparr>)"
  using extract_fixed_code_eq [of r] extract_php_fenced extract_plain_fenced extract_unfenced
    ai_fix_reply_fixed_code
  by blast

theorem fixed_code_extraction_witness:
  "extract_fixed_code (JStr ''Fixed:\<newline>```php\<newline><?php echo 1;\<newline>```\<newline>Done'')
       = Inr (JStr ''<?php echo 1;'')
   \<and> extract_fixed_code (JStr ''<?php echo 1;'') = Inr (JStr ''<?php echo 1;'')
   \<and> extract_fixed_code (JStr ''```php\<newline>echo 1;'') = Inr (JStr ''echo 1;'')
   \<and> extract_fixed_code (JStr ''```x'') = Inr (JStr ''x'')
   \<and> extract_fixed_code (JStr ''```php a ````php b'') = Inr (JStr ''a `'')
   \<and> ai_fix_reply (JStr ''a.php'') (JStr ''echo  1;'')
         (PostReply 200 (Inr (JObj [(''response'', JStr ''```x'')])))
       = \<lparr>status_code = 200,
           body = [(''file'', JStr ''a.php''),
                   (''original_size'', JInt 8),
                   (''fixed_size'', JInt 1),
                   (''fixed_code'', JStr ''x''),
                   (''status'', JStr ''success'')]\<rparr>"
proof -
  have h1: "first_at fence_php ''Fixed:\<newline>''"
    by (simp add: first_at_def fence_php_def)
  have h2: "first_at fence ''\<newline><?php echo 1;\<newline>''"
    by (simp add: first_at_def fence_def)
  have h3: "\<not> prefix ''`'' ''\<newline>Done''" by simp
  have h4: "\<not> contains fence ''<?php echo 1;''" by (simp add: fence_def)
  note t = fixed_code_extraction [where pre = "''Fixed:\<newline>''"
      and inner = "''\<newline><?php echo 1;\<newline>''" and post = "''\<newline>Done''"
      and r = "''<?php echo 1;''"]
  from t h1 h2 h3 have
    "extract_fixed_code (JStr (''Fixed:\<newline>'' @ fence_php @ ''\<newline><?php echo 1;\<newline>'' @ fence @ ''\<newline>Done''))
       = Inr (JStr (py_strip ''\<newline><?php echo 1;\<newline>''))"
    by blast
  then have c1: "extract_fixed_code (JStr ''Fixed:\<newline>```php\<newline><?php echo 1;\<newline>```\<newline>Done'')
       = Inr (JStr ''<?php echo 1;'')"
    by (simp add: fence_def fence_php_def py_strip_def py_isspace_def)
  from t h4 have c2: "extract_fixed_code (JStr ''<?php echo 1;'') = Inr (JStr ''<?php echo 1;'')"
    by blast
  have c3: "extract_fixed_code (JStr ''```php\<newline>echo 1;'') = Inr (JStr ''echo 1;'')"
    using fixed_code_extraction [where r = "''```php\<newline>echo 1;''"]
    by (simp add: fence_def fence_php_def py_strip_def py_isspace_def)
  have c4: "extract_fixed_code (JStr ''```x'') = Inr (JStr ''x'')"
    using fixed_code_extraction [where r = "''```x''"]
    by (simp add: fence_def fence_php_def py_strip_def py_isspace_def)
  have c5: "extract_fixed_code (JStr ''```php a ````php b'') = Inr (JStr ''a `'')"
    using fixed_code_extraction [where r = "''```php a ````php b''"]
    by (simp add: fence_def fence_php_def py_strip_def py_isspace_def)
  have l: "py_len (JStr ''echo  1;'') = Inr 8" by simp
  from fixed_code_extraction [where r = "''```x''" and code = "''x''"
      and content = "JStr ''echo  1;''" and n = 8 and file_path = "JStr ''a.php''"] c4 l
  have c6: "ai_fix_reply (JStr ''a.php'') (JStr ''echo  1;'')
         (PostReply 200 (Inr (JObj [(''response'', JStr ''```x'')])))
       = \<lparr>status_code = 200,
           body = [(''file'', JStr ''a.php''),
                   (''original_size'', JInt 8),
                   (''fixed_size'', JInt 1),
                   (''fixed_code'', JStr ''x''),
                   (''status'', JStr ''success'')]\<rparr>"
    by simp
  from c1 c2 c3 c4 c5 c6 show ?thesis by (intro conjI)
qed

text \<open>
  C4 as worded fails: a response without a fence is returned as it is, the blanks around
  it stay.
\<close>

theorem unfenced_response_not_trimmed_counterexample:
  "\<not> contains fence '' echo 1; ''
   \<and> extract_fixed_code (JStr '' echo 1; '') = Inr (JStr '' echo 1; '')
   \<and> py_strip '' echo 1; '' = ''echo 1;''
   \<and> ai_fix_reply (JStr ''a.php'') (JStr ''echo  1;'')
         (PostReply 200 (Inr (JObj [(''response'', JStr '' echo 1; '')])))
       = \<lparr>status_code = 200,
           body = [(''file'', JStr ''a.php''),
                   (''original_size'', JInt 8),
                   (''fixed_size'', JInt 9),
                   (''fixed_code'', JStr '' echo 1; ''),
                   (''status'', JStr ''success'')]\<rparr>"
  by (simp add: extract_fixed_code_def fence_def fence_php_def py_strip_def py_isspace_def
      ai_fix_reply_def get_response_def send_json_def)

subsection \<open>Textual metrics\<close>

lemma re_search_None:
  "re_search m s = None \<Longrightarrow> \<forall>k\<le>length s. m (drop k s) = None"
proof (induction s)
  case Nil
  then show ?case by simp
next
  case (Cons c cs)
  from Cons.prems have here: "m (c # cs) = None" and rest: "re_search m cs = None"
    by (simp_all split: option.split_asm)
  show ?case
  proof (intro allI impI)
    fix k
    assume k: "k \<le> length (c # cs)"
    show "m (drop k (c # cs)) = None"
    proof (cases k)
      case 0
      then show ?thesis using here by simp
    next
      case (Suc j)
      then show ?thesis using Cons.IH [OF rest] k by simp
    qed
  qed
qed

text \<open>
  C6 (as amended). \<open>process_test_result\<close> reports for \<open>Tests:\<close>, \<open>Assertions:\<close> and
  \<open>Failures:\<close> the number of the first match in the whole output, and 0 when the pattern
  matches nowhere. \<open>process_cs_fix_result\<close> reports the count of the last line that
  mentions \<open>Fixed\<close> or \<open>fixed\<close> and matches \<open>(\d+)\s+file\<close> (the first match within
  that line), and 0 when there is no such line. A matched count of more digits than the
  interpreter's limit for \<open>int\<close> (4300 unless changed) makes the post-processor raise the
  \<open>ValueError\<close> of the first such conversion instead. Where the pattern is absent
  nothing is converted and nothing is raised.
\<close>

theorem textual_metrics:
  "process_test_result E result =
     (case find (over_limit E) (test_digits (stdout result)) of
        Some ds \<Rightarrow> Inl (int_limit_error (int_max_str_digits E) ds)
      | None \<Rightarrow>
          Inr [(''tests_run'', JInt (int (first_match_count ''Tests:'' (stdout result)))),
               (''assertions'', JInt (int (first_match_count ''Assertions:'' (stdout result)))),
               (''failures'', JInt (int (first_match_count ''Failures:'' (stdout result)))),
               (''success'', JBool (returncode result = 0))])
   \<and> process_cs_fix_result E result =
     (case find (over_limit E) (fixed_digits (py_split ''\<newline>'' (stdout result))) of
        Some ds \<Rightarrow> Inl (int_limit_error (int_max_str_digits E) ds)
      | None \<Rightarrow>
          Inr [(''files_fixed'', JInt (int (last_fixed_count (py_split ''\<newline>'' (stdout result))))),
               (''message'',
                JStr (if 0 < last_fixed_count (py_split ''\<newline>'' (stdout result))
                      then ''Fixed '' @ nat_to_str (last_fixed_count (py_split ''\<newline>'' (stdout result)))
                           @ '' file(s)''
                      else ''No files needed fixing''))])
   \<and> ((\<forall>k\<le>length out. match_label_count label (drop k out) = None)
        \<longrightarrow> metric E label out = Inr 0 \<and> first_match_count label out = 0)
   \<and> (test_digits (stdout result) = []
        \<longrightarrow> process_test_result E result =
              Inr [(''tests_run'', JInt 0), (''assertions'', JInt 0), (''failures'', JInt 0),
                   (''success'', JBool (returncode result = 0))])
   \<and> (fixed_digits (py_split ''\<newline>'' (stdout result)) = []
        \<longrightarrow> process_cs_fix_result E result =
              Inr [(''files_fixed'', JInt 0), (''message'', JStr ''No files needed fixing'')])"
proof (intro conjI impI)
  show "process_test_result E result =
     (case find (over_limit E) (test_digits (stdout result)) of
        Some ds \<Rightarrow> Inl (int_limit_error (int_max_str_digits E) ds)
      | None \<Rightarrow>
          Inr [(''tests_run'', JInt (int (first_match_count ''Tests:'' (stdout result)))),
               (''assertions'', JInt (int (first_match_count ''Assertions:'' (stdout result)))),
               (''failures'', JInt (int (first_match_count ''Failures:'' (stdout result)))),
               (''success'', JBool (returncode result = 0))])"
    by (rule process_test_result_eq)
  show "process_cs_fix_result E result =
     (case find (over_limit E) (fixed_digits (py_split ''\<newline>'' (stdout result))) of
        Some ds \<Rightarrow> Inl (int_limit_error (int_max_str_digits E) ds)
      | None \<Rightarrow>
          Inr [(''files_fixed'', JInt (int (last_fixed_count (py_split ''\<newline>'' (stdout result))))),
               (''message'',
                JStr (if 0 < last_fixed_count (py_split ''\<newline>'' (stdout result))
                      then ''Fixed '' @ nat_to_str (last_fixed_count (py_split ''\<newline>'' (stdout result)))
                           @ '' file(s)''
                      else ''No files needed fixing''))])"
    by (rule process_cs_fix_result_eq)
next
  assume "\<forall>k\<le>length out. match_label_count label (drop k out) = None"
  then have n: "first_match (match_label_count label) out = None"
    by (rule first_match_absent)
  show "metric E label out = Inr 0"
    unfolding metric_first_match n by simp
  show "first_match_count label out = 0"
    unfolding first_match_count_def n by simp
next
  assume n: "test_digits (stdout result) = []"
  then have "first_match (match_label_count ''Tests:'') (stdout result) = None"
    and "first_match (match_label_count ''Assertions:'') (stdout result) = None"
    and "first_match (match_label_count ''Failures:'') (stdout result) = None"
    unfolding test_digits_eq by (auto split: option.split_asm)
  then show "process_test_result E result =
              Inr [(''tests_run'', JInt 0), (''assertions'', JInt 0), (''failures'', JInt 0),
                   (''success'', JBool (returncode result = 0))]"
    unfolding process_test_result_eq n by (simp add: first_match_count_def)
next
  assume n: "fixed_digits (py_split ''\<newline>'' (stdout result)) = []"
  show "process_cs_fix_result E result =
              Inr [(''files_fixed'', JInt 0), (''message'', JStr ''No files needed fixing'')]"
    unfolding process_cs_fix_result_eq n
    by (simp add: last_fixed_count_def fixed_counts_def n)
qed

theorem textual_metrics_witness:
  "process_test_result stub_env
     \<lparr>returncode = 1, stdout = ''Tests: 12, Assertions: 30, Failures: 2.'', stderr = []\<rparr>
     = Inr [(''tests_run'', JInt 12), (''assertions'', JInt 30), (''failures'', JInt 2),
            (''success'', JBool False)]
   \<and> process_cs_fix_result stub_env
       \<lparr>returncode = 0, stdout = ''Fixed '' @ replicate 4301 (CHR ''1'') @ '' files'', stderr = []\<rparr>
     = Inl (ValueError (''Exceeds the limit (4300 digits) for integer string conversion: '' @
              ''value has 4301 digits; use sys.set_int_max_str_digits() to increase the limit''))
   \<and> metric stub_env ''Tests:'' ''OK (no tests)'' = Inr 0
   \<and> process_test_result stub_env \<lparr>returncode = 0, stdout = ''OK (no tests)'', stderr = []\<rparr>
     = Inr [(''tests_run'', JInt 0), (''assertions'', JInt 0), (''failures'', JInt 0),
            (''success'', JBool True)]
   \<and> process_cs_fix_result stub_env \<lparr>returncode = 0, stdout = ''nothing to fix'', stderr = []\<rparr>
     = Inr [(''files_fixed'', JInt 0), (''message'', JStr ''No files needed fixing'')]"
proof -
  let ?r1 = "\<lparr>returncode = 1, stdout = ''Tests: 12, Assertions: 30, Failures: 2.'', stderr = []\<rparr>"
  let ?ones = "replicate 4301 (CHR ''1'')"
  let ?r2 = "\<lparr>returncode = 0, stdout = ''Fixed '' @ ?ones @ '' files'', stderr = []\<rparr>"
  let ?r3 = "\<lparr>returncode = 0, stdout = ''OK (no tests)'', stderr = []\<rparr>"
  let ?r4 = "\<lparr>returncode = 0, stdout = ''nothing to fix'', stderr = []\<rparr>"
  have d1: "test_digits (stdout ?r1) = [''12'', ''30'', ''2'']"
    by (simp add: test_digits_eq re_search_first_match [symmetric] match_label_count_def
        is_digit_def py_isspace_def Let_def)
  have f1: "find (over_limit stub_env) [''12'', ''30'', ''2''] = None"
    by (simp add: over_limit_def stub_env_def)
  have v1: "first_match_count ''Tests:'' (stdout ?r1) = 12"
    "first_match_count ''Assertions:'' (stdout ?r1) = 30"
    "first_match_count ''Failures:'' (stdout ?r1) = 2"
    by (simp_all add: first_match_count_def re_search_first_match [symmetric]
        match_label_count_def is_digit_def py_isspace_def decimal_def digit_val_def Let_def)
  from textual_metrics [where E = stub_env and result = ?r1]
  have "process_test_result stub_env ?r1 =
     (case find (over_limit stub_env) (test_digits (stdout ?r1)) of
        Some ds \<Rightarrow> Inl (int_limit_error (int_max_str_digits stub_env) ds)
      | None \<Rightarrow>
          Inr [(''tests_run'', JInt (int (first_match_count ''Tests:'' (stdout ?r1)))),
               (''assertions'', JInt (int (first_match_count ''Assertions:'' (stdout ?r1)))),
               (''failures'', JInt (int (first_match_count ''Failures:'' (stdout ?r1)))),
               (''success'', JBool (returncode ?r1 = 0))])"
    by blast
  then have c1: "process_test_result stub_env ?r1
     = Inr [(''tests_run'', JInt 12), (''assertions'', JInt 30), (''failures'', JInt 2),
            (''success'', JBool False)]"
    unfolding d1 f1 v1 by simp
  have d2: "fixed_digits (py_split ''\<newline>'' (stdout ?r2)) = [?ones]"
    using fixed_line_split [OF ones_over_limit(2)]
      fixed_line_digits [OF ones_over_limit(1) ones_over_limit(2)]
    by simp
  have f2: "find (over_limit stub_env) [?ones] = Some ?ones"
    using ones_over_limit(3) by simp
  from textual_metrics [where E = stub_env and result = ?r2]
  have "process_cs_fix_result stub_env ?r2 =
     (case find (over_limit stub_env) (fixed_digits (py_split ''\<newline>'' (stdout ?r2))) of
        Some ds \<Rightarrow> Inl (int_limit_error (int_max_str_digits stub_env) ds)
      | None \<Rightarrow>
          Inr [(''files_fixed'', JInt (int (last_fixed_count (py_split ''\<newline>'' (stdout ?r2))))),
               (''message'',
                JStr (if 0 < last_fixed_count (py_split ''\<newline>'' (stdout ?r2))
                      then ''Fixed '' @ nat_to_str (last_fixed_count (py_split ''\<newline>'' (stdout ?r2)))
                           @ '' file(s)''
                      else ''No files needed fixing''))])"
    by blast
  then have c2: "process_cs_fix_result stub_env ?r2
     = Inl (ValueError (''Exceeds the limit (4300 digits) for integer string conversion: '' @
              ''value has 4301 digits; use sys.set_int_max_str_digits() to increase the limit''))"
    unfolding d2 f2 by (simp only: option.case ones_over_limit(4))
  have "re_search (match_label_count ''Tests:'') ''OK (no tests)'' = None"
    by (simp add: match_label_count_def)
  then have h3: "\<forall>k\<le>length ''OK (no tests)''.
      match_label_count ''Tests:'' (drop k ''OK (no tests)'') = None"
    by (rule re_search_None)
  from textual_metrics [where E = stub_env and label = "''Tests:''" and out = "''OK (no tests)''"] h3
  have c3: "metric stub_env ''Tests:'' ''OK (no tests)'' = Inr 0"
    by blast
  have h4: "test_digits (stdout ?r3) = []"
    by (simp add: test_digits_eq re_search_first_match [symmetric] match_label_count_def)
  from textual_metrics [where E = stub_env and result = ?r3] h4
  have "process_test_result stub_env ?r3 =
              Inr [(''tests_run'', JInt 0), (''assertions'', JInt 0), (''failures'', JInt 0),
                   (''success'', JBool (returncode ?r3 = 0))]"
    by blast
  then have c4: "process_test_result stub_env ?r3
     = Inr [(''tests_run'', JInt 0), (''assertions'', JInt 0), (''failures'', JInt 0),
            (''success'', JBool True)]"
    by simp
  have h5: "fixed_digits (py_split ''\<newline>'' (stdout ?r4)) = []"
    by (simp add: py_split_def fixed_digits_Cons fixed_digits_Nil)
  from textual_metrics [where E = stub_env and result = ?r4] h5
  have c5: "process_cs_fix_result stub_env ?r4
     = Inr [(''files_fixed'', JInt 0), (''message'', JStr ''No files needed fixing'')]"
    by blast
  from c1 c2 c3 c4 c5 show ?thesis by (intro conjI)
qed

lemma cs_fix_example:
  "process_cs_fix_result stub_env
     \<lparr>returncode = 0, stdout = ''Fixed 3 files\<newline>Fixed 5 files'', stderr = []\<rparr>
     = Inr [(''files_fixed'', JInt 5), (''message'', JStr ''Fixed 5 file(s)'')]"
  by (simp add: process_cs_fix_result_def cs_fix_line_def py_split_def match_count_file_def
      is_digit_def py_isspace_def py_int_def decimal_def digit_val_def stub_env_def Let_def
      nat_to_str.simps [of 5] digit_chars)

lemma first_in_output_example:
  "first_match match_count_file ''Fixed 3 files\<newline>Fixed 5 files'' = Some ''3''"
  by (simp add: re_search_first_match [symmetric] match_count_file_def is_digit_def
      py_isspace_def Let_def)

lemma first_fixed_example:
  "first_fixed_count (py_split ''\<newline>'' ''Fixed 3 files\<newline>Fixed 5 files'') = 3"
  by (simp add: first_fixed_count_def fixed_counts_def fixed_digits_def map_filter_simps
      re_search_first_match [symmetric] py_split_def match_count_file_def
      is_digit_def py_isspace_def decimal_def digit_val_def Let_def)

text \<open>
  C6 as worded fails: with two lines that report a count, \<open>files_fixed\<close> is the count of
  the second line (5), not the first match in the output (3).
\<close>

theorem files_fixed_last_line_counterexample:
  "process_cs_fix_result stub_env
     \<lparr>returncode = 0, stdout = ''Fixed 3 files\<newline>Fixed 5 files'', stderr = []\<rparr>
     = Inr [(''files_fixed'', JInt 5), (''message'', JStr ''Fixed 5 file(s)'')]
   \<and> first_match match_count_file ''Fixed 3 files\<newline>Fixed 5 files'' = Some ''3''
   \<and> first_fixed_count (py_split ''\<newline>'' ''Fixed 3 files\<newline>Fixed 5 files'') = 3"
  using cs_fix_example first_in_output_example first_fixed_example by (intro conjI)

subsection \<open>Round trip of a write and a read\<close>

lemma join_split_from:
  "concat (map (\<lambda>l. l @ [n]) (split_from [n] piece s)) = piece @ s @ [n]"
  by (induction "[n]" piece s rule: split_from.induct) auto

lemma split_from_append_sep:
  "split_from [n] piece (s @ n # t) = split_from [n] piece s @ split_from [n] [] t"
  by (induction "[n]" piece s rule: split_from.induct) auto

lemma split_EOF: "split_from ''\<newline>'' [] ''EOF'' = [''EOF'']"
  by simp

lemma heredoc_plain:
  assumes "''EOF'' \<notin> set (py_split ''\<newline>'' c)"
  shows "heredoc (c @ ''\<newline>EOF'') = (c @ ''\<newline>'', [])"
proof -
  have ls: "py_split ''\<newline>'' (c @ ''\<newline>EOF'') = py_split ''\<newline>'' c @ [''EOF'']"
    unfolding py_split_def
    using split_from_append_sep [of "CHR ''\<newline>''" "[]" c "''EOF''"] split_EOF by simp
  have all: "\<forall>l\<in>set (py_split ''\<newline>'' c). l \<noteq> ''EOF''"
    using assms by blast
  have t: "takeWhile (\<lambda>l. l \<noteq> ''EOF'') (py_split ''\<newline>'' c @ [''EOF'']) = py_split ''\<newline>'' c"
    using all by (simp add: takeWhile_append2)
  have d: "dropWhile (\<lambda>l. l \<noteq> ''EOF'') (py_split ''\<newline>'' c @ [''EOF'']) = [''EOF'']"
    using all by (simp add: dropWhile_append2)
  have j: "concat (map (\<lambda>l. l @ ''\<newline>'') (py_split ''\<newline>'' c)) = c @ ''\<newline>''"
    unfolding py_split_def using join_split_from [of "CHR ''\<newline>''" "[]" c] by simp
  show ?thesis
    unfolding heredoc_def Let_def ls t d j by simp
qed

lemma plain_not_space: "plain_char c \<Longrightarrow> c \<noteq> CHR '' ''"
  by (auto simp add: plain_char_def)

lemma plain_root: "list_all plain_char ''/var/www/html/apps-extra/openregister/''"
  by (simp add: plain_char_def)

lemma plain_path_root:
  "plain_path p \<Longrightarrow> plain_path (''/var/www/html/apps-extra/openregister/'' @ p)"
  using plain_root by (simp add: plain_path_def)

lemma target_write:
  assumes "plain_path p" and "''EOF'' \<notin> set (py_split ''\<newline>'' c)"
  shows "target_exec fs (''cat > /var/www/html/apps-extra/openregister/'' @ p @
                         '' << 'EOF'\<newline>'' @ c @ ''\<newline>EOF'')
         = Some (\<lparr>returncode = 0, stdout = [], stderr = []\<rparr>,
                 AList.update (''/var/www/html/apps-extra/openregister/'' @ p) (c @ ''\<newline>'') fs)"
proof -
  let ?path = "''/var/www/html/apps-extra/openregister/'' @ p"
  let ?tail = "'' << 'EOF'\<newline>'' @ c @ ''\<newline>EOF''"
  let ?cmd = "''cat > /var/www/html/apps-extra/openregister/'' @ p @ ?tail"
  have f1: "prefix ''cat > '' ?cmd" by simp
  have f2: "drop 6 ?cmd = ?path @ ?tail" by simp
  have pp: "plain_path ?path" using assms(1) by (rule plain_path_root)
  then have ns: "\<forall>ch\<in>set ?path. ch \<noteq> CHR '' ''"
    using plain_not_space by (auto simp add: plain_path_def list_all_iff)
  have stop: "?tail = [] \<or> \<not> (hd ?tail \<noteq> CHR '' '')" by simp
  have f3: "takeWhile (\<lambda>c. c \<noteq> CHR '' '') (?path @ ?tail) = ?path"
    by (rule run_then_stop(1) [OF ns stop])
  have f4: "dropWhile (\<lambda>c. c \<noteq> CHR '' '') (?path @ ?tail) = ?tail"
    by (rule run_then_stop(2) [OF ns stop])
  have f5: "prefix '' << 'EOF'\<newline>'' ?tail" by simp
  have f6: "drop 10 ?tail = c @ ''\<newline>EOF''" by simp
  have f7: "heredoc (c @ ''\<newline>EOF'') = (c @ ''\<newline>'', [])"
    using assms(2) by (rule heredoc_plain)
  show ?thesis
    unfolding target_exec_def Let_def
    by (simp only: f1 f2 f3 f4 pp f5 f6 f7 if_True simp_thms prod.case list.case)
qed

lemma target_read:
  assumes "plain_path p"
    and "map_of fs (''/var/www/html/apps-extra/openregister/'' @ p) = Some c"
  shows "target_exec fs (''cat /var/www/html/apps-extra/openregister/'' @ p)
         = Some (\<lparr>returncode = 0, stdout = c, stderr = []\<rparr>, fs)"
proof -
  let ?path = "''/var/www/html/apps-extra/openregister/'' @ p"
  let ?cmd = "''cat /var/www/html/apps-extra/openregister/'' @ p"
  have f0: "\<not> prefix ''cat > '' ?cmd" by simp
  have f1: "prefix ''cat '' ?cmd" by simp
  have f2: "drop 4 ?cmd = ?path" by simp
  have pp: "plain_path ?path" using assms(1) by (rule plain_path_root)
  show ?thesis
    unfolding target_exec_def Let_def
    by (simp only: f0 f1 f2 pp assms(2) if_True if_False option.case)
qed

text \<open>
  C3. In the model of the target, a write by \<open>write_file_handler\<close> of the content \<open>c\<close> to a
  valid path, \<open>c\<close> having no line \<open>EOF\<close>, succeeds and leaves the file with \<open>c\<close> and one
  newline more; the read that follows returns \<open>c @ ''\<newline>''\<close>, never \<open>c\<close>.
\<close>

theorem heredoc_write_then_read:
  assumes "plain_path p" and "\<not> contains ''..'' p" and "\<not> prefix ''/'' p"
    and "''EOF'' \<notin> set (py_split ''\<newline>'' c)"
  shows "write_then_read E target_bridge p c fs =
           (Inr [(''file'', JStr p),
                 (''bytes_written'', JInt (int (length c))),
                 (''lines_written'', JInt (int (length (py_split ''\<newline>'' c)))),
                 (''status'', JStr ''success'')],
            Inr [(''file'', JStr p),
                 (''content'', JStr (c @ ''\<newline>'')),
                 (''size'', JInt (int (length (c @ ''\<newline>'')))),
                 (''lines'', JInt (int (length (py_split ''\<newline>'' (c @ ''\<newline>'')))))])
       \<and> c @ ''\<newline>'' \<noteq> c"
proof -
  let ?path = "''/var/www/html/apps-extra/openregister/'' @ p"
  let ?fs1 = "AList.update ?path (c @ ''\<newline>'') fs"
  let ?ok = "\<lparr>returncode = 0, stdout = [], stderr = []\<rparr>"
  have chk: "path_check (JStr p) = Inr False" using assms(2) assms(3) by simp
  have wb: "target_bridge (''cat > /var/www/html/apps-extra/openregister/'' @ p @
                           '' << 'EOF'\<newline>'' @ c @ ''\<newline>EOF'') 10 fs
            = (Completed ?ok, ?fs1)"
    unfolding target_bridge_def
    by (simp only: target_write [OF assms(1) assms(4)] option.case prod.case)
  have w: "write_file_handler E target_bridge (JObj [(''file'', JStr p), (''content'', JStr c)]) fs =
           (Inr [(''file'', JStr p),
                 (''bytes_written'', JInt (int (length c))),
                 (''lines_written'', JInt (int (length (py_split ''\<newline>'' c)))),
                 (''status'', JStr ''success'')], ?fs1)"
  proof -
    have a: "py_in ''file'' (JObj [(''file'', JStr p), (''content'', JStr c)]) = Inr True"
      and a': "py_in ''content'' (JObj [(''file'', JStr p), (''content'', JStr c)]) = Inr True"
      and b: "py_getitem (JObj [(''file'', JStr p), (''content'', JStr c)]) ''file'' = Inr (JStr p)"
      and b': "py_getitem (JObj [(''file'', JStr p), (''content'', JStr c)]) ''content'' = Inr (JStr c)"
      and f: "fmt E (JStr p) = p" and f': "fmt E (JStr c) = c"
      by (simp_all add: fmt_def)
    show ?thesis
      unfolding write_file_handler_def
      apply (simp only: a a' b b' f f' chk wb sum.case bool.case prod.case run_outcome.case)
      apply simp
      done
  qed
  have m: "map_of ?fs1 ?path = Some (c @ ''\<newline>'')"
    by (simp add: update_conv')
  have rb: "target_bridge (''cat /var/www/html/apps-extra/openregister/'' @ p) 10 ?fs1
            = (Completed \<lparr>returncode = 0, stdout = c @ ''\<newline>'', stderr = []\<rparr>, ?fs1)"
    unfolding target_bridge_def
    by (simp only: target_read [OF assms(1) m] option.case prod.case)
  have r: "read_file_handler E target_bridge (JObj [(''file'', JStr p)]) ?fs1 =
           (Inr [(''file'', JStr p),
                 (''content'', JStr (c @ ''\<newline>'')),
                 (''size'', JInt (int (length (c @ ''\<newline>'')))),
                 (''lines'', JInt (int (length (py_split ''\<newline>'' (c @ ''\<newline>'')))))], ?fs1)"
  proof -
    have a: "py_in ''file'' (JObj [(''file'', JStr p)]) = Inr True"
      and b: "py_getitem (JObj [(''file'', JStr p)]) ''file'' = Inr (JStr p)"
      and f: "fmt E (JStr p) = p"
      by (simp_all add: fmt_def)
    show ?thesis
      unfolding read_file_handler_def
      apply (simp only: a b f chk rb sum.case bool.case prod.case run_outcome.case)
      apply simp
      done
  qed
  have "write_then_read E target_bridge p c fs =
           (Inr [(''file'', JStr p),
                 (''bytes_written'', JInt (int (length c))),
                 (''lines_written'', JInt (int (length (py_split ''\<newline>'' c)))),
                 (''status'', JStr ''success'')],
            Inr [(''file'', JStr p),
                 (''content'', JStr (c @ ''\<newline>'')),
                 (''size'', JInt (int (length (c @ ''\<newline>'')))),
                 (''lines'', JInt (int (length (py_split ''\<newline>'' (c @ ''\<newline>'')))))])"
    unfolding write_then_read_def by (simp only: w r prod.case)
  moreover have "c @ ''\<newline>'' \<noteq> c" by simp
  ultimately show ?thesis by (rule conjI)
qed

theorem heredoc_write_then_read_witness:
  "plain_path ''lib/a.php''
   \<and> \<not> contains ''..'' ''lib/a.php''
   \<and> \<not> prefix ''/'' ''lib/a.php''
   \<and> ''EOF'' \<notin> set (py_split ''\<newline>'' ''<?php echo 1;'')
   \<and> write_then_read stub_env target_bridge ''lib/a.php'' ''<?php echo 1;'' []
       = (Inr [(''file'', JStr ''lib/a.php''),
               (''bytes_written'', JInt 13),
               (''lines_written'', JInt 1),
               (''status'', JStr ''success'')],
          Inr [(''file'', JStr ''lib/a.php''),
               (''content'', JStr ''<?php echo 1;\<newline>''),
               (''size'', JInt 14),
               (''lines'', JInt 2)])"
proof -
  have h1: "plain_path ''lib/a.php''" by (simp add: plain_path_def plain_char_def)
  have h2: "\<not> contains ''..'' ''lib/a.php''" by simp
  have h3: "\<not> prefix ''/'' ''lib/a.php''" by simp
  have h4: "''EOF'' \<notin> set (py_split ''\<newline>'' ''<?php echo 1;'')" by (simp add: py_split_def)
  note t = heredoc_write_then_read [OF h1 h2 h3 h4, of stub_env "[]"]
  from t have c: "write_then_read stub_env target_bridge ''lib/a.php'' ''<?php echo 1;'' []
       = (Inr [(''file'', JStr ''lib/a.php''),
               (''bytes_written'', JInt 13),
               (''lines_written'', JInt 1),
               (''status'', JStr ''success'')],
          Inr [(''file'', JStr ''lib/a.php''),
               (''content'', JStr ''<?php echo 1;\<newline>''),
               (''size'', JInt 14),
               (''lines'', JInt 2)])"
    by (simp add: py_split_def)
  from h1 h2 h3 h4 c show ?thesis by blast
qed

end
